theory Spec2Isabelle
  imports Complex_Main
begin

section \<open>IsoTarget: the dual-view transform, history and compositing core\<close>

text \<open>
  The development embeds the class \<^verbatim>\<open>OrthogonalMatchUI\<close> of \<^verbatim>\<open>IsoTarget.py\<close>
  (the classroom build has the same handlers). Python floats are read as real numbers.
  The string tags of the program are datatypes: the views \<^verbatim>\<open>'ap'\<close>, \<^verbatim>\<open>'lat'\<close>, the slot
  keys \<^verbatim>\<open>'drr_ap'\<close>, \<^verbatim>\<open>'kv_ap'\<close>, \<^verbatim>\<open>'drr_lat'\<close>, \<^verbatim>\<open>'kv_lat'\<close>, the offset keys
  \<^verbatim>\<open>'ap_x'\<close>, \<^verbatim>\<open>'ap_y'\<close>, \<^verbatim>\<open>'lat_x'\<close>, \<^verbatim>\<open>'lat_y'\<close> and the adjustment kinds.
\<close>

subsection \<open>Keys\<close>

datatype view = AP | LAT

datatype slot = DRR_AP | KV_AP | DRR_LAT | KV_LAT

datatype kv_key = AP_X | AP_Y | LAT_X | LAT_Y

datatype adj_kind = Brightness | Contrast | Sharpness

text \<open>The f-strings \<^verbatim>\<open>f'drr_{view}'\<close>, \<^verbatim>\<open>f'kv_{view}'\<close>, \<^verbatim>\<open>f'{view}_x'\<close>, \<^verbatim>\<open>f'{view}_y'\<close>.\<close>

fun drr_slot :: "view \<Rightarrow> slot" where
  "drr_slot AP = DRR_AP"
| "drr_slot LAT = DRR_LAT"

fun kv_slot :: "view \<Rightarrow> slot" where
  "kv_slot AP = KV_AP"
| "kv_slot LAT = KV_LAT"

fun x_key :: "view \<Rightarrow> kv_key" where
  "x_key AP = AP_X"
| "x_key LAT = LAT_X"

fun y_key :: "view \<Rightarrow> kv_key" where
  "y_key AP = AP_Y"
| "y_key LAT = LAT_Y"

text \<open>\<^verbatim>\<open>'ap' if 'ap' in key else 'lat'\<close> on a slot key.\<close>

fun slot_view :: "slot \<Rightarrow> view" where
  "slot_view DRR_AP = AP"
| "slot_view KV_AP = AP"
| "slot_view DRR_LAT = LAT"
| "slot_view KV_LAT = LAT"

text \<open>Keys of \<^verbatim>\<open>self.tk_images\<close>: \<^verbatim>\<open>'AP Match'\<close>, \<^verbatim>\<open>'Lateral Match'\<close> and the four slot keys.\<close>

datatype tk_key = Match view | Thumb slot

subsection \<open>Messages of the status bar\<close>

datatype status =
    Ready
  | AP_selected
  | Lateral_selected
  | No_initial_state
  | Restored_to_default
  | Nothing_to_undo
  | Undo_successful
  | No_image_loaded slot
  | Selected slot
  | Adjusted adj_kind real
  | Reset_adjustments slot
  | Please_select_a_filter
  | Load_a_dataset_first
  | Applied string slot
  | Filter_error string
  | Dataset_not_found string
  | Loaded nat string
  | No_valid_images

subsection \<open>The object store\<close>

text \<open>
  The dictionaries \<^verbatim>\<open>kv_offsets\<close>, \<^verbatim>\<open>rotations\<close>, \<^verbatim>\<open>zoom_levels\<close>, \<^verbatim>\<open>pan_offsets\<close> and the
  three inner dictionaries of \<^verbatim>\<open>adjustment_values\<close> are mutable objects that the program
  updates in place, copies with \<^verbatim>\<open>.copy()\<close> and passes by reference. They live in a store:
  an attribute holds an address, the store maps the address to the dictionary's content.
  The key set of each dictionary is fixed, so a content is a total function on its keys.
  A history entry is the dictionary \<^verbatim>\<open>st\<close> of \<^verbatim>\<open>_save_state\<close>: addresses of the copies, and
  the two plain values.
\<close>

type_synonym addr = nat

record entry =
  e_kv_offsets :: addr
  e_rotations :: addr
  e_zoom_levels :: addr
  e_pan_offsets :: addr
  e_adjustment_values :: "adj_kind \<Rightarrow> addr"
  e_alpha :: real
  e_use_color_overlay :: bool

record store =
  kv_dicts :: "addr \<Rightarrow> kv_key \<Rightarrow> int"
  num_dicts :: "addr \<Rightarrow> view \<Rightarrow> real"
  pan_dicts :: "addr \<Rightarrow> view \<Rightarrow> real \<times> real"
  next_addr :: addr

text \<open>A new dictionary object: the next free address gets the content.\<close>

definition new_kv :: "(kv_key \<Rightarrow> int) \<Rightarrow> store \<Rightarrow> addr \<times> store" where
  "new_kv d h =
     (next_addr h, h\<lparr>kv_dicts := (kv_dicts h)(next_addr h := d), next_addr := Suc (next_addr h)\<rparr>)"

definition new_num :: "(view \<Rightarrow> real) \<Rightarrow> store \<Rightarrow> addr \<times> store" where
  "new_num d h =
     (next_addr h, h\<lparr>num_dicts := (num_dicts h)(next_addr h := d), next_addr := Suc (next_addr h)\<rparr>)"

definition new_pan :: "(view \<Rightarrow> real \<times> real) \<Rightarrow> store \<Rightarrow> addr \<times> store" where
  "new_pan d h =
     (next_addr h, h\<lparr>pan_dicts := (pan_dicts h)(next_addr h := d), next_addr := Suc (next_addr h)\<rparr>)"

text \<open>
  \<^verbatim>\<open>self.initial_state\<close> holds dictionaries that are built once by \<^verbatim>\<open>_save_initial_state\<close>
  and afterwards only read through \<^verbatim>\<open>.copy()\<close>; they are kept by value.
\<close>

record snapshot =
  i_kv_offsets :: "kv_key \<Rightarrow> int"
  i_rotations :: "view \<Rightarrow> real"
  i_zoom_levels :: "view \<Rightarrow> real"
  i_pan_offsets :: "view \<Rightarrow> real \<times> real"
  i_adjustment_values :: "adj_kind \<Rightarrow> view \<Rightarrow> real"
  i_alpha :: real
  i_use_color_overlay :: bool

subsection \<open>The application state\<close>

text \<open>
  The attributes of \<^verbatim>\<open>_init_state\<close>, the widgets the handlers write to (each widget is the
  value it shows), and the store. Rasters are values of an arbitrary type \<open>'img\<close>: the
  program never changes a raster in place that another attribute shares, so \<^verbatim>\<open>.copy()\<close>
  of a raster is the raster.
\<close>

record 'img app =
  images :: "slot \<Rightarrow> 'img option"
  original_images :: "slot \<Rightarrow> 'img option"
  kv_offsets :: addr
  rotations :: addr
  zoom_levels :: addr
  pan_offsets :: addr
  alpha :: real
  use_color_overlay :: bool
  filter_var :: string
  adj_img_var :: slot
  history :: "entry list"
  initial_state :: "snapshot option"
  drag_start :: "(int \<times> int) option"
  active_view :: "view option"
  tk_images :: "tk_key \<Rightarrow> 'img option"
  ignore_rotation_callback :: bool
  adjustment_values :: "adj_kind \<Rightarrow> addr"
  current_adjustment_image :: slot
  canvas_borders :: "view \<Rightarrow> bool"
  thumb_borders :: "slot \<Rightarrow> bool"
  rotation_scale :: real
  rotation_label :: real
  zoom_label :: int
  brightness_scale :: real
  brightness_val :: real
  contrast_scale :: real
  contrast_val :: real
  sharpness_scale :: real
  sharpness_val :: real
  status_var :: status
  heap :: store

text \<open>The outer dictionary of \<^verbatim>\<open>adjustment_values\<close>, from its three inner addresses.\<close>

fun adj_refs :: "addr \<Rightarrow> addr \<Rightarrow> addr \<Rightarrow> adj_kind \<Rightarrow> addr" where
  "adj_refs b c h Brightness = b"
| "adj_refs b c h Contrast = c"
| "adj_refs b c h Sharpness = h"

subsection \<open>The history stack\<close>

text \<open>
  The last two statements of \<^verbatim>\<open>_save_state\<close>:
  \<^verbatim>\<open>self.history.append(st)\<close>, then \<^verbatim>\<open>if len(self.history) > 20: self.history.pop(0)\<close>.
\<close>

definition hist_push :: "'a list \<Rightarrow> 'a \<Rightarrow> 'a list" where
  "hist_push h st = (let h' = h @ [st] in if length h' > 20 then tl h' else h')"

text \<open>
  \<^verbatim>\<open>_save_state\<close>: copy every dictionary, read the two variables, push the entry. A copy
  is a new object, so every content is the one the dictionary had on entry.
\<close>

definition save_state :: "'img app \<Rightarrow> 'img app" where
  "save_state s =
     (let h = heap s;
          (a_kv, h1) = new_kv (kv_dicts h (kv_offsets s)) h;
          (a_rot, h2) = new_num (num_dicts h (rotations s)) h1;
          (a_zoom, h3) = new_num (num_dicts h (zoom_levels s)) h2;
          (a_pan, h4) = new_pan (pan_dicts h (pan_offsets s)) h3;
          (a_b, h5) = new_num (num_dicts h (adjustment_values s Brightness)) h4;
          (a_c, h6) = new_num (num_dicts h (adjustment_values s Contrast)) h5;
          (a_h, h7) = new_num (num_dicts h (adjustment_values s Sharpness)) h6;
          st = \<lparr>e_kv_offsets = a_kv, e_rotations = a_rot, e_zoom_levels = a_zoom,
                e_pan_offsets = a_pan, e_adjustment_values = adj_refs a_b a_c a_h,
                e_alpha = alpha s, e_use_color_overlay = use_color_overlay s\<rparr>
      in s\<lparr>heap := h7, history := hist_push (history s) st\<rparr>)"

subsection \<open>The imaging library\<close>

text \<open>
  The program builds every raster by calls into Pillow. The calls it makes are the
  fields of a record that the model takes as a parameter, so every result stated for a
  library \<open>P\<close> holds for whatever the library computes. \<open>Image_paste P canvas im box\<close> is the canvas after
  \<^verbatim>\<open>canvas.paste(im, box)\<close>; \<open>Image_resize\<close> is \<^verbatim>\<open>resize(size, LANCZOS)\<close>;
  \<open>Image_rotate\<close> is \<^verbatim>\<open>rotate(angle, expand=False)\<close>; \<open>Image_thumbnail P im size\<close> is
  the raster after \<^verbatim>\<open>im.thumbnail(size)\<close>; an \<open>ImageEnhance_\<close> field is the enhancer's
  \<^verbatim>\<open>enhance(factor)\<close>.
\<close>

datatype image_filter =
    GaussianBlur real
  | UnsharpMask real int int
  | MedianFilter int
  | SMOOTH_MORE

record 'img pillow =
  Image_new :: "string \<Rightarrow> int \<times> int \<Rightarrow> int \<times> int \<times> int \<Rightarrow> 'img"
  Image_resize :: "'img \<Rightarrow> int \<times> int \<Rightarrow> 'img"
  Image_rotate :: "'img \<Rightarrow> real \<Rightarrow> 'img"
  Image_paste :: "'img \<Rightarrow> 'img \<Rightarrow> int \<times> int \<Rightarrow> 'img"
  Image_blend :: "'img \<Rightarrow> 'img \<Rightarrow> real \<Rightarrow> 'img"
  Image_convert :: "'img \<Rightarrow> string \<Rightarrow> 'img"
  Image_merge :: "string \<Rightarrow> 'img list \<Rightarrow> 'img"
  Image_thumbnail :: "'img \<Rightarrow> int \<times> int \<Rightarrow> 'img"
  Image_point :: "'img \<Rightarrow> (int \<Rightarrow> int) \<Rightarrow> 'img"
  Image_filter :: "'img \<Rightarrow> image_filter \<Rightarrow> 'img"
  ImageOps_equalize :: "'img \<Rightarrow> 'img"
  ImageOps_autocontrast :: "'img \<Rightarrow> int \<Rightarrow> 'img"
  ImageChops_subtract :: "'img \<Rightarrow> 'img \<Rightarrow> 'img"
  ImageChops_add :: "'img \<Rightarrow> 'img \<Rightarrow> 'img"
  ImageEnhance_Brightness :: "'img \<Rightarrow> real \<Rightarrow> 'img"
  ImageEnhance_Contrast :: "'img \<Rightarrow> real \<Rightarrow> 'img"
  ImageEnhance_Sharpness :: "'img \<Rightarrow> real \<Rightarrow> 'img"

text \<open>
  For evaluation on concrete inputs: the library whose rasters are the expressions that
  build them. Two rasters built differently are different expressions.
\<close>

datatype expr =
    Src string
  | New string "int \<times> int" "int \<times> int \<times> int"
  | Resize expr "int \<times> int"
  | Rotate expr real
  | Paste expr expr "int \<times> int"
  | Blend expr expr real
  | Convert expr string
  | Merge string "expr list"
  | Thumbnail expr "int \<times> int"
  | Point expr "int \<Rightarrow> int"
  | Filter expr image_filter
  | Equalize expr
  | Autocontrast expr int
  | Subtract expr expr
  | Add expr expr
  | Enh_Brightness expr real
  | Enh_Contrast expr real
  | Enh_Sharpness expr real

definition free_pillow :: "expr pillow" where
  "free_pillow =
     \<lparr>Image_new = New, Image_resize = Resize, Image_rotate = Rotate, Image_paste = Paste,
      Image_blend = Blend, Image_convert = Convert, Image_merge = Merge,
      Image_thumbnail = Thumbnail, Image_point = Point, Image_filter = Filter,
      ImageOps_equalize = Equalize, ImageOps_autocontrast = Autocontrast,
      ImageChops_subtract = Subtract, ImageChops_add = Add,
      ImageEnhance_Brightness = Enh_Brightness, ImageEnhance_Contrast = Enh_Contrast,
      ImageEnhance_Sharpness = Enh_Sharpness\<rparr>"

subsection \<open>Rasters with pixel content\<close>

text \<open>
  For what the claims say about the content of a composed raster: rasters with a mode, a
  size and the bands of every pixel, and the operations with which the compositor builds
  and merges its two canvases, after the documentation of the library. \<^verbatim>\<open>Image.new\<close>
  fills the raster with the colour. \<^verbatim>\<open>paste\<close> with a corner as box copies the pasted
  raster, put with its upper left corner there, over the canvas. \<^verbatim>\<open>Image.blend\<close> is
  \<^verbatim>\<open>out = image1 * (1.0 - alpha) + image2 * alpha\<close> on every band. \<^verbatim>\<open>convert("L")\<close> of an
  RGB raster is the luminance \<^verbatim>\<open>L = R * 299/1000 + G * 587/1000 + B * 114/1000\<close>.
  \<^verbatim>\<open>Image.merge\<close> takes band \<open>i\<close> of the result from the \<open>i\<close>-th single-band raster. Band
  values are read as real numbers (the library stores them in 8 bits). \<^verbatim>\<open>resize\<close> returns
  a raster of the size asked for and \<^verbatim>\<open>rotate\<close> without \<^verbatim>\<open>expand\<close> a raster of the size of
  its argument; what they resample, and every other operation, stays a parameter.
\<close>

record raster =
  im_mode :: string
  im_size :: "int \<times> int"
  im_getpixel :: "int \<times> int \<Rightarrow> real list"

definition Image_new_px :: "string \<Rightarrow> int \<times> int \<Rightarrow> int \<times> int \<times> int \<Rightarrow> raster" where
  "Image_new_px mode sz color =
     \<lparr>im_mode = mode, im_size = sz,
      im_getpixel = (\<lambda>xy. [of_int (fst color), of_int (fst (snd color)), of_int (snd (snd color))])\<rparr>"

definition covers :: "raster \<Rightarrow> int \<times> int \<Rightarrow> int \<times> int \<Rightarrow> bool" where
  "covers im box xy =
     (fst box \<le> fst xy \<and> fst xy < fst box + fst (im_size im) \<and>
      snd box \<le> snd xy \<and> snd xy < snd box + snd (im_size im))"

definition Image_paste_px :: "raster \<Rightarrow> raster \<Rightarrow> int \<times> int \<Rightarrow> raster" where
  "Image_paste_px canvas im box =
     canvas\<lparr>im_getpixel :=
       (\<lambda>xy. if covers im box xy then im_getpixel im (fst xy - fst box, snd xy - snd box)
             else im_getpixel canvas xy)\<rparr>"

definition Image_blend_px :: "raster \<Rightarrow> raster \<Rightarrow> real \<Rightarrow> raster" where
  "Image_blend_px im1 im2 a =
     im1\<lparr>im_getpixel :=
       (\<lambda>xy. map2 (\<lambda>u v. u * (1 - a) + v * a) (im_getpixel im1 xy) (im_getpixel im2 xy))\<rparr>"

definition luminance :: "real list \<Rightarrow> real" where
  "luminance p = p ! 0 * 299 / 1000 + p ! 1 * 587 / 1000 + p ! 2 * 114 / 1000"

definition Image_convert_px :: "raster \<Rightarrow> string \<Rightarrow> raster" where
  "Image_convert_px im mode =
     (if mode = im_mode im then im
      else if mode = ''L'' then
        im\<lparr>im_mode := ''L'', im_getpixel := (\<lambda>xy. [luminance (im_getpixel im xy)])\<rparr>
      else
        im\<lparr>im_mode := mode,
           im_getpixel := (\<lambda>xy. [hd (im_getpixel im xy), hd (im_getpixel im xy),
                                   hd (im_getpixel im xy)])\<rparr>)"

definition Image_merge_px :: "string \<Rightarrow> raster list \<Rightarrow> raster" where
  "Image_merge_px mode bands =
     \<lparr>im_mode = mode, im_size = im_size (hd bands),
      im_getpixel = (\<lambda>xy. map (\<lambda>b. hd (im_getpixel b xy)) bands)\<rparr>"

definition pixel_pillow :: "raster pillow \<Rightarrow> raster pillow" where
  "pixel_pillow R =
     R\<lparr>Image_new := Image_new_px,
       Image_resize := (\<lambda>im sz. (Image_resize R im sz)\<lparr>im_size := sz\<rparr>),
       Image_rotate := (\<lambda>im a. (Image_rotate R im a)\<lparr>im_size := im_size im\<rparr>),
       Image_paste := Image_paste_px,
       Image_blend := Image_blend_px,
       Image_convert := Image_convert_px,
       Image_merge := Image_merge_px\<rparr>"

text \<open>
  For evaluation on pixels: a library whose resampling, enhancers and filters return the
  raster they are given.
\<close>

definition still_pillow :: "raster pillow" where
  "still_pillow =
     \<lparr>Image_new = Image_new_px, Image_resize = (\<lambda>im sz. im), Image_rotate = (\<lambda>im a. im),
      Image_paste = Image_paste_px, Image_blend = Image_blend_px,
      Image_convert = Image_convert_px, Image_merge = Image_merge_px,
      Image_thumbnail = (\<lambda>im sz. im), Image_point = (\<lambda>im f. im),
      Image_filter = (\<lambda>im f. im), ImageOps_equalize = (\<lambda>im. im),
      ImageOps_autocontrast = (\<lambda>im c. im), ImageChops_subtract = (\<lambda>im1 im2. im1),
      ImageChops_add = (\<lambda>im1 im2. im1), ImageEnhance_Brightness = (\<lambda>im f. im),
      ImageEnhance_Contrast = (\<lambda>im f. im), ImageEnhance_Sharpness = (\<lambda>im f. im)\<rparr>"

subsection \<open>Python arithmetic\<close>

text \<open>\<^verbatim>\<open>int(x)\<close> on a float truncates toward zero.\<close>

definition py_int :: "real \<Rightarrow> int" where
  "py_int r = (if 0 \<le> r then \<lfloor>r\<rfloor> else \<lceil>r\<rceil>)"

text \<open>\<^verbatim>\<open>x % m\<close> takes the sign of \<open>m\<close>; here \<open>m\<close> is 360.\<close>

definition py_mod :: "real \<Rightarrow> real \<Rightarrow> real" where
  "py_mod r m = r - m * of_int \<lfloor>r / m\<rfloor>"

datatype exn = ZeroDivisionError

subsection \<open>The compositor\<close>

definition DISPLAY_W :: int where "DISPLAY_W = 600"
definition DISPLAY_H :: int where "DISPLAY_H = 400"
definition THUMB_W :: int where "THUMB_W = 300"
definition THUMB_H :: int where "THUMB_H = 200"

definition create_color_overlay :: "'img pillow \<Rightarrow> 'img \<Rightarrow> 'img \<Rightarrow> 'img" where
  "create_color_overlay P drr_img kv_img =
     (let r = Image_convert P drr_img ''L'';
          gb = Image_convert P kv_img ''L''
      in Image_merge P ''RGB'' [r, gb, gb])"

text \<open>
  The two boxes handed to \<^verbatim>\<open>paste\<close> in \<^verbatim>\<open>_update_match_overlay\<close>:
  \<^verbatim>\<open>(-int(px), -int(py))\<close> and \<^verbatim>\<open>(dx_rel - int(px), dy_rel - int(py))\<close>.
\<close>

definition drr_box :: "real \<times> real \<Rightarrow> int \<times> int" where
  "drr_box p = (- py_int (fst p), - py_int (snd p))"

definition kv_box :: "int \<times> int \<Rightarrow> real \<times> real \<Rightarrow> int \<times> int" where
  "kv_box d p = (fst d - py_int (fst p), snd d - py_int (snd p))"

text \<open>The body of the loop over the views; a view with a raster missing is skipped.\<close>

definition overlay_view :: "'img pillow \<Rightarrow> view \<Rightarrow> 'img app \<Rightarrow> 'img app" where
  "overlay_view P v s =
     (case (images s (drr_slot v), images s (kv_slot v)) of
        (Some drr, Some kv) \<Rightarrow>
          (let z = num_dicts (heap s) (zoom_levels s) v;
               p = pan_dicts (heap s) (pan_offsets s) v;
               sw = py_int (of_int DISPLAY_W * z);
               sh = py_int (of_int DISPLAY_H * z);
               drr_scaled = Image_resize P drr (sw, sh);
               kv_scaled = Image_resize P kv (sw, sh);
               kv_scaled = (if v = AP \<and> num_dicts (heap s) (rotations s) AP \<noteq> 0
                            then Image_rotate P kv_scaled (num_dicts (heap s) (rotations s) AP)
                            else kv_scaled);
               dx_rel = kv_dicts (heap s) (kv_offsets s) (x_key v);
               dy_rel = kv_dicts (heap s) (kv_offsets s) (y_key v);
               drr_view = Image_paste P (Image_new P ''RGB'' (DISPLAY_W, DISPLAY_H) (0, 0, 0))
                            drr_scaled (drr_box p);
               kv_view = Image_paste P (Image_new P ''RGB'' (DISPLAY_W, DISPLAY_H) (0, 0, 0))
                            kv_scaled (kv_box (dx_rel, dy_rel) p);
               blended = (if use_color_overlay s then create_color_overlay P drr_view kv_view
                          else Image_blend P drr_view kv_view (alpha s))
           in s\<lparr>tk_images := (tk_images s)(Match v := Some blended)\<rparr>)
      | _ \<Rightarrow> s)"

text \<open>The body of the loop over the thumbnails.\<close>

definition thumb :: "'img pillow \<Rightarrow> slot \<Rightarrow> 'img app \<Rightarrow> 'img app" where
  "thumb P k s =
     (case images s k of
        Some img \<Rightarrow>
          s\<lparr>tk_images := (tk_images s)(Thumb k := Some (Image_thumbnail P img (THUMB_W, THUMB_H)))\<rparr>
      | None \<Rightarrow> s)"

definition update_match_overlay :: "'img pillow \<Rightarrow> 'img app \<Rightarrow> 'img app" where
  "update_match_overlay P s =
     fold (thumb P) [DRR_AP, KV_AP, DRR_LAT, KV_LAT] (fold (overlay_view P) [AP, LAT] s)"

subsection \<open>In-place updates of the dictionaries\<close>

text \<open>\<^verbatim>\<open>self.kv_offsets[k] += d\<close>\<close>

definition kv_add :: "kv_key \<Rightarrow> int \<Rightarrow> 'img app \<Rightarrow> 'img app" where
  "kv_add k d s =
     s\<lparr>heap := (heap s)\<lparr>kv_dicts := (kv_dicts (heap s))
        (kv_offsets s := (kv_dicts (heap s) (kv_offsets s))
           (k := kv_dicts (heap s) (kv_offsets s) k + d))\<rparr>\<rparr>"

text \<open>\<^verbatim>\<open>d[v] = r\<close> for the dictionary at address \<open>a\<close>.\<close>

definition num_set :: "addr \<Rightarrow> view \<Rightarrow> real \<Rightarrow> 'img app \<Rightarrow> 'img app" where
  "num_set a v r s =
     s\<lparr>heap := (heap s)\<lparr>num_dicts := (num_dicts (heap s))(a := (num_dicts (heap s) a)(v := r))\<rparr>\<rparr>"

definition pan_set :: "addr \<Rightarrow> view \<Rightarrow> real \<times> real \<Rightarrow> 'img app \<Rightarrow> 'img app" where
  "pan_set a v p s =
     s\<lparr>heap := (heap s)\<lparr>pan_dicts := (pan_dicts (heap s))(a := (pan_dicts (heap s) a)(v := p))\<rparr>\<rparr>"

text \<open>
  \<^verbatim>\<open>self.rotations[v] = r\<close>, \<^verbatim>\<open>self.zoom_levels[v] = r\<close>, \<^verbatim>\<open>self.pan_offsets[v] = p\<close> and
  \<^verbatim>\<open>self.adjustment_values[k][v] = r\<close>.
\<close>

definition rotations_set :: "view \<Rightarrow> real \<Rightarrow> 'img app \<Rightarrow> 'img app" where
  "rotations_set v r s = num_set (rotations s) v r s"

definition zoom_levels_set :: "view \<Rightarrow> real \<Rightarrow> 'img app \<Rightarrow> 'img app" where
  "zoom_levels_set v r s = num_set (zoom_levels s) v r s"

definition pan_offsets_set :: "view \<Rightarrow> real \<times> real \<Rightarrow> 'img app \<Rightarrow> 'img app" where
  "pan_offsets_set v p s = pan_set (pan_offsets s) v p s"

definition adjustment_values_set :: "adj_kind \<Rightarrow> view \<Rightarrow> real \<Rightarrow> 'img app \<Rightarrow> 'img app" where
  "adjustment_values_set k v r s = num_set (adjustment_values s k) v r s"

text \<open>An attribute bound to a new dictionary: \<^verbatim>\<open>self.kv_offsets = {...}\<close> and the like.\<close>

definition bind_kv_offsets :: "(kv_key \<Rightarrow> int) \<Rightarrow> 'img app \<Rightarrow> 'img app" where
  "bind_kv_offsets d s = (let (a, h) = new_kv d (heap s) in s\<lparr>heap := h, kv_offsets := a\<rparr>)"

definition bind_rotations :: "(view \<Rightarrow> real) \<Rightarrow> 'img app \<Rightarrow> 'img app" where
  "bind_rotations d s = (let (a, h) = new_num d (heap s) in s\<lparr>heap := h, rotations := a\<rparr>)"

definition bind_zoom_levels :: "(view \<Rightarrow> real) \<Rightarrow> 'img app \<Rightarrow> 'img app" where
  "bind_zoom_levels d s = (let (a, h) = new_num d (heap s) in s\<lparr>heap := h, zoom_levels := a\<rparr>)"

definition bind_pan_offsets :: "(view \<Rightarrow> real \<times> real) \<Rightarrow> 'img app \<Rightarrow> 'img app" where
  "bind_pan_offsets d s = (let (a, h) = new_pan d (heap s) in s\<lparr>heap := h, pan_offsets := a\<rparr>)"

text \<open>
  \<^verbatim>\<open>self.adjustment_values = {k: v.copy() for k, v in d.items()}\<close> and the literal of
  \<^verbatim>\<open>_reset_to_initial_values\<close>: three new inner dictionaries, then the outer one.
\<close>

definition bind_adjustment_values :: "(adj_kind \<Rightarrow> view \<Rightarrow> real) \<Rightarrow> 'img app \<Rightarrow> 'img app" where
  "bind_adjustment_values d s =
     (let (a_b, h) = new_num (d Brightness) (heap s);
          (a_c, h) = new_num (d Contrast) h;
          (a_h, h) = new_num (d Sharpness) h
      in s\<lparr>heap := h, adjustment_values := adj_refs a_b a_c a_h\<rparr>)"

subsection \<open>The scales and their commands\<close>

text \<open>
  The rotation scale and the three adjustment scales are \<^verbatim>\<open>ttk.Scale\<close> widgets with a
  \<^verbatim>\<open>command\<close>. The widget command \<^verbatim>\<open>set\<close>, which the program calls and to which the toolkit
  binds the pointer on the scale, limits the value to the range of the scale, stores it
  and runs the command on it. A variable written with \<^verbatim>\<open>.set\<close> (\<^verbatim>\<open>self.alpha\<close>,
  \<^verbatim>\<open>self.use_color_overlay\<close>, the status) runs no command. Each widget is the value it
  shows; a label shows the number it formats. Message boxes and printed lines are left
  out.
\<close>

definition limit :: "real \<Rightarrow> real \<Rightarrow> real \<Rightarrow> real" where
  "limit lo hi v = (if v < lo then lo else if hi < v then hi else v)"

text \<open>\<^verbatim>\<open>_rotate_active\<close>, the command of the rotation scale.\<close>

definition rotate_active :: "'img pillow \<Rightarrow> real \<Rightarrow> 'img app \<Rightarrow> 'img app" where
  "rotate_active P a s =
     (if ignore_rotation_callback s \<or> active_view s \<noteq> Some AP then s
      else
        (let s = rotations_set AP a s;
             s = s\<lparr>rotation_label := a\<rparr>;
             s = save_state s
         in update_match_overlay P s))"

text \<open>\<^verbatim>\<open>self.rotation_scale.set(v)\<close>; the scale runs from -180 to 180.\<close>

definition rotation_scale_set :: "'img pillow \<Rightarrow> real \<Rightarrow> 'img app \<Rightarrow> 'img app" where
  "rotation_scale_set P v s =
     (let v = limit (- 180) 180 v;
          s = s\<lparr>rotation_scale := v\<rparr>
      in rotate_active P v s)"

text \<open>The first statements of \<^verbatim>\<open>_adjust_image\<close>: the label of the scale that moved.\<close>

fun show_adjustment :: "adj_kind \<Rightarrow> real \<Rightarrow> 'img app \<Rightarrow> 'img app" where
  "show_adjustment Brightness r s = s\<lparr>brightness_val := r\<rparr>"
| "show_adjustment Contrast r s = s\<lparr>contrast_val := r\<rparr>"
| "show_adjustment Sharpness r s = s\<lparr>sharpness_val := r\<rparr>"

text \<open>The enhancement chain of \<^verbatim>\<open>_adjust_image\<close>, from the original raster.\<close>

definition enhance :: "'img pillow \<Rightarrow> 'img \<Rightarrow> view \<Rightarrow> 'img app \<Rightarrow> 'img" where
  "enhance P original view s =
     (let img = original;
          img = ImageEnhance_Brightness P img
                  (num_dicts (heap s) (adjustment_values s Brightness) view);
          img = ImageEnhance_Contrast P img
                  (num_dicts (heap s) (adjustment_values s Contrast) view)
      in ImageEnhance_Sharpness P img
           (num_dicts (heap s) (adjustment_values s Sharpness) view))"

text \<open>\<^verbatim>\<open>_adjust_image\<close>, the command of the three adjustment scales.\<close>

definition adjust_image :: "'img pillow \<Rightarrow> adj_kind \<Rightarrow> real \<Rightarrow> 'img app \<Rightarrow> 'img app" where
  "adjust_image P adj_type val s =
     (let s = show_adjustment adj_type val s;
          view = slot_view (current_adjustment_image s);
          s = adjustment_values_set adj_type view val s
      in case original_images s (current_adjustment_image s) of
           None \<Rightarrow> s
         | Some original \<Rightarrow>
             (let img = enhance P original view s;
                  s = s\<lparr>images := (images s)(current_adjustment_image s := Some img)\<rparr>;
                  s = save_state s;
                  s = update_match_overlay P s
              in s\<lparr>status_var := Adjusted adj_type val\<rparr>))"

text \<open>
  \<^verbatim>\<open>self.brightness_scale.set(v)\<close>, \<^verbatim>\<open>self.contrast_scale.set(v)\<close> and
  \<^verbatim>\<open>self.sharpness_scale.set(v)\<close>; the scales run from 0.1 to 3.0.
\<close>

fun move_scale :: "adj_kind \<Rightarrow> real \<Rightarrow> 'img app \<Rightarrow> 'img app" where
  "move_scale Brightness r s = s\<lparr>brightness_scale := r\<rparr>"
| "move_scale Contrast r s = s\<lparr>contrast_scale := r\<rparr>"
| "move_scale Sharpness r s = s\<lparr>sharpness_scale := r\<rparr>"

definition scale_set :: "'img pillow \<Rightarrow> adj_kind \<Rightarrow> real \<Rightarrow> 'img app \<Rightarrow> 'img app" where
  "scale_set P k v s =
     (let v = limit (1 / 10) 3 v;
          s = move_scale k v s
      in adjust_image P k v s)"

text \<open>
  The rotation scale and its label, set between two writes of the flag
  \<^verbatim>\<open>_ignore_rotation_callback\<close>.
\<close>

definition show_rotation :: "'img pillow \<Rightarrow> real \<Rightarrow> 'img app \<Rightarrow> 'img app" where
  "show_rotation P r s =
     (let s = s\<lparr>ignore_rotation_callback := True\<rparr>;
          s = rotation_scale_set P r s;
          s = s\<lparr>rotation_label := r\<rparr>
      in s\<lparr>ignore_rotation_callback := False\<rparr>)"

text \<open>
  The three scales, then their labels, set to the adjustment values of a view
  (\<^verbatim>\<open>_undo_last_action\<close> and \<^verbatim>\<open>_select_image_for_adjustment\<close>).
\<close>

definition show_adjustments :: "'img pillow \<Rightarrow> view \<Rightarrow> 'img app \<Rightarrow> 'img app" where
  "show_adjustments P view s =
     (let s = scale_set P Brightness (num_dicts (heap s) (adjustment_values s Brightness) view) s;
          s = scale_set P Contrast (num_dicts (heap s) (adjustment_values s Contrast) view) s;
          s = scale_set P Sharpness (num_dicts (heap s) (adjustment_values s Sharpness) view) s
      in s\<lparr>brightness_val := num_dicts (heap s) (adjustment_values s Brightness) view,
           contrast_val := num_dicts (heap s) (adjustment_values s Contrast) view,
           sharpness_val := num_dicts (heap s) (adjustment_values s Sharpness) view\<rparr>)"

text \<open>
  Each scale set to 1.0 and then its label (\<^verbatim>\<open>_reset_to_default\<close> and
  \<^verbatim>\<open>_reset_adjustments\<close>).
\<close>

definition reset_scales :: "'img pillow \<Rightarrow> 'img app \<Rightarrow> 'img app" where
  "reset_scales P s =
     (let s = scale_set P Brightness 1 s;
          s = s\<lparr>brightness_val := 1\<rparr>;
          s = scale_set P Contrast 1 s;
          s = s\<lparr>contrast_val := 1\<rparr>;
          s = scale_set P Sharpness 1 s
      in s\<lparr>sharpness_val := 1\<rparr>)"

subsection \<open>Pointer, wheel and key handlers\<close>

text \<open>
  A pointer or wheel event: \<^verbatim>\<open>event.x\<close>, \<^verbatim>\<open>event.y\<close>, \<^verbatim>\<open>event.delta\<close>. The canvases are
  never scrolled, so \<^verbatim>\<open>canvasx\<close> and \<^verbatim>\<open>canvasy\<close> return the window coordinate as a float.
\<close>

record event =
  ev_x :: int
  ev_y :: int
  ev_delta :: int

definition canvasx :: "int \<Rightarrow> real" where
  "canvasx x = of_int x"

definition canvasy :: "int \<Rightarrow> real" where
  "canvasy y = of_int y"

definition activate_drag :: "'img pillow \<Rightarrow> event \<Rightarrow> view \<Rightarrow> 'img app \<Rightarrow> 'img app" where
  "activate_drag P e v s =
     (let s = s\<lparr>active_view := Some v, drag_start := Some (ev_x e, ev_y e)\<rparr>;
          s = s\<lparr>canvas_borders := (\<lambda>n. n = v)\<rparr>
      in if v = AP
         then (show_rotation P (num_dicts (heap s) (rotations s) AP) s)\<lparr>status_var := AP_selected\<rparr>
         else (show_rotation P 0 s)\<lparr>status_var := Lateral_selected\<rparr>)"

definition drag_kv :: "'img pillow \<Rightarrow> event \<Rightarrow> view \<Rightarrow> 'img app \<Rightarrow> 'img app" where
  "drag_kv P e v s =
     (case drag_start s of
        None \<Rightarrow> s
      | Some start \<Rightarrow>
          if images s (kv_slot v) = None then s
          else
            (let dx = ev_x e - fst start;
                 dy = ev_y e - snd start;
                 s = s\<lparr>drag_start := Some (ev_x e, ev_y e)\<rparr>;
                 s = (if dx \<noteq> 0 then kv_add (x_key v) dx s else s);
                 s = (if dy \<noteq> 0 then kv_add LAT_Y dy (kv_add AP_Y dy s) else s);
                 s = save_state s
             in update_match_overlay P s))"

definition nudge_kv :: "'img pillow \<Rightarrow> int \<Rightarrow> int \<Rightarrow> 'img app \<Rightarrow> 'img app" where
  "nudge_kv P dx dy s =
     (let s = (case active_view s of
                 Some v \<Rightarrow> kv_add (x_key v) dx s
               | None \<Rightarrow> s);
          s = (if dy \<noteq> 0 then kv_add LAT_Y dy (kv_add AP_Y dy s) else s);
          s = save_state s
      in update_match_overlay P s)"

text \<open>
  \<^verbatim>\<open>_zoom\<close>. The quotient \<^verbatim>\<open>new / old\<close> raises \<^verbatim>\<open>ZeroDivisionError\<close> at \<^verbatim>\<open>old == 0\<close>, before
  any attribute is written.
\<close>

definition zoom :: "'img pillow \<Rightarrow> event \<Rightarrow> view \<Rightarrow> 'img app \<Rightarrow> exn + 'img app" where
  "zoom P e v s =
     (if \<not> (images s (drr_slot v) \<noteq> None \<and> images s (kv_slot v) \<noteq> None) then Inr s
      else
        (let old = num_dicts (heap s) (zoom_levels s) v;
             step = (if ev_delta e > 0 then 1 / 10 else - (1 / 10));
             new = max (2 / 10) (min 5 (old + step))
         in if new = old then Inr s
            else if old = 0 then Inl ZeroDivisionError
            else
              (let cx = canvasx (ev_x e);
                   cy = canvasy (ev_y e);
                   p = pan_dicts (heap s) (pan_offsets s) v;
                   px = fst p + cx * (1 - new / old);
                   py = snd p + cy * (1 - new / old);
                   s = pan_offsets_set v (px, py) s;
                   s = zoom_levels_set v new s;
                   s = s\<lparr>zoom_label := py_int (new * 100)\<rparr>;
                   s = save_state s
               in Inr (update_match_overlay P s))))"

definition mouse_scroll :: "'img pillow \<Rightarrow> event \<Rightarrow> view \<Rightarrow> 'img app \<Rightarrow> 'img app" where
  "mouse_scroll P e v s =
     (if v = AP then
        (let delta = (if ev_delta e > 0 then 1 else - 1);
             s = rotations_set AP (py_mod (num_dicts (heap s) (rotations s) AP + delta) 360) s;
             s = show_rotation P (num_dicts (heap s) (rotations s) AP) s;
             s = save_state s
         in update_match_overlay P s)
      else s)"

text \<open>
  The blend row of \<^verbatim>\<open>_build_layout\<close>: the scale, which runs from 0 to 1, writes its
  variable \<^verbatim>\<open>self.alpha\<close> and the check button writes \<^verbatim>\<open>self.use_color_overlay\<close>; the command
  of both is \<^verbatim>\<open>_update_match_overlay\<close>.
\<close>

definition blend_scale :: "'img pillow \<Rightarrow> real \<Rightarrow> 'img app \<Rightarrow> 'img app" where
  "blend_scale P a s = update_match_overlay P (s\<lparr>alpha := limit 0 1 a\<rparr>)"

definition color_overlay_check :: "'img pillow \<Rightarrow> 'img app \<Rightarrow> 'img app" where
  "color_overlay_check P s =
     update_match_overlay P (s\<lparr>use_color_overlay := \<not> use_color_overlay s\<rparr>)"

subsection \<open>State management\<close>

definition default_snapshot :: snapshot where
  "default_snapshot =
     \<lparr>i_kv_offsets = (\<lambda>k. 0), i_rotations = (\<lambda>v. 0), i_zoom_levels = (\<lambda>v. 1),
      i_pan_offsets = (\<lambda>v. (0, 0)), i_adjustment_values = (\<lambda>k v. 1),
      i_alpha = 1 / 2, i_use_color_overlay = False\<rparr>"

definition save_initial_state :: "'img app \<Rightarrow> 'img app" where
  "save_initial_state s = s\<lparr>initial_state := Some default_snapshot\<rparr>"

definition reset_to_default :: "'img pillow \<Rightarrow> 'img app \<Rightarrow> 'img app" where
  "reset_to_default P s =
     (case initial_state s of
        None \<Rightarrow> s\<lparr>status_var := No_initial_state\<rparr>
      | Some ini \<Rightarrow>
          (let s = s\<lparr>images := (\<lambda>k. case original_images s k of
                                        Some img \<Rightarrow> Some img
                                      | None \<Rightarrow> images s k)\<rparr>;
               s = bind_kv_offsets (i_kv_offsets ini) s;
               s = bind_rotations (i_rotations ini) s;
               s = bind_zoom_levels (i_zoom_levels ini) s;
               s = bind_pan_offsets (i_pan_offsets ini) s;
               s = bind_adjustment_values (i_adjustment_values ini) s;
               s = s\<lparr>alpha := i_alpha ini, use_color_overlay := i_use_color_overlay ini\<rparr>;
               s = show_rotation P 0 s;
               s = s\<lparr>zoom_label := 100\<rparr>;
               s = reset_scales P s;
               s = s\<lparr>thumb_borders := (\<lambda>t. False), canvas_borders := (\<lambda>n. False)\<rparr>;
               s = s\<lparr>active_view := None, status_var := Restored_to_default\<rparr>;
               s = save_state s
           in update_match_overlay P s))"

text \<open>
  \<^verbatim>\<open>_undo_last_action\<close>: the attributes are bound to the dictionaries of the entry itself;
  the scales are set after that, so their commands run on the restored state.
\<close>

definition undo_last_action :: "'img pillow \<Rightarrow> 'img app \<Rightarrow> 'img app" where
  "undo_last_action P s =
     (if length (history s) \<le> 1 then s\<lparr>status_var := Nothing_to_undo\<rparr>
      else
        (let h = butlast (history s);
             prev = last h;
             s = s\<lparr>history := h,
                    kv_offsets := e_kv_offsets prev,
                    rotations := e_rotations prev,
                    zoom_levels := e_zoom_levels prev,
                    pan_offsets := e_pan_offsets prev,
                    adjustment_values := e_adjustment_values prev,
                    alpha := e_alpha prev,
                    use_color_overlay := e_use_color_overlay prev\<rparr>;
             s = (if active_view s = Some AP
                  then show_rotation P (num_dicts (heap s) (rotations s) AP) s
                  else s);
             s = show_adjustments P (slot_view (current_adjustment_image s)) s;
             s = s\<lparr>status_var := Undo_successful\<rparr>
         in update_match_overlay P s))"

subsection \<open>Adjustments and filters\<close>

definition select_image_for_adjustment :: "'img pillow \<Rightarrow> slot \<Rightarrow> 'img app \<Rightarrow> 'img app" where
  "select_image_for_adjustment P image_key s =
     (if images s image_key = None then s\<lparr>status_var := No_image_loaded image_key\<rparr>
      else
        (let s = s\<lparr>current_adjustment_image := image_key, adj_img_var := image_key\<rparr>;
             s = show_adjustments P (slot_view image_key) s;
             s = s\<lparr>thumb_borders := (\<lambda>t. t = image_key)\<rparr>
         in s\<lparr>status_var := Selected image_key\<rparr>))"

definition reset_adjustments :: "'img pillow \<Rightarrow> 'img app \<Rightarrow> 'img app" where
  "reset_adjustments P s =
     (let view = slot_view (current_adjustment_image s);
          s = adjustment_values_set Brightness view 1 s;
          s = adjustment_values_set Contrast view 1 s;
          s = adjustment_values_set Sharpness view 1 s;
          s = reset_scales P s;
          s = (case original_images s (current_adjustment_image s) of
                 Some original \<Rightarrow>
                   s\<lparr>images := (images s)(current_adjustment_image s := Some original)\<rparr>
               | None \<Rightarrow> s);
          s = save_state s;
          s = update_match_overlay P s
      in s\<lparr>status_var := Reset_adjustments (adj_img_var s)\<rparr>)"


text \<open>The six recipes.\<close>

definition f_content_balance :: "'img pillow \<Rightarrow> 'img \<Rightarrow> 'img" where
  "f_content_balance P img =
     (let g = Image_convert P img ''L'';
          base = ImageOps_equalize P g;
          blur = Image_filter P g (GaussianBlur 2);
          detail = ImageChops_subtract P g blur;
          mix = ImageChops_add P base detail;
          mix = ImageOps_autocontrast P mix 1;
          mix = Image_filter P mix (UnsharpMask (12 / 10) 120 3)
      in Image_convert P mix ''RGB'')"

definition f_collins_bone :: "'img pillow \<Rightarrow> 'img \<Rightarrow> 'img" where
  "f_collins_bone P img =
     (let g = Image_convert P img ''L'';
          g = ImageOps_autocontrast P g 2;
          high = Image_filter P g (UnsharpMask 2 170 3);
          high = ImageEnhance_Contrast P high (125 / 100)
      in Image_convert P high ''RGB'')"

definition f_rizzler_low_dose :: "'img pillow \<Rightarrow> 'img \<Rightarrow> 'img" where
  "f_rizzler_low_dose P img =
     (let g = Image_convert P img ''L'';
          g = Image_filter P g (GaussianBlur 1);
          g = ImageEnhance_Sharpness P g (115 / 100);
          g = ImageEnhance_Contrast P g (105 / 100)
      in Image_convert P g ''RGB'')"

definition f_soft_tissue :: "'img pillow \<Rightarrow> 'img \<Rightarrow> 'img" where
  "f_soft_tissue P img =
     (let g = Image_convert P img ''L'';
          g = Image_filter P g (MedianFilter 3);
          gamma = 9 / 10;
          g = Image_point P g (\<lambda>i. py_int (((of_int i / 255) powr gamma) * 255));
          g = ImageEnhance_Contrast P g (108 / 100);
          g = Image_filter P g SMOOTH_MORE
      in Image_convert P g ''RGB'')"

definition f_jayhawk_local_contrast :: "'img pillow \<Rightarrow> 'img \<Rightarrow> 'img" where
  "f_jayhawk_local_contrast P img =
     (let g = Image_convert P img ''L'';
          g = ImageOps_equalize P g;
          g = Image_filter P g (UnsharpMask 3 180 2);
          g = ImageEnhance_Contrast P g (110 / 100);
          g = ImageEnhance_Sharpness P g (108 / 100)
      in Image_convert P g ''RGB'')"

definition f_radfilter_match_assist :: "'img pillow \<Rightarrow> 'img \<Rightarrow> 'img" where
  "f_radfilter_match_assist P img =
     (let g = Image_convert P img ''L'';
          g = Image_filter P g (MedianFilter 3);
          g = ImageOps_autocontrast P g 1;
          blur1 = Image_filter P g (GaussianBlur 2);
          blur2 = Image_filter P g (GaussianBlur 6);
          hp1 = ImageChops_subtract P g blur1;
          hp2 = ImageChops_subtract P g blur2;
          mix = ImageChops_add P (ImageChops_add P g hp1) hp2;
          mix = Image_filter P mix (UnsharpMask (12 / 10) 110 3);
          mix = ImageEnhance_Contrast P mix (106 / 100)
      in Image_convert P mix ''RGB'')"

text \<open>The dictionary \<^verbatim>\<open>funcs\<close> of \<^verbatim>\<open>_apply_selected_filter\<close>.\<close>

definition funcs :: "'img pillow \<Rightarrow> (string \<times> ('img \<Rightarrow> 'img)) list" where
  "funcs P =
     [(''Washburn Ichabod Balance'', f_content_balance P),
      (''Low-Dose Boost'', f_collins_bone P),
      (''Skeletal Emphasis (Collins)'', f_rizzler_low_dose P),
      (''Local Contrast (Jayhawk)'', f_jayhawk_local_contrast P),
      (''Soft Tissue Enhance'', f_soft_tissue P),
      (''RadFilter (Match Assist)'', f_radfilter_match_assist P)]"

text \<open>
  \<^verbatim>\<open>_apply_selected_filter\<close>. A name that is no key of \<^verbatim>\<open>funcs\<close> raises \<^verbatim>\<open>KeyError\<close> inside
  the \<^verbatim>\<open>try\<close>, which the handler turns into the filter-error message.
\<close>

definition apply_selected_filter :: "'img pillow \<Rightarrow> 'img app \<Rightarrow> 'img app" where
  "apply_selected_filter P s =
     (let name = filter_var s in
      if name = ''Select Filter'' then s\<lparr>status_var := Please_select_a_filter\<rparr>
      else
        (let target_key = current_adjustment_image s in
         case original_images s target_key of
           None \<Rightarrow> s\<lparr>status_var := Load_a_dataset_first\<rparr>
         | Some src \<Rightarrow>
             (case map_of (funcs P) name of
                None \<Rightarrow> s\<lparr>status_var := Filter_error name\<rparr>
              | Some f \<Rightarrow>
                  (let out = f src;
                       s = s\<lparr>images := (images s)(target_key := Some out)\<rparr>;
                       s = save_state s;
                       s = update_match_overlay P s
                   in s\<lparr>status_var := Applied name target_key\<rparr>))))"

subsection \<open>Loading a dataset\<close>

definition reset_to_initial_values :: "'img pillow \<Rightarrow> 'img app \<Rightarrow> 'img app" where
  "reset_to_initial_values P s =
     (let s = bind_kv_offsets (\<lambda>k. 0) s;
          s = bind_rotations (\<lambda>v. 0) s;
          s = bind_zoom_levels (\<lambda>v. 1) s;
          s = bind_pan_offsets (\<lambda>v. (0, 0)) s;
          s = bind_adjustment_values (\<lambda>k v. 1) s;
          s = s\<lparr>alpha := 1 / 2, use_color_overlay := False\<rparr>;
          s = show_rotation P 0 s;
          s = s\<lparr>zoom_label := 100\<rparr>;
          s = s\<lparr>canvas_borders := (\<lambda>n. False)\<rparr>
      in s\<lparr>active_view := None\<rparr>)"

text \<open>
  The loop of \<^verbatim>\<open>_load_dataset\<close> over \<^verbatim>\<open>file_map\<close>. The directory scan and the decoding are
  file input: \<open>found k\<close> is the raster decoded from the first file whose name matches the
  prefix of slot \<open>k\<close>, and \<open>None\<close> when no file matches or \<^verbatim>\<open>Image.open\<close> fails.
\<close>

fun load_files :: "(slot \<Rightarrow> 'img option) \<Rightarrow> slot list \<Rightarrow> 'img app \<times> nat \<Rightarrow> 'img app \<times> nat" where
  "load_files found [] (s, loaded) = (s, loaded)"
| "load_files found (k # ks) (s, loaded) =
     (case found k of
        Some img \<Rightarrow>
          load_files found ks
            (s\<lparr>images := (images s)(k := Some img),
               original_images := (original_images s)(k := Some img)\<rparr>, loaded + 1)
      | None \<Rightarrow> load_files found ks (s, loaded))"

text \<open>\<open>dir_exists\<close> is \<^verbatim>\<open>os.path.exists(dataset_dir)\<close>.\<close>

definition load_dataset ::
  "'img pillow \<Rightarrow> string \<Rightarrow> bool \<Rightarrow> (slot \<Rightarrow> 'img option) \<Rightarrow> 'img app \<Rightarrow> 'img app" where
  "load_dataset P selection dir_exists found s =
     (if selection = ''Select Dataset'' then s
      else if \<not> dir_exists then s\<lparr>status_var := Dataset_not_found selection\<rparr>
      else
        (let s = s\<lparr>images := (\<lambda>k. None), original_images := (\<lambda>k. None)\<rparr>;
             (s, loaded) = load_files found [DRR_AP, KV_AP, DRR_LAT, KV_LAT] (s, 0)
         in if loaded > 0 then
              (let s = reset_to_initial_values P s;
                   s = save_initial_state s;
                   s = s\<lparr>status_var := Loaded loaded selection\<rparr>
               in update_match_overlay P s)
            else s\<lparr>status_var := No_valid_images\<rparr>))"

subsection \<open>Start-up\<close>

text \<open>
  \<^verbatim>\<open>_init_state\<close>, with the seven dictionaries at the addresses 0 to 6, and the widgets as
  \<^verbatim>\<open>_build_layout\<close> creates them.
\<close>

definition init_store :: store where
  "init_store =
     \<lparr>kv_dicts = (\<lambda>a k. 0),
      num_dicts = (\<lambda>a v. if a = 1 then 0 else 1),
      pan_dicts = (\<lambda>a v. (0, 0)),
      next_addr = 7\<rparr>"

definition init_state :: "'img app" where
  "init_state =
     \<lparr>images = (\<lambda>k. None),
      original_images = (\<lambda>k. None),
      kv_offsets = 0,
      rotations = 1,
      zoom_levels = 2,
      pan_offsets = 3,
      alpha = 1 / 2,
      use_color_overlay = False,
      filter_var = ''Select Filter'',
      adj_img_var = DRR_AP,
      history = [],
      initial_state = None,
      drag_start = None,
      active_view = None,
      tk_images = (\<lambda>k. None),
      ignore_rotation_callback = False,
      adjustment_values = adj_refs 4 5 6,
      current_adjustment_image = DRR_AP,
      canvas_borders = (\<lambda>n. False),
      thumb_borders = (\<lambda>t. False),
      rotation_scale = 0,
      rotation_label = 0,
      zoom_label = 100,
      brightness_scale = 1,
      brightness_val = 1,
      contrast_scale = 1,
      contrast_val = 1,
      sharpness_scale = 1,
      sharpness_val = 1,
      status_var = Ready,
      heap = init_store\<rparr>"

text \<open>The constructor: \<^verbatim>\<open>_save_initial_state\<close>, \<^verbatim>\<open>_save_state\<close>, \<^verbatim>\<open>_update_match_overlay\<close>.\<close>

definition startup :: "'img pillow \<Rightarrow> 'img app" where
  "startup P = update_match_overlay P (save_state (save_initial_state init_state))"

subsection \<open>Gestures\<close>

text \<open>
  The bindings of \<^verbatim>\<open>_build_layout\<close> and \<^verbatim>\<open>_bind_keys\<close>: every gesture runs one handler.
  The pointer on a scale runs the \<^verbatim>\<open>set\<close> of the scale, and a menu writes its variable
  before its command runs. An exception that leaves a handler is reported by the event
  loop and the program goes on.
\<close>

datatype 'img gesture =
    Button_1 view event
  | B1_Motion view event
  | MouseWheel view event
  | Control_MouseWheel view event
  | Arrow_key int int
  | Rotation_scale real
  | Blend_scale real
  | Color_overlay_check
  | Thumbnail_click slot
  | Adjust_menu slot
  | Filter_menu string
  | Apply_filter_button
  | Adjust_scale adj_kind real
  | Reset_adjustments_button
  | Dataset_menu string bool "slot \<Rightarrow> 'img option"
  | Restore_to_default_button
  | Control_z

fun step :: "'img pillow \<Rightarrow> 'img gesture \<Rightarrow> 'img app \<Rightarrow> 'img app" where
  "step P (Button_1 v e) s = activate_drag P e v s"
| "step P (B1_Motion v e) s = drag_kv P e v s"
| "step P (MouseWheel v e) s = mouse_scroll P e v s"
| "step P (Control_MouseWheel v e) s = (case zoom P e v s of Inl x \<Rightarrow> s | Inr s' \<Rightarrow> s')"
| "step P (Arrow_key dx dy) s = nudge_kv P dx dy s"
| "step P (Rotation_scale a) s = rotation_scale_set P a s"
| "step P (Blend_scale a) s = blend_scale P a s"
| "step P Color_overlay_check s = color_overlay_check P s"
| "step P (Thumbnail_click k) s = select_image_for_adjustment P k s"
| "step P (Adjust_menu k) s = select_image_for_adjustment P k (s\<lparr>adj_img_var := k\<rparr>)"
| "step P (Filter_menu name) s = s\<lparr>filter_var := name\<rparr>"
| "step P Apply_filter_button s = apply_selected_filter P s"
| "step P (Adjust_scale k r) s = scale_set P k r s"
| "step P Reset_adjustments_button s = reset_adjustments P s"
| "step P (Dataset_menu selection dir_exists found) s = load_dataset P selection dir_exists found s"
| "step P Restore_to_default_button s = reset_to_default P s"
| "step P Control_z s = undo_last_action P s"

text \<open>A session: the gestures in order, from a state.\<close>

definition run :: "'img pillow \<Rightarrow> 'img gesture list \<Rightarrow> 'img app \<Rightarrow> 'img app" where
  "run P gs s = fold (step P) gs s"

text \<open>The states after each gesture of a session.\<close>

fun trace :: "'img pillow \<Rightarrow> 'img gesture list \<Rightarrow> 'img app \<Rightarrow> 'img app list" where
  "trace P [] s = []"
| "trace P (g # gs) s = step P g s # trace P gs (step P g s)"

section \<open>Properties\<close>

subsection \<open>Notions used in the statements\<close>

text \<open>The entry that \<^verbatim>\<open>_save_state\<close> builds in a state, and the store it leaves.\<close>

definition new_entry :: "'img app \<Rightarrow> entry" where
  "new_entry s =
     \<lparr>e_kv_offsets = next_addr (heap s), e_rotations = next_addr (heap s) + 1,
      e_zoom_levels = next_addr (heap s) + 2, e_pan_offsets = next_addr (heap s) + 3,
      e_adjustment_values =
        adj_refs (next_addr (heap s) + 4) (next_addr (heap s) + 5) (next_addr (heap s) + 6),
      e_alpha = alpha s, e_use_color_overlay = use_color_overlay s\<rparr>"

definition saved_store :: "'img app \<Rightarrow> store" where
  "saved_store s =
     (heap s)\<lparr>kv_dicts := (kv_dicts (heap s))
          (next_addr (heap s) := kv_dicts (heap s) (kv_offsets s)),
       pan_dicts := (pan_dicts (heap s))
          (next_addr (heap s) + 3 := pan_dicts (heap s) (pan_offsets s)),
       num_dicts := (num_dicts (heap s))
          (next_addr (heap s) + 1 := num_dicts (heap s) (rotations s),
           next_addr (heap s) + 2 := num_dicts (heap s) (zoom_levels s),
           next_addr (heap s) + 4 := num_dicts (heap s) (adjustment_values s Brightness),
           next_addr (heap s) + 5 := num_dicts (heap s) (adjustment_values s Contrast),
           next_addr (heap s) + 6 := num_dicts (heap s) (adjustment_values s Sharpness)),
       next_addr := next_addr (heap s) + 7\<rparr>"

text \<open>The entry that \<^verbatim>\<open>_save_state\<close> builds when the next free address is \<open>n\<close>.\<close>

definition entry_at :: "addr \<Rightarrow> real \<Rightarrow> bool \<Rightarrow> entry" where
  "entry_at n a c =
     \<lparr>e_kv_offsets = n, e_rotations = n + 1, e_zoom_levels = n + 2, e_pan_offsets = n + 3,
      e_adjustment_values = adj_refs (n + 4) (n + 5) (n + 6),
      e_alpha = a, e_use_color_overlay = c\<rparr>"

text \<open>
  The pixel at \<open>xy\<close> of a black canvas on which a raster has been pasted with its upper left
  corner at \<open>box\<close>: the pixel of the raster that lies there, and black where the raster
  does not reach.
\<close>

definition canvas_pixel :: "raster \<Rightarrow> int \<times> int \<Rightarrow> int \<times> int \<Rightarrow> real list" where
  "canvas_pixel im box xy =
     (if fst box \<le> fst xy \<and> fst xy < fst box + fst (im_size im) \<and>
         snd box \<le> snd xy \<and> snd xy < snd box + snd (im_size im)
      then im_getpixel im (fst xy - fst box, snd xy - snd box)
      else [0, 0, 0])"

text \<open>
  The dictionaries the attributes point to are objects of the store: their addresses
  are below the next free one.
\<close>

definition allocated :: "'img app \<Rightarrow> bool" where
  "allocated s =
     (kv_offsets s < next_addr (heap s) \<and> rotations s < next_addr (heap s) \<and>
      zoom_levels s < next_addr (heap s) \<and> pan_offsets s < next_addr (heap s) \<and>
      adjustment_values s Brightness < next_addr (heap s) \<and>
      adjustment_values s Contrast < next_addr (heap s) \<and>
      adjustment_values s Sharpness < next_addr (heap s))"

text \<open>
  An entry records the state: read now, its dictionaries have the contents of the
  dictionaries of the attributes, and its two values are those of the variables.
\<close>

definition recorded :: "'img app \<Rightarrow> entry \<Rightarrow> bool" where
  "recorded s e =
     (kv_dicts (heap s) (e_kv_offsets e) = kv_dicts (heap s) (kv_offsets s) \<and>
      num_dicts (heap s) (e_rotations e) = num_dicts (heap s) (rotations s) \<and>
      num_dicts (heap s) (e_zoom_levels e) = num_dicts (heap s) (zoom_levels s) \<and>
      pan_dicts (heap s) (e_pan_offsets e) = pan_dicts (heap s) (pan_offsets s) \<and>
      num_dicts (heap s) (e_adjustment_values e Brightness) =
        num_dicts (heap s) (adjustment_values s Brightness) \<and>
      num_dicts (heap s) (e_adjustment_values e Contrast) =
        num_dicts (heap s) (adjustment_values s Contrast) \<and>
      num_dicts (heap s) (e_adjustment_values e Sharpness) =
        num_dicts (heap s) (adjustment_values s Sharpness) \<and>
      e_alpha e = alpha s \<and> e_use_color_overlay e = use_color_overlay s)"

text \<open>
  The gestures whose handler saves the state once, by the guards of the handlers: a drag
  after a pointer press on a view with a KV raster, a nudge, a wheel turn over the AP
  canvas, a zoom step that changes the zoom of a view with both rasters, the rotation
  scale while AP is active, an adjustment of a slot with an original raster, a
  recognised filter on a slot with an original raster, and the reset of the adjustments
  and the restore button when the target slot has no original raster (with one, the
  scales they set save the state three more times).
\<close>

fun pushes :: "'img pillow \<Rightarrow> 'img gesture \<Rightarrow> 'img app \<Rightarrow> bool" where
  "pushes P (B1_Motion v e) s = (drag_start s \<noteq> None \<and> images s (kv_slot v) \<noteq> None)"
| "pushes P (Arrow_key dx dy) s = True"
| "pushes P (MouseWheel v e) s = (v = AP)"
| "pushes P (Control_MouseWheel v e) s =
     (images s (drr_slot v) \<noteq> None \<and> images s (kv_slot v) \<noteq> None \<and>
      num_dicts (heap s) (zoom_levels s) v \<noteq> 0 \<and>
      max (2 / 10) (min 5 (num_dicts (heap s) (zoom_levels s) v +
         (if ev_delta e > 0 then 1 / 10 else - (1 / 10)))) \<noteq>
        num_dicts (heap s) (zoom_levels s) v)"
| "pushes P (Rotation_scale a) s = (\<not> ignore_rotation_callback s \<and> active_view s = Some AP)"
| "pushes P (Adjust_scale k r) s = (original_images s (current_adjustment_image s) \<noteq> None)"
| "pushes P Reset_adjustments_button s =
     (original_images s (current_adjustment_image s) = None)"
| "pushes P Apply_filter_button s =
     (filter_var s \<noteq> ''Select Filter'' \<and>
      original_images s (current_adjustment_image s) \<noteq> None \<and>
      map_of (funcs P) (filter_var s) \<noteq> None)"
| "pushes P Restore_to_default_button s =
     (initial_state s \<noteq> None \<and> original_images s (current_adjustment_image s) = None)"
| "pushes P g s = False"

text \<open>A session in which every gesture saves the state once.\<close>

fun every_push :: "'img pillow \<Rightarrow> 'img gesture list \<Rightarrow> 'img app \<Rightarrow> bool" where
  "every_push P [] s = True"
| "every_push P (g # gs) s = (pushes P g s \<and> every_push P gs (step P g s))"

text \<open>From \<open>s\<close> to \<open>s'\<close> one entry was pushed, and it records \<open>s'\<close>.\<close>

definition pushed :: "'img app \<Rightarrow> 'img app \<Rightarrow> bool" where
  "pushed s s' =
     (history s' = hist_push (history s) (last (history s')) \<and>
      recorded s' (last (history s')))"

text \<open>The shared vertical offset: the two y entries of the offsets agree.\<close>

definition kv_coupled :: "'img app \<Rightarrow> bool" where
  "kv_coupled s =
     (kv_dicts (heap s) (kv_offsets s) AP_Y = kv_dicts (heap s) (kv_offsets s) LAT_Y)"

text \<open>The same of every offsets dictionary of the store and of the initial state.\<close>

definition all_coupled :: "'img app \<Rightarrow> bool" where
  "all_coupled s =
     ((\<forall>a. kv_dicts (heap s) a AP_Y = kv_dicts (heap s) a LAT_Y) \<and>
      (\<forall>ini. initial_state s = Some ini \<longrightarrow> i_kv_offsets ini AP_Y = i_kv_offsets ini LAT_Y))"

text \<open>The dictionaries of an entry, and of every entry of the history, are allocated.\<close>

definition entry_allocated :: "addr \<Rightarrow> entry \<Rightarrow> bool" where
  "entry_allocated n e =
     (e_kv_offsets e < n \<and> e_rotations e < n \<and> e_zoom_levels e < n \<and> e_pan_offsets e < n \<and>
      e_adjustment_values e Brightness < n \<and> e_adjustment_values e Contrast < n \<and>
      e_adjustment_values e Sharpness < n)"

definition well_allocated :: "'img app \<Rightarrow> bool" where
  "well_allocated s =
     (allocated s \<and> list_all (entry_allocated (next_addr (heap s))) (history s))"

subsection \<open>A sample session\<close>

text \<open>
  Concrete states for evaluation. Over the library of raster expressions: a dataset with
  four rasters is loaded after start-up; then the pointer is pressed on the AP canvas, or
  the zoom wheel is turned up once with the cursor at (5, 0), or a filter is chosen; and
  one nudge down right after start-up.
\<close>

definition sample_dataset :: "slot \<Rightarrow> expr option" where
  "sample_dataset k =
     Some (Src (case k of DRR_AP \<Rightarrow> ''1_drr_ap.png'' | KV_AP \<Rightarrow> ''2_kv_ap.png''
                | DRR_LAT \<Rightarrow> ''3_drr_lat.png'' | KV_LAT \<Rightarrow> ''4_kv_lat.png''))"

definition loaded :: "expr app" where
  "loaded = step free_pillow (Dataset_menu ''Pelvis'' True sample_dataset) (startup free_pillow)"

definition pressed :: "expr app" where
  "pressed = step free_pillow (Button_1 AP \<lparr>ev_x = 10, ev_y = 10, ev_delta = 0\<rparr>) loaded"

definition zoomed :: "expr app" where
  "zoomed = step free_pillow (Control_MouseWheel AP \<lparr>ev_x = 5, ev_y = 0, ev_delta = 1\<rparr>) loaded"

definition filter_chosen :: "expr app" where
  "filter_chosen = step free_pillow (Filter_menu ''Low-Dose Boost'') loaded"

definition nudged :: "expr app" where
  "nudged = step free_pillow (Arrow_key 0 1) (startup free_pillow)"

text \<open>
  Two nudges down after the load; then one undo; or, instead of the undo, the load of
  another dataset.
\<close>

definition nudged_twice :: "expr app" where
  "nudged_twice = run free_pillow [Arrow_key 0 1, Arrow_key 0 1] loaded"

definition reloaded :: "expr app" where
  "reloaded = step free_pillow (Dataset_menu ''Thorax'' True sample_dataset) nudged_twice"

definition undone :: "expr app" where
  "undone = step free_pillow Control_z nudged_twice"

text \<open>
  A dataset of pixel rasters, ramps of the coordinates, loaded after start-up and
  followed by one nudge down.
\<close>

definition ramp_drr :: raster where
  "ramp_drr =
     \<lparr>im_mode = ''RGB'', im_size = (600, 400),
      im_getpixel = (\<lambda>xy. [of_int (fst xy), of_int (snd xy), 0])\<rparr>"

definition ramp_kv :: raster where
  "ramp_kv =
     \<lparr>im_mode = ''RGB'', im_size = (600, 400),
      im_getpixel = (\<lambda>xy. [0, 0, of_int (fst xy + snd xy)])\<rparr>"

definition pixel_dataset :: "slot \<Rightarrow> raster option" where
  "pixel_dataset k =
     Some (case k of DRR_AP \<Rightarrow> ramp_drr | KV_AP \<Rightarrow> ramp_kv
           | DRR_LAT \<Rightarrow> ramp_drr | KV_LAT \<Rightarrow> ramp_kv)"

definition pixel_nudged :: "raster app" where
  "pixel_nudged =
     run (pixel_pillow still_pillow)
       [Dataset_menu ''Pelvis'' True pixel_dataset, Arrow_key 0 1]
       (startup (pixel_pillow still_pillow))"


subsection \<open>Basic facts\<close>

lemma save_state_eq:
  "save_state s = s\<lparr>heap := saved_store s, history := hist_push (history s) (new_entry s)\<rparr>"
  by (simp add: save_state_def new_kv_def new_num_def new_pan_def saved_store_def new_entry_def
      Let_def eval_nat_numeral)

lemma overlay_view_frame:
  "overlay_view P v s = s\<lparr>tk_images := tk_images (overlay_view P v s)\<rparr>"
  by (cases "images s (drr_slot v)"; cases "images s (kv_slot v)")
     (simp_all add: overlay_view_def Let_def)

lemma thumb_frame: "thumb P k s = s\<lparr>tk_images := tk_images (thumb P k s)\<rparr>"
  by (cases "images s k") (simp_all add: thumb_def)

lemma overlay_view_fields [simp]:
  "images (overlay_view P v s) = images s"
  "original_images (overlay_view P v s) = original_images s"
  "kv_offsets (overlay_view P v s) = kv_offsets s"
  "rotations (overlay_view P v s) = rotations s"
  "zoom_levels (overlay_view P v s) = zoom_levels s"
  "pan_offsets (overlay_view P v s) = pan_offsets s"
  "alpha (overlay_view P v s) = alpha s"
  "use_color_overlay (overlay_view P v s) = use_color_overlay s"
  "filter_var (overlay_view P v s) = filter_var s"
  "adj_img_var (overlay_view P v s) = adj_img_var s"
  "history (overlay_view P v s) = history s"
  "initial_state (overlay_view P v s) = initial_state s"
  "drag_start (overlay_view P v s) = drag_start s"
  "active_view (overlay_view P v s) = active_view s"
  "ignore_rotation_callback (overlay_view P v s) = ignore_rotation_callback s"
  "adjustment_values (overlay_view P v s) = adjustment_values s"
  "current_adjustment_image (overlay_view P v s) = current_adjustment_image s"
  "canvas_borders (overlay_view P v s) = canvas_borders s"
  "thumb_borders (overlay_view P v s) = thumb_borders s"
  "rotation_scale (overlay_view P v s) = rotation_scale s"
  "rotation_label (overlay_view P v s) = rotation_label s"
  "zoom_label (overlay_view P v s) = zoom_label s"
  "brightness_scale (overlay_view P v s) = brightness_scale s"
  "brightness_val (overlay_view P v s) = brightness_val s"
  "contrast_scale (overlay_view P v s) = contrast_scale s"
  "contrast_val (overlay_view P v s) = contrast_val s"
  "sharpness_scale (overlay_view P v s) = sharpness_scale s"
  "sharpness_val (overlay_view P v s) = sharpness_val s"
  "status_var (overlay_view P v s) = status_var s"
  "heap (overlay_view P v s) = heap s"
  by (subst overlay_view_frame, simp)+

lemma thumb_fields [simp]:
  "images (thumb P k s) = images s"
  "original_images (thumb P k s) = original_images s"
  "kv_offsets (thumb P k s) = kv_offsets s"
  "rotations (thumb P k s) = rotations s"
  "zoom_levels (thumb P k s) = zoom_levels s"
  "pan_offsets (thumb P k s) = pan_offsets s"
  "alpha (thumb P k s) = alpha s"
  "use_color_overlay (thumb P k s) = use_color_overlay s"
  "filter_var (thumb P k s) = filter_var s"
  "adj_img_var (thumb P k s) = adj_img_var s"
  "history (thumb P k s) = history s"
  "initial_state (thumb P k s) = initial_state s"
  "drag_start (thumb P k s) = drag_start s"
  "active_view (thumb P k s) = active_view s"
  "ignore_rotation_callback (thumb P k s) = ignore_rotation_callback s"
  "adjustment_values (thumb P k s) = adjustment_values s"
  "current_adjustment_image (thumb P k s) = current_adjustment_image s"
  "canvas_borders (thumb P k s) = canvas_borders s"
  "thumb_borders (thumb P k s) = thumb_borders s"
  "rotation_scale (thumb P k s) = rotation_scale s"
  "rotation_label (thumb P k s) = rotation_label s"
  "zoom_label (thumb P k s) = zoom_label s"
  "brightness_scale (thumb P k s) = brightness_scale s"
  "brightness_val (thumb P k s) = brightness_val s"
  "contrast_scale (thumb P k s) = contrast_scale s"
  "contrast_val (thumb P k s) = contrast_val s"
  "sharpness_scale (thumb P k s) = sharpness_scale s"
  "sharpness_val (thumb P k s) = sharpness_val s"
  "status_var (thumb P k s) = status_var s"
  "heap (thumb P k s) = heap s"
  by (subst thumb_frame, simp)+

lemma update_match_overlay_fields [simp]:
  "images (update_match_overlay P s) = images s"
  "original_images (update_match_overlay P s) = original_images s"
  "kv_offsets (update_match_overlay P s) = kv_offsets s"
  "rotations (update_match_overlay P s) = rotations s"
  "zoom_levels (update_match_overlay P s) = zoom_levels s"
  "pan_offsets (update_match_overlay P s) = pan_offsets s"
  "alpha (update_match_overlay P s) = alpha s"
  "use_color_overlay (update_match_overlay P s) = use_color_overlay s"
  "filter_var (update_match_overlay P s) = filter_var s"
  "adj_img_var (update_match_overlay P s) = adj_img_var s"
  "history (update_match_overlay P s) = history s"
  "initial_state (update_match_overlay P s) = initial_state s"
  "drag_start (update_match_overlay P s) = drag_start s"
  "active_view (update_match_overlay P s) = active_view s"
  "ignore_rotation_callback (update_match_overlay P s) = ignore_rotation_callback s"
  "adjustment_values (update_match_overlay P s) = adjustment_values s"
  "current_adjustment_image (update_match_overlay P s) = current_adjustment_image s"
  "canvas_borders (update_match_overlay P s) = canvas_borders s"
  "thumb_borders (update_match_overlay P s) = thumb_borders s"
  "rotation_scale (update_match_overlay P s) = rotation_scale s"
  "rotation_label (update_match_overlay P s) = rotation_label s"
  "zoom_label (update_match_overlay P s) = zoom_label s"
  "brightness_scale (update_match_overlay P s) = brightness_scale s"
  "brightness_val (update_match_overlay P s) = brightness_val s"
  "contrast_scale (update_match_overlay P s) = contrast_scale s"
  "contrast_val (update_match_overlay P s) = contrast_val s"
  "sharpness_scale (update_match_overlay P s) = sharpness_scale s"
  "sharpness_val (update_match_overlay P s) = sharpness_val s"
  "status_var (update_match_overlay P s) = status_var s"
  "heap (update_match_overlay P s) = heap s"
  by (simp_all add: update_match_overlay_def)

lemma save_state_fields [simp]:
  "images (save_state s) = images s"
  "original_images (save_state s) = original_images s"
  "kv_offsets (save_state s) = kv_offsets s"
  "rotations (save_state s) = rotations s"
  "zoom_levels (save_state s) = zoom_levels s"
  "pan_offsets (save_state s) = pan_offsets s"
  "alpha (save_state s) = alpha s"
  "use_color_overlay (save_state s) = use_color_overlay s"
  "filter_var (save_state s) = filter_var s"
  "adj_img_var (save_state s) = adj_img_var s"
  "initial_state (save_state s) = initial_state s"
  "drag_start (save_state s) = drag_start s"
  "active_view (save_state s) = active_view s"
  "tk_images (save_state s) = tk_images s"
  "ignore_rotation_callback (save_state s) = ignore_rotation_callback s"
  "adjustment_values (save_state s) = adjustment_values s"
  "current_adjustment_image (save_state s) = current_adjustment_image s"
  "canvas_borders (save_state s) = canvas_borders s"
  "thumb_borders (save_state s) = thumb_borders s"
  "rotation_scale (save_state s) = rotation_scale s"
  "rotation_label (save_state s) = rotation_label s"
  "zoom_label (save_state s) = zoom_label s"
  "brightness_scale (save_state s) = brightness_scale s"
  "brightness_val (save_state s) = brightness_val s"
  "contrast_scale (save_state s) = contrast_scale s"
  "contrast_val (save_state s) = contrast_val s"
  "sharpness_scale (save_state s) = sharpness_scale s"
  "sharpness_val (save_state s) = sharpness_val s"
  "status_var (save_state s) = status_var s"
  by (simp_all add: save_state_eq)

lemma save_state_history [simp]:
  "history (save_state s) = hist_push (history s) (new_entry s)"
  by (simp add: save_state_eq)

lemma save_state_heap [simp]: "heap (save_state s) = saved_store s"
  by (simp add: save_state_eq)

lemma kv_add_fields [simp]:
  "images (kv_add k d s) = images s"
  "original_images (kv_add k d s) = original_images s"
  "kv_offsets (kv_add k d s) = kv_offsets s"
  "rotations (kv_add k d s) = rotations s"
  "zoom_levels (kv_add k d s) = zoom_levels s"
  "pan_offsets (kv_add k d s) = pan_offsets s"
  "alpha (kv_add k d s) = alpha s"
  "use_color_overlay (kv_add k d s) = use_color_overlay s"
  "filter_var (kv_add k d s) = filter_var s"
  "adj_img_var (kv_add k d s) = adj_img_var s"
  "history (kv_add k d s) = history s"
  "initial_state (kv_add k d s) = initial_state s"
  "drag_start (kv_add k d s) = drag_start s"
  "active_view (kv_add k d s) = active_view s"
  "tk_images (kv_add k d s) = tk_images s"
  "ignore_rotation_callback (kv_add k d s) = ignore_rotation_callback s"
  "adjustment_values (kv_add k d s) = adjustment_values s"
  "current_adjustment_image (kv_add k d s) = current_adjustment_image s"
  "canvas_borders (kv_add k d s) = canvas_borders s"
  "thumb_borders (kv_add k d s) = thumb_borders s"
  "rotation_scale (kv_add k d s) = rotation_scale s"
  "rotation_label (kv_add k d s) = rotation_label s"
  "zoom_label (kv_add k d s) = zoom_label s"
  "brightness_scale (kv_add k d s) = brightness_scale s"
  "brightness_val (kv_add k d s) = brightness_val s"
  "contrast_scale (kv_add k d s) = contrast_scale s"
  "contrast_val (kv_add k d s) = contrast_val s"
  "sharpness_scale (kv_add k d s) = sharpness_scale s"
  "sharpness_val (kv_add k d s) = sharpness_val s"
  "status_var (kv_add k d s) = status_var s"
  by (simp_all add: kv_add_def)

lemma kv_add_heap [simp]:
  "next_addr (heap (kv_add k d s)) = next_addr (heap s)"
  "num_dicts (heap (kv_add k d s)) = num_dicts (heap s)"
  "pan_dicts (heap (kv_add k d s)) = pan_dicts (heap s)"
  "kv_dicts (heap (kv_add k d s)) =
     (kv_dicts (heap s))(kv_offsets s := (kv_dicts (heap s) (kv_offsets s))
        (k := kv_dicts (heap s) (kv_offsets s) k + d))"
  by (simp_all add: kv_add_def)

lemma num_set_fields [simp]:
  "images (num_set a v r s) = images s"
  "original_images (num_set a v r s) = original_images s"
  "kv_offsets (num_set a v r s) = kv_offsets s"
  "rotations (num_set a v r s) = rotations s"
  "zoom_levels (num_set a v r s) = zoom_levels s"
  "pan_offsets (num_set a v r s) = pan_offsets s"
  "alpha (num_set a v r s) = alpha s"
  "use_color_overlay (num_set a v r s) = use_color_overlay s"
  "filter_var (num_set a v r s) = filter_var s"
  "adj_img_var (num_set a v r s) = adj_img_var s"
  "history (num_set a v r s) = history s"
  "initial_state (num_set a v r s) = initial_state s"
  "drag_start (num_set a v r s) = drag_start s"
  "active_view (num_set a v r s) = active_view s"
  "tk_images (num_set a v r s) = tk_images s"
  "ignore_rotation_callback (num_set a v r s) = ignore_rotation_callback s"
  "adjustment_values (num_set a v r s) = adjustment_values s"
  "current_adjustment_image (num_set a v r s) = current_adjustment_image s"
  "canvas_borders (num_set a v r s) = canvas_borders s"
  "thumb_borders (num_set a v r s) = thumb_borders s"
  "rotation_scale (num_set a v r s) = rotation_scale s"
  "rotation_label (num_set a v r s) = rotation_label s"
  "zoom_label (num_set a v r s) = zoom_label s"
  "brightness_scale (num_set a v r s) = brightness_scale s"
  "brightness_val (num_set a v r s) = brightness_val s"
  "contrast_scale (num_set a v r s) = contrast_scale s"
  "contrast_val (num_set a v r s) = contrast_val s"
  "sharpness_scale (num_set a v r s) = sharpness_scale s"
  "sharpness_val (num_set a v r s) = sharpness_val s"
  "status_var (num_set a v r s) = status_var s"
  by (simp_all add: num_set_def)

lemma num_set_heap [simp]:
  "next_addr (heap (num_set a v r s)) = next_addr (heap s)"
  "kv_dicts (heap (num_set a v r s)) = kv_dicts (heap s)"
  "pan_dicts (heap (num_set a v r s)) = pan_dicts (heap s)"
  "num_dicts (heap (num_set a v r s)) = (num_dicts (heap s))(a := (num_dicts (heap s) a)(v := r))"
  by (simp_all add: num_set_def)

lemma pan_set_fields [simp]:
  "images (pan_set a v p s) = images s"
  "original_images (pan_set a v p s) = original_images s"
  "kv_offsets (pan_set a v p s) = kv_offsets s"
  "rotations (pan_set a v p s) = rotations s"
  "zoom_levels (pan_set a v p s) = zoom_levels s"
  "pan_offsets (pan_set a v p s) = pan_offsets s"
  "alpha (pan_set a v p s) = alpha s"
  "use_color_overlay (pan_set a v p s) = use_color_overlay s"
  "filter_var (pan_set a v p s) = filter_var s"
  "adj_img_var (pan_set a v p s) = adj_img_var s"
  "history (pan_set a v p s) = history s"
  "initial_state (pan_set a v p s) = initial_state s"
  "drag_start (pan_set a v p s) = drag_start s"
  "active_view (pan_set a v p s) = active_view s"
  "tk_images (pan_set a v p s) = tk_images s"
  "ignore_rotation_callback (pan_set a v p s) = ignore_rotation_callback s"
  "adjustment_values (pan_set a v p s) = adjustment_values s"
  "current_adjustment_image (pan_set a v p s) = current_adjustment_image s"
  "canvas_borders (pan_set a v p s) = canvas_borders s"
  "thumb_borders (pan_set a v p s) = thumb_borders s"
  "rotation_scale (pan_set a v p s) = rotation_scale s"
  "rotation_label (pan_set a v p s) = rotation_label s"
  "zoom_label (pan_set a v p s) = zoom_label s"
  "brightness_scale (pan_set a v p s) = brightness_scale s"
  "brightness_val (pan_set a v p s) = brightness_val s"
  "contrast_scale (pan_set a v p s) = contrast_scale s"
  "contrast_val (pan_set a v p s) = contrast_val s"
  "sharpness_scale (pan_set a v p s) = sharpness_scale s"
  "sharpness_val (pan_set a v p s) = sharpness_val s"
  "status_var (pan_set a v p s) = status_var s"
  by (simp_all add: pan_set_def)

lemma pan_set_heap [simp]:
  "next_addr (heap (pan_set a v p s)) = next_addr (heap s)"
  "kv_dicts (heap (pan_set a v p s)) = kv_dicts (heap s)"
  "num_dicts (heap (pan_set a v p s)) = num_dicts (heap s)"
  "pan_dicts (heap (pan_set a v p s)) = (pan_dicts (heap s))(a := (pan_dicts (heap s) a)(v := p))"
  by (simp_all add: pan_set_def)

lemma bind_kv_offsets_fields [simp]:
  "images (bind_kv_offsets d s) = images s"
  "original_images (bind_kv_offsets d s) = original_images s"
  "rotations (bind_kv_offsets d s) = rotations s"
  "zoom_levels (bind_kv_offsets d s) = zoom_levels s"
  "pan_offsets (bind_kv_offsets d s) = pan_offsets s"
  "alpha (bind_kv_offsets d s) = alpha s"
  "use_color_overlay (bind_kv_offsets d s) = use_color_overlay s"
  "filter_var (bind_kv_offsets d s) = filter_var s"
  "adj_img_var (bind_kv_offsets d s) = adj_img_var s"
  "history (bind_kv_offsets d s) = history s"
  "initial_state (bind_kv_offsets d s) = initial_state s"
  "drag_start (bind_kv_offsets d s) = drag_start s"
  "active_view (bind_kv_offsets d s) = active_view s"
  "tk_images (bind_kv_offsets d s) = tk_images s"
  "ignore_rotation_callback (bind_kv_offsets d s) = ignore_rotation_callback s"
  "adjustment_values (bind_kv_offsets d s) = adjustment_values s"
  "current_adjustment_image (bind_kv_offsets d s) = current_adjustment_image s"
  "canvas_borders (bind_kv_offsets d s) = canvas_borders s"
  "thumb_borders (bind_kv_offsets d s) = thumb_borders s"
  "rotation_scale (bind_kv_offsets d s) = rotation_scale s"
  "rotation_label (bind_kv_offsets d s) = rotation_label s"
  "zoom_label (bind_kv_offsets d s) = zoom_label s"
  "brightness_scale (bind_kv_offsets d s) = brightness_scale s"
  "brightness_val (bind_kv_offsets d s) = brightness_val s"
  "contrast_scale (bind_kv_offsets d s) = contrast_scale s"
  "contrast_val (bind_kv_offsets d s) = contrast_val s"
  "sharpness_scale (bind_kv_offsets d s) = sharpness_scale s"
  "sharpness_val (bind_kv_offsets d s) = sharpness_val s"
  "status_var (bind_kv_offsets d s) = status_var s"
  by (simp_all add: bind_kv_offsets_def new_kv_def)

lemma bind_kv_offsets_heap [simp]:
  "kv_offsets (bind_kv_offsets d s) = next_addr (heap s)"
  "next_addr (heap (bind_kv_offsets d s)) = Suc (next_addr (heap s))"
  "kv_dicts (heap (bind_kv_offsets d s)) = (kv_dicts (heap s))(next_addr (heap s) := d)"
  "num_dicts (heap (bind_kv_offsets d s)) = num_dicts (heap s)"
  "pan_dicts (heap (bind_kv_offsets d s)) = pan_dicts (heap s)"
  by (simp_all add: bind_kv_offsets_def new_kv_def)

lemma bind_rotations_fields [simp]:
  "images (bind_rotations d s) = images s"
  "original_images (bind_rotations d s) = original_images s"
  "kv_offsets (bind_rotations d s) = kv_offsets s"
  "zoom_levels (bind_rotations d s) = zoom_levels s"
  "pan_offsets (bind_rotations d s) = pan_offsets s"
  "alpha (bind_rotations d s) = alpha s"
  "use_color_overlay (bind_rotations d s) = use_color_overlay s"
  "filter_var (bind_rotations d s) = filter_var s"
  "adj_img_var (bind_rotations d s) = adj_img_var s"
  "history (bind_rotations d s) = history s"
  "initial_state (bind_rotations d s) = initial_state s"
  "drag_start (bind_rotations d s) = drag_start s"
  "active_view (bind_rotations d s) = active_view s"
  "tk_images (bind_rotations d s) = tk_images s"
  "ignore_rotation_callback (bind_rotations d s) = ignore_rotation_callback s"
  "adjustment_values (bind_rotations d s) = adjustment_values s"
  "current_adjustment_image (bind_rotations d s) = current_adjustment_image s"
  "canvas_borders (bind_rotations d s) = canvas_borders s"
  "thumb_borders (bind_rotations d s) = thumb_borders s"
  "rotation_scale (bind_rotations d s) = rotation_scale s"
  "rotation_label (bind_rotations d s) = rotation_label s"
  "zoom_label (bind_rotations d s) = zoom_label s"
  "brightness_scale (bind_rotations d s) = brightness_scale s"
  "brightness_val (bind_rotations d s) = brightness_val s"
  "contrast_scale (bind_rotations d s) = contrast_scale s"
  "contrast_val (bind_rotations d s) = contrast_val s"
  "sharpness_scale (bind_rotations d s) = sharpness_scale s"
  "sharpness_val (bind_rotations d s) = sharpness_val s"
  "status_var (bind_rotations d s) = status_var s"
  by (simp_all add: bind_rotations_def new_num_def)

lemma bind_rotations_heap [simp]:
  "rotations (bind_rotations d s) = next_addr (heap s)"
  "next_addr (heap (bind_rotations d s)) = Suc (next_addr (heap s))"
  "num_dicts (heap (bind_rotations d s)) = (num_dicts (heap s))(next_addr (heap s) := d)"
  "kv_dicts (heap (bind_rotations d s)) = kv_dicts (heap s)"
  "pan_dicts (heap (bind_rotations d s)) = pan_dicts (heap s)"
  by (simp_all add: bind_rotations_def new_num_def)

lemma bind_zoom_levels_fields [simp]:
  "images (bind_zoom_levels d s) = images s"
  "original_images (bind_zoom_levels d s) = original_images s"
  "kv_offsets (bind_zoom_levels d s) = kv_offsets s"
  "rotations (bind_zoom_levels d s) = rotations s"
  "pan_offsets (bind_zoom_levels d s) = pan_offsets s"
  "alpha (bind_zoom_levels d s) = alpha s"
  "use_color_overlay (bind_zoom_levels d s) = use_color_overlay s"
  "filter_var (bind_zoom_levels d s) = filter_var s"
  "adj_img_var (bind_zoom_levels d s) = adj_img_var s"
  "history (bind_zoom_levels d s) = history s"
  "initial_state (bind_zoom_levels d s) = initial_state s"
  "drag_start (bind_zoom_levels d s) = drag_start s"
  "active_view (bind_zoom_levels d s) = active_view s"
  "tk_images (bind_zoom_levels d s) = tk_images s"
  "ignore_rotation_callback (bind_zoom_levels d s) = ignore_rotation_callback s"
  "adjustment_values (bind_zoom_levels d s) = adjustment_values s"
  "current_adjustment_image (bind_zoom_levels d s) = current_adjustment_image s"
  "canvas_borders (bind_zoom_levels d s) = canvas_borders s"
  "thumb_borders (bind_zoom_levels d s) = thumb_borders s"
  "rotation_scale (bind_zoom_levels d s) = rotation_scale s"
  "rotation_label (bind_zoom_levels d s) = rotation_label s"
  "zoom_label (bind_zoom_levels d s) = zoom_label s"
  "brightness_scale (bind_zoom_levels d s) = brightness_scale s"
  "brightness_val (bind_zoom_levels d s) = brightness_val s"
  "contrast_scale (bind_zoom_levels d s) = contrast_scale s"
  "contrast_val (bind_zoom_levels d s) = contrast_val s"
  "sharpness_scale (bind_zoom_levels d s) = sharpness_scale s"
  "sharpness_val (bind_zoom_levels d s) = sharpness_val s"
  "status_var (bind_zoom_levels d s) = status_var s"
  by (simp_all add: bind_zoom_levels_def new_num_def)

lemma bind_zoom_levels_heap [simp]:
  "zoom_levels (bind_zoom_levels d s) = next_addr (heap s)"
  "next_addr (heap (bind_zoom_levels d s)) = Suc (next_addr (heap s))"
  "num_dicts (heap (bind_zoom_levels d s)) = (num_dicts (heap s))(next_addr (heap s) := d)"
  "kv_dicts (heap (bind_zoom_levels d s)) = kv_dicts (heap s)"
  "pan_dicts (heap (bind_zoom_levels d s)) = pan_dicts (heap s)"
  by (simp_all add: bind_zoom_levels_def new_num_def)

lemma bind_pan_offsets_fields [simp]:
  "images (bind_pan_offsets d s) = images s"
  "original_images (bind_pan_offsets d s) = original_images s"
  "kv_offsets (bind_pan_offsets d s) = kv_offsets s"
  "rotations (bind_pan_offsets d s) = rotations s"
  "zoom_levels (bind_pan_offsets d s) = zoom_levels s"
  "alpha (bind_pan_offsets d s) = alpha s"
  "use_color_overlay (bind_pan_offsets d s) = use_color_overlay s"
  "filter_var (bind_pan_offsets d s) = filter_var s"
  "adj_img_var (bind_pan_offsets d s) = adj_img_var s"
  "history (bind_pan_offsets d s) = history s"
  "initial_state (bind_pan_offsets d s) = initial_state s"
  "drag_start (bind_pan_offsets d s) = drag_start s"
  "active_view (bind_pan_offsets d s) = active_view s"
  "tk_images (bind_pan_offsets d s) = tk_images s"
  "ignore_rotation_callback (bind_pan_offsets d s) = ignore_rotation_callback s"
  "adjustment_values (bind_pan_offsets d s) = adjustment_values s"
  "current_adjustment_image (bind_pan_offsets d s) = current_adjustment_image s"
  "canvas_borders (bind_pan_offsets d s) = canvas_borders s"
  "thumb_borders (bind_pan_offsets d s) = thumb_borders s"
  "rotation_scale (bind_pan_offsets d s) = rotation_scale s"
  "rotation_label (bind_pan_offsets d s) = rotation_label s"
  "zoom_label (bind_pan_offsets d s) = zoom_label s"
  "brightness_scale (bind_pan_offsets d s) = brightness_scale s"
  "brightness_val (bind_pan_offsets d s) = brightness_val s"
  "contrast_scale (bind_pan_offsets d s) = contrast_scale s"
  "contrast_val (bind_pan_offsets d s) = contrast_val s"
  "sharpness_scale (bind_pan_offsets d s) = sharpness_scale s"
  "sharpness_val (bind_pan_offsets d s) = sharpness_val s"
  "status_var (bind_pan_offsets d s) = status_var s"
  by (simp_all add: bind_pan_offsets_def new_pan_def)

lemma bind_pan_offsets_heap [simp]:
  "pan_offsets (bind_pan_offsets d s) = next_addr (heap s)"
  "next_addr (heap (bind_pan_offsets d s)) = Suc (next_addr (heap s))"
  "pan_dicts (heap (bind_pan_offsets d s)) = (pan_dicts (heap s))(next_addr (heap s) := d)"
  "kv_dicts (heap (bind_pan_offsets d s)) = kv_dicts (heap s)"
  "num_dicts (heap (bind_pan_offsets d s)) = num_dicts (heap s)"
  by (simp_all add: bind_pan_offsets_def new_pan_def)

lemma bind_adjustment_values_fields [simp]:
  "images (bind_adjustment_values d s) = images s"
  "original_images (bind_adjustment_values d s) = original_images s"
  "kv_offsets (bind_adjustment_values d s) = kv_offsets s"
  "rotations (bind_adjustment_values d s) = rotations s"
  "zoom_levels (bind_adjustment_values d s) = zoom_levels s"
  "pan_offsets (bind_adjustment_values d s) = pan_offsets s"
  "alpha (bind_adjustment_values d s) = alpha s"
  "use_color_overlay (bind_adjustment_values d s) = use_color_overlay s"
  "filter_var (bind_adjustment_values d s) = filter_var s"
  "adj_img_var (bind_adjustment_values d s) = adj_img_var s"
  "history (bind_adjustment_values d s) = history s"
  "initial_state (bind_adjustment_values d s) = initial_state s"
  "drag_start (bind_adjustment_values d s) = drag_start s"
  "active_view (bind_adjustment_values d s) = active_view s"
  "tk_images (bind_adjustment_values d s) = tk_images s"
  "ignore_rotation_callback (bind_adjustment_values d s) = ignore_rotation_callback s"
  "current_adjustment_image (bind_adjustment_values d s) = current_adjustment_image s"
  "canvas_borders (bind_adjustment_values d s) = canvas_borders s"
  "thumb_borders (bind_adjustment_values d s) = thumb_borders s"
  "rotation_scale (bind_adjustment_values d s) = rotation_scale s"
  "rotation_label (bind_adjustment_values d s) = rotation_label s"
  "zoom_label (bind_adjustment_values d s) = zoom_label s"
  "brightness_scale (bind_adjustment_values d s) = brightness_scale s"
  "brightness_val (bind_adjustment_values d s) = brightness_val s"
  "contrast_scale (bind_adjustment_values d s) = contrast_scale s"
  "contrast_val (bind_adjustment_values d s) = contrast_val s"
  "sharpness_scale (bind_adjustment_values d s) = sharpness_scale s"
  "sharpness_val (bind_adjustment_values d s) = sharpness_val s"
  "status_var (bind_adjustment_values d s) = status_var s"
  by (simp_all add: bind_adjustment_values_def new_num_def)

lemma bind_adjustment_values_heap [simp]:
  "adjustment_values (bind_adjustment_values d s) =
     adj_refs (next_addr (heap s)) (next_addr (heap s) + 1) (next_addr (heap s) + 2)"
  "next_addr (heap (bind_adjustment_values d s)) = next_addr (heap s) + 3"
  "num_dicts (heap (bind_adjustment_values d s)) =
     (num_dicts (heap s))(next_addr (heap s) := d Brightness,
        next_addr (heap s) + 1 := d Contrast, next_addr (heap s) + 2 := d Sharpness)"
  "kv_dicts (heap (bind_adjustment_values d s)) = kv_dicts (heap s)"
  "pan_dicts (heap (bind_adjustment_values d s)) = pan_dicts (heap s)"
  by (simp_all add: bind_adjustment_values_def new_num_def eval_nat_numeral)

lemma show_rotation_eq:
  "show_rotation P r s =
     s\<lparr>ignore_rotation_callback := True, rotation_scale := limit (- 180) 180 r,
       rotation_label := r, ignore_rotation_callback := False\<rparr>"
  by (simp add: show_rotation_def rotation_scale_set_def rotate_active_def Let_def)

lemma show_rotation_fields [simp]:
  "images (show_rotation P r s) = images s"
  "original_images (show_rotation P r s) = original_images s"
  "kv_offsets (show_rotation P r s) = kv_offsets s"
  "rotations (show_rotation P r s) = rotations s"
  "zoom_levels (show_rotation P r s) = zoom_levels s"
  "pan_offsets (show_rotation P r s) = pan_offsets s"
  "alpha (show_rotation P r s) = alpha s"
  "use_color_overlay (show_rotation P r s) = use_color_overlay s"
  "filter_var (show_rotation P r s) = filter_var s"
  "adj_img_var (show_rotation P r s) = adj_img_var s"
  "history (show_rotation P r s) = history s"
  "initial_state (show_rotation P r s) = initial_state s"
  "drag_start (show_rotation P r s) = drag_start s"
  "active_view (show_rotation P r s) = active_view s"
  "tk_images (show_rotation P r s) = tk_images s"
  "adjustment_values (show_rotation P r s) = adjustment_values s"
  "current_adjustment_image (show_rotation P r s) = current_adjustment_image s"
  "canvas_borders (show_rotation P r s) = canvas_borders s"
  "thumb_borders (show_rotation P r s) = thumb_borders s"
  "zoom_label (show_rotation P r s) = zoom_label s"
  "brightness_scale (show_rotation P r s) = brightness_scale s"
  "brightness_val (show_rotation P r s) = brightness_val s"
  "contrast_scale (show_rotation P r s) = contrast_scale s"
  "contrast_val (show_rotation P r s) = contrast_val s"
  "sharpness_scale (show_rotation P r s) = sharpness_scale s"
  "sharpness_val (show_rotation P r s) = sharpness_val s"
  "status_var (show_rotation P r s) = status_var s"
  "heap (show_rotation P r s) = heap s"
  by (simp_all add: show_rotation_eq)

lemma show_rotation_widgets [simp]:
  "rotation_scale (show_rotation P r s) = limit (- 180) 180 r"
  "rotation_label (show_rotation P r s) = r"
  "ignore_rotation_callback (show_rotation P r s) = False"
  by (simp_all add: show_rotation_eq)

lemma show_adjustment_fields [simp]:
  "images (show_adjustment k r s) = images s"
  "original_images (show_adjustment k r s) = original_images s"
  "kv_offsets (show_adjustment k r s) = kv_offsets s"
  "rotations (show_adjustment k r s) = rotations s"
  "zoom_levels (show_adjustment k r s) = zoom_levels s"
  "pan_offsets (show_adjustment k r s) = pan_offsets s"
  "alpha (show_adjustment k r s) = alpha s"
  "use_color_overlay (show_adjustment k r s) = use_color_overlay s"
  "filter_var (show_adjustment k r s) = filter_var s"
  "adj_img_var (show_adjustment k r s) = adj_img_var s"
  "history (show_adjustment k r s) = history s"
  "initial_state (show_adjustment k r s) = initial_state s"
  "drag_start (show_adjustment k r s) = drag_start s"
  "active_view (show_adjustment k r s) = active_view s"
  "tk_images (show_adjustment k r s) = tk_images s"
  "ignore_rotation_callback (show_adjustment k r s) = ignore_rotation_callback s"
  "adjustment_values (show_adjustment k r s) = adjustment_values s"
  "current_adjustment_image (show_adjustment k r s) = current_adjustment_image s"
  "canvas_borders (show_adjustment k r s) = canvas_borders s"
  "thumb_borders (show_adjustment k r s) = thumb_borders s"
  "rotation_scale (show_adjustment k r s) = rotation_scale s"
  "rotation_label (show_adjustment k r s) = rotation_label s"
  "zoom_label (show_adjustment k r s) = zoom_label s"
  "brightness_scale (show_adjustment k r s) = brightness_scale s"
  "contrast_scale (show_adjustment k r s) = contrast_scale s"
  "sharpness_scale (show_adjustment k r s) = sharpness_scale s"
  "status_var (show_adjustment k r s) = status_var s"
  "heap (show_adjustment k r s) = heap s"
  by (cases k; simp)+

lemma rotations_set_fields [simp]:
  "images (rotations_set v r s) = images s"
  "original_images (rotations_set v r s) = original_images s"
  "kv_offsets (rotations_set v r s) = kv_offsets s"
  "rotations (rotations_set v r s) = rotations s"
  "zoom_levels (rotations_set v r s) = zoom_levels s"
  "pan_offsets (rotations_set v r s) = pan_offsets s"
  "alpha (rotations_set v r s) = alpha s"
  "use_color_overlay (rotations_set v r s) = use_color_overlay s"
  "filter_var (rotations_set v r s) = filter_var s"
  "adj_img_var (rotations_set v r s) = adj_img_var s"
  "history (rotations_set v r s) = history s"
  "initial_state (rotations_set v r s) = initial_state s"
  "drag_start (rotations_set v r s) = drag_start s"
  "active_view (rotations_set v r s) = active_view s"
  "tk_images (rotations_set v r s) = tk_images s"
  "ignore_rotation_callback (rotations_set v r s) = ignore_rotation_callback s"
  "adjustment_values (rotations_set v r s) = adjustment_values s"
  "current_adjustment_image (rotations_set v r s) = current_adjustment_image s"
  "canvas_borders (rotations_set v r s) = canvas_borders s"
  "thumb_borders (rotations_set v r s) = thumb_borders s"
  "rotation_scale (rotations_set v r s) = rotation_scale s"
  "rotation_label (rotations_set v r s) = rotation_label s"
  "zoom_label (rotations_set v r s) = zoom_label s"
  "brightness_scale (rotations_set v r s) = brightness_scale s"
  "brightness_val (rotations_set v r s) = brightness_val s"
  "contrast_scale (rotations_set v r s) = contrast_scale s"
  "contrast_val (rotations_set v r s) = contrast_val s"
  "sharpness_scale (rotations_set v r s) = sharpness_scale s"
  "sharpness_val (rotations_set v r s) = sharpness_val s"
  "status_var (rotations_set v r s) = status_var s"
  by (simp_all add: rotations_set_def)

lemma zoom_levels_set_fields [simp]:
  "images (zoom_levels_set v r s) = images s"
  "original_images (zoom_levels_set v r s) = original_images s"
  "kv_offsets (zoom_levels_set v r s) = kv_offsets s"
  "rotations (zoom_levels_set v r s) = rotations s"
  "zoom_levels (zoom_levels_set v r s) = zoom_levels s"
  "pan_offsets (zoom_levels_set v r s) = pan_offsets s"
  "alpha (zoom_levels_set v r s) = alpha s"
  "use_color_overlay (zoom_levels_set v r s) = use_color_overlay s"
  "filter_var (zoom_levels_set v r s) = filter_var s"
  "adj_img_var (zoom_levels_set v r s) = adj_img_var s"
  "history (zoom_levels_set v r s) = history s"
  "initial_state (zoom_levels_set v r s) = initial_state s"
  "drag_start (zoom_levels_set v r s) = drag_start s"
  "active_view (zoom_levels_set v r s) = active_view s"
  "tk_images (zoom_levels_set v r s) = tk_images s"
  "ignore_rotation_callback (zoom_levels_set v r s) = ignore_rotation_callback s"
  "adjustment_values (zoom_levels_set v r s) = adjustment_values s"
  "current_adjustment_image (zoom_levels_set v r s) = current_adjustment_image s"
  "canvas_borders (zoom_levels_set v r s) = canvas_borders s"
  "thumb_borders (zoom_levels_set v r s) = thumb_borders s"
  "rotation_scale (zoom_levels_set v r s) = rotation_scale s"
  "rotation_label (zoom_levels_set v r s) = rotation_label s"
  "zoom_label (zoom_levels_set v r s) = zoom_label s"
  "brightness_scale (zoom_levels_set v r s) = brightness_scale s"
  "brightness_val (zoom_levels_set v r s) = brightness_val s"
  "contrast_scale (zoom_levels_set v r s) = contrast_scale s"
  "contrast_val (zoom_levels_set v r s) = contrast_val s"
  "sharpness_scale (zoom_levels_set v r s) = sharpness_scale s"
  "sharpness_val (zoom_levels_set v r s) = sharpness_val s"
  "status_var (zoom_levels_set v r s) = status_var s"
  by (simp_all add: zoom_levels_set_def)

lemma pan_offsets_set_fields [simp]:
  "images (pan_offsets_set v p s) = images s"
  "original_images (pan_offsets_set v p s) = original_images s"
  "kv_offsets (pan_offsets_set v p s) = kv_offsets s"
  "rotations (pan_offsets_set v p s) = rotations s"
  "zoom_levels (pan_offsets_set v p s) = zoom_levels s"
  "pan_offsets (pan_offsets_set v p s) = pan_offsets s"
  "alpha (pan_offsets_set v p s) = alpha s"
  "use_color_overlay (pan_offsets_set v p s) = use_color_overlay s"
  "filter_var (pan_offsets_set v p s) = filter_var s"
  "adj_img_var (pan_offsets_set v p s) = adj_img_var s"
  "history (pan_offsets_set v p s) = history s"
  "initial_state (pan_offsets_set v p s) = initial_state s"
  "drag_start (pan_offsets_set v p s) = drag_start s"
  "active_view (pan_offsets_set v p s) = active_view s"
  "tk_images (pan_offsets_set v p s) = tk_images s"
  "ignore_rotation_callback (pan_offsets_set v p s) = ignore_rotation_callback s"
  "adjustment_values (pan_offsets_set v p s) = adjustment_values s"
  "current_adjustment_image (pan_offsets_set v p s) = current_adjustment_image s"
  "canvas_borders (pan_offsets_set v p s) = canvas_borders s"
  "thumb_borders (pan_offsets_set v p s) = thumb_borders s"
  "rotation_scale (pan_offsets_set v p s) = rotation_scale s"
  "rotation_label (pan_offsets_set v p s) = rotation_label s"
  "zoom_label (pan_offsets_set v p s) = zoom_label s"
  "brightness_scale (pan_offsets_set v p s) = brightness_scale s"
  "brightness_val (pan_offsets_set v p s) = brightness_val s"
  "contrast_scale (pan_offsets_set v p s) = contrast_scale s"
  "contrast_val (pan_offsets_set v p s) = contrast_val s"
  "sharpness_scale (pan_offsets_set v p s) = sharpness_scale s"
  "sharpness_val (pan_offsets_set v p s) = sharpness_val s"
  "status_var (pan_offsets_set v p s) = status_var s"
  by (simp_all add: pan_offsets_set_def)

lemma adjustment_values_set_fields [simp]:
  "images (adjustment_values_set k v r s) = images s"
  "original_images (adjustment_values_set k v r s) = original_images s"
  "kv_offsets (adjustment_values_set k v r s) = kv_offsets s"
  "rotations (adjustment_values_set k v r s) = rotations s"
  "zoom_levels (adjustment_values_set k v r s) = zoom_levels s"
  "pan_offsets (adjustment_values_set k v r s) = pan_offsets s"
  "alpha (adjustment_values_set k v r s) = alpha s"
  "use_color_overlay (adjustment_values_set k v r s) = use_color_overlay s"
  "filter_var (adjustment_values_set k v r s) = filter_var s"
  "adj_img_var (adjustment_values_set k v r s) = adj_img_var s"
  "history (adjustment_values_set k v r s) = history s"
  "initial_state (adjustment_values_set k v r s) = initial_state s"
  "drag_start (adjustment_values_set k v r s) = drag_start s"
  "active_view (adjustment_values_set k v r s) = active_view s"
  "tk_images (adjustment_values_set k v r s) = tk_images s"
  "ignore_rotation_callback (adjustment_values_set k v r s) = ignore_rotation_callback s"
  "adjustment_values (adjustment_values_set k v r s) = adjustment_values s"
  "current_adjustment_image (adjustment_values_set k v r s) = current_adjustment_image s"
  "canvas_borders (adjustment_values_set k v r s) = canvas_borders s"
  "thumb_borders (adjustment_values_set k v r s) = thumb_borders s"
  "rotation_scale (adjustment_values_set k v r s) = rotation_scale s"
  "rotation_label (adjustment_values_set k v r s) = rotation_label s"
  "zoom_label (adjustment_values_set k v r s) = zoom_label s"
  "brightness_scale (adjustment_values_set k v r s) = brightness_scale s"
  "brightness_val (adjustment_values_set k v r s) = brightness_val s"
  "contrast_scale (adjustment_values_set k v r s) = contrast_scale s"
  "contrast_val (adjustment_values_set k v r s) = contrast_val s"
  "sharpness_scale (adjustment_values_set k v r s) = sharpness_scale s"
  "sharpness_val (adjustment_values_set k v r s) = sharpness_val s"
  "status_var (adjustment_values_set k v r s) = status_var s"
  by (simp_all add: adjustment_values_set_def)

lemma rotations_set_heap [simp]:
  "next_addr (heap (rotations_set v r s)) = next_addr (heap s)"
  "kv_dicts (heap (rotations_set v r s)) = kv_dicts (heap s)"
  "pan_dicts (heap (rotations_set v r s)) = pan_dicts (heap s)"
  "num_dicts (heap (rotations_set v r s)) =
     (num_dicts (heap s))(rotations s := (num_dicts (heap s) (rotations s))(v := r))"
  by (simp_all add: rotations_set_def)

lemma zoom_levels_set_heap [simp]:
  "next_addr (heap (zoom_levels_set v r s)) = next_addr (heap s)"
  "kv_dicts (heap (zoom_levels_set v r s)) = kv_dicts (heap s)"
  "pan_dicts (heap (zoom_levels_set v r s)) = pan_dicts (heap s)"
  "num_dicts (heap (zoom_levels_set v r s)) =
     (num_dicts (heap s))(zoom_levels s := (num_dicts (heap s) (zoom_levels s))(v := r))"
  by (simp_all add: zoom_levels_set_def)

lemma adjustment_values_set_heap [simp]:
  "next_addr (heap (adjustment_values_set k v r s)) = next_addr (heap s)"
  "kv_dicts (heap (adjustment_values_set k v r s)) = kv_dicts (heap s)"
  "pan_dicts (heap (adjustment_values_set k v r s)) = pan_dicts (heap s)"
  "num_dicts (heap (adjustment_values_set k v r s)) =
     (num_dicts (heap s))
       (adjustment_values s k := (num_dicts (heap s) (adjustment_values s k))(v := r))"
  by (simp_all add: adjustment_values_set_def)

lemma pan_offsets_set_heap [simp]:
  "next_addr (heap (pan_offsets_set v p s)) = next_addr (heap s)"
  "kv_dicts (heap (pan_offsets_set v p s)) = kv_dicts (heap s)"
  "num_dicts (heap (pan_offsets_set v p s)) = num_dicts (heap s)"
  "pan_dicts (heap (pan_offsets_set v p s)) =
     (pan_dicts (heap s))(pan_offsets s := (pan_dicts (heap s) (pan_offsets s))(v := p))"
  by (simp_all add: pan_offsets_set_def)

lemma move_scale_fields [simp]:
  "images (move_scale k r s) = images s"
  "original_images (move_scale k r s) = original_images s"
  "kv_offsets (move_scale k r s) = kv_offsets s"
  "rotations (move_scale k r s) = rotations s"
  "zoom_levels (move_scale k r s) = zoom_levels s"
  "pan_offsets (move_scale k r s) = pan_offsets s"
  "alpha (move_scale k r s) = alpha s"
  "use_color_overlay (move_scale k r s) = use_color_overlay s"
  "filter_var (move_scale k r s) = filter_var s"
  "adj_img_var (move_scale k r s) = adj_img_var s"
  "history (move_scale k r s) = history s"
  "initial_state (move_scale k r s) = initial_state s"
  "drag_start (move_scale k r s) = drag_start s"
  "active_view (move_scale k r s) = active_view s"
  "tk_images (move_scale k r s) = tk_images s"
  "ignore_rotation_callback (move_scale k r s) = ignore_rotation_callback s"
  "adjustment_values (move_scale k r s) = adjustment_values s"
  "current_adjustment_image (move_scale k r s) = current_adjustment_image s"
  "canvas_borders (move_scale k r s) = canvas_borders s"
  "thumb_borders (move_scale k r s) = thumb_borders s"
  "rotation_scale (move_scale k r s) = rotation_scale s"
  "rotation_label (move_scale k r s) = rotation_label s"
  "zoom_label (move_scale k r s) = zoom_label s"
  "brightness_val (move_scale k r s) = brightness_val s"
  "contrast_val (move_scale k r s) = contrast_val s"
  "sharpness_val (move_scale k r s) = sharpness_val s"
  "status_var (move_scale k r s) = status_var s"
  "heap (move_scale k r s) = heap s"
  by (cases k; simp)+

lemma rotate_active_fields [simp]:
  "images (rotate_active P a s) = images s"
  "original_images (rotate_active P a s) = original_images s"
  "kv_offsets (rotate_active P a s) = kv_offsets s"
  "rotations (rotate_active P a s) = rotations s"
  "zoom_levels (rotate_active P a s) = zoom_levels s"
  "pan_offsets (rotate_active P a s) = pan_offsets s"
  "alpha (rotate_active P a s) = alpha s"
  "use_color_overlay (rotate_active P a s) = use_color_overlay s"
  "filter_var (rotate_active P a s) = filter_var s"
  "adj_img_var (rotate_active P a s) = adj_img_var s"
  "initial_state (rotate_active P a s) = initial_state s"
  "drag_start (rotate_active P a s) = drag_start s"
  "active_view (rotate_active P a s) = active_view s"
  "ignore_rotation_callback (rotate_active P a s) = ignore_rotation_callback s"
  "adjustment_values (rotate_active P a s) = adjustment_values s"
  "current_adjustment_image (rotate_active P a s) = current_adjustment_image s"
  "canvas_borders (rotate_active P a s) = canvas_borders s"
  "thumb_borders (rotate_active P a s) = thumb_borders s"
  "rotation_scale (rotate_active P a s) = rotation_scale s"
  "zoom_label (rotate_active P a s) = zoom_label s"
  "brightness_scale (rotate_active P a s) = brightness_scale s"
  "brightness_val (rotate_active P a s) = brightness_val s"
  "contrast_scale (rotate_active P a s) = contrast_scale s"
  "contrast_val (rotate_active P a s) = contrast_val s"
  "sharpness_scale (rotate_active P a s) = sharpness_scale s"
  "sharpness_val (rotate_active P a s) = sharpness_val s"
  "status_var (rotate_active P a s) = status_var s"
  by (simp_all add: rotate_active_def Let_def)

lemma adjust_image_fields [simp]:
  "original_images (adjust_image P k r s) = original_images s"
  "kv_offsets (adjust_image P k r s) = kv_offsets s"
  "rotations (adjust_image P k r s) = rotations s"
  "zoom_levels (adjust_image P k r s) = zoom_levels s"
  "pan_offsets (adjust_image P k r s) = pan_offsets s"
  "alpha (adjust_image P k r s) = alpha s"
  "use_color_overlay (adjust_image P k r s) = use_color_overlay s"
  "filter_var (adjust_image P k r s) = filter_var s"
  "adj_img_var (adjust_image P k r s) = adj_img_var s"
  "initial_state (adjust_image P k r s) = initial_state s"
  "drag_start (adjust_image P k r s) = drag_start s"
  "active_view (adjust_image P k r s) = active_view s"
  "ignore_rotation_callback (adjust_image P k r s) = ignore_rotation_callback s"
  "adjustment_values (adjust_image P k r s) = adjustment_values s"
  "current_adjustment_image (adjust_image P k r s) = current_adjustment_image s"
  "canvas_borders (adjust_image P k r s) = canvas_borders s"
  "thumb_borders (adjust_image P k r s) = thumb_borders s"
  "rotation_scale (adjust_image P k r s) = rotation_scale s"
  "rotation_label (adjust_image P k r s) = rotation_label s"
  "zoom_label (adjust_image P k r s) = zoom_label s"
  "brightness_scale (adjust_image P k r s) = brightness_scale s"
  "contrast_scale (adjust_image P k r s) = contrast_scale s"
  "sharpness_scale (adjust_image P k r s) = sharpness_scale s"
  by (simp_all add: adjust_image_def Let_def split: option.splits)

lemma scale_set_fields [simp]:
  "original_images (scale_set P k r s) = original_images s"
  "kv_offsets (scale_set P k r s) = kv_offsets s"
  "rotations (scale_set P k r s) = rotations s"
  "zoom_levels (scale_set P k r s) = zoom_levels s"
  "pan_offsets (scale_set P k r s) = pan_offsets s"
  "alpha (scale_set P k r s) = alpha s"
  "use_color_overlay (scale_set P k r s) = use_color_overlay s"
  "filter_var (scale_set P k r s) = filter_var s"
  "adj_img_var (scale_set P k r s) = adj_img_var s"
  "initial_state (scale_set P k r s) = initial_state s"
  "drag_start (scale_set P k r s) = drag_start s"
  "active_view (scale_set P k r s) = active_view s"
  "ignore_rotation_callback (scale_set P k r s) = ignore_rotation_callback s"
  "adjustment_values (scale_set P k r s) = adjustment_values s"
  "current_adjustment_image (scale_set P k r s) = current_adjustment_image s"
  "canvas_borders (scale_set P k r s) = canvas_borders s"
  "thumb_borders (scale_set P k r s) = thumb_borders s"
  "rotation_scale (scale_set P k r s) = rotation_scale s"
  "rotation_label (scale_set P k r s) = rotation_label s"
  "zoom_label (scale_set P k r s) = zoom_label s"
  by (simp_all add: scale_set_def Let_def)

lemma show_adjustments_fields [simp]:
  "original_images (show_adjustments P v s) = original_images s"
  "kv_offsets (show_adjustments P v s) = kv_offsets s"
  "rotations (show_adjustments P v s) = rotations s"
  "zoom_levels (show_adjustments P v s) = zoom_levels s"
  "pan_offsets (show_adjustments P v s) = pan_offsets s"
  "alpha (show_adjustments P v s) = alpha s"
  "use_color_overlay (show_adjustments P v s) = use_color_overlay s"
  "filter_var (show_adjustments P v s) = filter_var s"
  "adj_img_var (show_adjustments P v s) = adj_img_var s"
  "initial_state (show_adjustments P v s) = initial_state s"
  "drag_start (show_adjustments P v s) = drag_start s"
  "active_view (show_adjustments P v s) = active_view s"
  "ignore_rotation_callback (show_adjustments P v s) = ignore_rotation_callback s"
  "adjustment_values (show_adjustments P v s) = adjustment_values s"
  "current_adjustment_image (show_adjustments P v s) = current_adjustment_image s"
  "canvas_borders (show_adjustments P v s) = canvas_borders s"
  "thumb_borders (show_adjustments P v s) = thumb_borders s"
  "rotation_scale (show_adjustments P v s) = rotation_scale s"
  "rotation_label (show_adjustments P v s) = rotation_label s"
  "zoom_label (show_adjustments P v s) = zoom_label s"
  by (simp_all add: show_adjustments_def Let_def)

lemma reset_scales_fields [simp]:
  "original_images (reset_scales P s) = original_images s"
  "kv_offsets (reset_scales P s) = kv_offsets s"
  "rotations (reset_scales P s) = rotations s"
  "zoom_levels (reset_scales P s) = zoom_levels s"
  "pan_offsets (reset_scales P s) = pan_offsets s"
  "alpha (reset_scales P s) = alpha s"
  "use_color_overlay (reset_scales P s) = use_color_overlay s"
  "filter_var (reset_scales P s) = filter_var s"
  "adj_img_var (reset_scales P s) = adj_img_var s"
  "initial_state (reset_scales P s) = initial_state s"
  "drag_start (reset_scales P s) = drag_start s"
  "active_view (reset_scales P s) = active_view s"
  "ignore_rotation_callback (reset_scales P s) = ignore_rotation_callback s"
  "adjustment_values (reset_scales P s) = adjustment_values s"
  "current_adjustment_image (reset_scales P s) = current_adjustment_image s"
  "canvas_borders (reset_scales P s) = canvas_borders s"
  "thumb_borders (reset_scales P s) = thumb_borders s"
  "rotation_scale (reset_scales P s) = rotation_scale s"
  "rotation_label (reset_scales P s) = rotation_label s"
  "zoom_label (reset_scales P s) = zoom_label s"
  by (simp_all add: reset_scales_def Let_def)

lemma saved_store_simps [simp]:
  "next_addr (saved_store s) = next_addr (heap s) + 7"
  "kv_dicts (saved_store s) =
     (kv_dicts (heap s))(next_addr (heap s) := kv_dicts (heap s) (kv_offsets s))"
  "pan_dicts (saved_store s) =
     (pan_dicts (heap s))(next_addr (heap s) + 3 := pan_dicts (heap s) (pan_offsets s))"
  "num_dicts (saved_store s) = (num_dicts (heap s))
          (next_addr (heap s) + 1 := num_dicts (heap s) (rotations s),
           next_addr (heap s) + 2 := num_dicts (heap s) (zoom_levels s),
           next_addr (heap s) + 4 := num_dicts (heap s) (adjustment_values s Brightness),
           next_addr (heap s) + 5 := num_dicts (heap s) (adjustment_values s Contrast),
           next_addr (heap s) + 6 := num_dicts (heap s) (adjustment_values s Sharpness))"
  by (simp_all add: saved_store_def)

lemma hist_push_length: "length h \<le> 20 \<Longrightarrow> length (hist_push h e) \<le> 20"
  by (auto simp: hist_push_def Let_def)

lemma hist_push_drop:
  "length h \<le> 20 \<Longrightarrow> hist_push h e = drop (length (h @ [e]) - 20) (h @ [e])"
proof (cases "length h = 20")
  case True
  then have "hist_push h e = tl (h @ [e])"
    by (simp add: hist_push_def)
  also have "\<dots> = drop 1 (h @ [e])"
    by (simp only: One_nat_def drop_Suc drop_0)
  finally show ?thesis
    using True by simp
next
  case False
  assume "length h \<le> 20"
  with False show ?thesis
    by (simp add: hist_push_def)
qed

lemma hist_push_short: "length h < 20 \<Longrightarrow> hist_push h e = h @ [e]"
  by (simp add: hist_push_def)

lemma hist_push_not_Nil: "hist_push h e \<noteq> []"
  by (cases h) (auto simp: hist_push_def Let_def)

lemma last_hist_push: "last (hist_push h e) = e"
  by (cases h) (auto simp: hist_push_def Let_def)

lemma foldl_hist_push:
  "length h \<le> 20 \<Longrightarrow> foldl hist_push h es = drop (length (h @ es) - 20) (h @ es)"
proof (induction es arbitrary: h)
  case Nil
  then show ?case by simp
next
  case (Cons e es)
  have l: "length (hist_push h e) \<le> 20"
    using Cons.prems by (rule hist_push_length)
  show ?case
  proof (cases "length h = 20")
    case True
    then have hp: "hist_push h e = tl h @ [e]"
      by (cases h) (simp_all add: hist_push_def)
    have "foldl hist_push (hist_push h e) es = drop (length es) (tl h @ [e] @ es)"
      using Cons.IH[OF l] True by (simp add: hp)
    also have "\<dots> = drop (Suc (length es)) (h @ e # es)"
      using True by (cases h) simp_all
    finally show ?thesis
      using True by simp
  next
    case False
    with Cons.prems have hp: "hist_push h e = h @ [e]"
      by (simp add: hist_push_def)
    show ?thesis
      using Cons.IH[OF l] by (simp add: hp)
  qed
qed

subsection \<open>The scales without an original raster\<close>

lemma limit_range: "lo \<le> hi \<Longrightarrow> lo \<le> limit lo hi v \<and> limit lo hi v \<le> hi"
  by (simp add: limit_def)

lemma limit_id: "lo \<le> v \<Longrightarrow> v \<le> hi \<Longrightarrow> limit lo hi v = v"
  by (simp add: limit_def)

lemma adjust_image_None:
  "original_images s (current_adjustment_image s) = None \<Longrightarrow>
   adjust_image P k r s =
     adjustment_values_set k (slot_view (current_adjustment_image s)) r (show_adjustment k r s)"
  by (simp add: adjust_image_def Let_def)

lemma scale_set_None:
  "original_images s (current_adjustment_image s) = None \<Longrightarrow>
   scale_set P k r s =
     adjustment_values_set k (slot_view (current_adjustment_image s)) (limit (1 / 10) 3 r)
       (show_adjustment k (limit (1 / 10) 3 r) (move_scale k (limit (1 / 10) 3 r) s))"
  by (simp add: scale_set_def Let_def adjust_image_None)

subsection \<open>What the scales push\<close>

lemma length_hist_push: "length h \<le> 20 \<Longrightarrow> length (hist_push h e) = min 20 (length h + 1)"
  by (auto simp: hist_push_def Let_def)

lemma adjust_image_history:
  "history (adjust_image P k r s) =
     (if original_images s (current_adjustment_image s) = None then history s
      else hist_push (history s) (new_entry s))"
  by (simp add: adjust_image_def Let_def new_entry_def split: option.splits)

lemma adjust_image_next_addr:
  "next_addr (heap (adjust_image P k r s)) =
     (if original_images s (current_adjustment_image s) = None then next_addr (heap s)
      else next_addr (heap s) + 7)"
  by (simp add: adjust_image_def Let_def split: option.splits)

lemma scale_set_history:
  "history (scale_set P k r s) =
     (if original_images s (current_adjustment_image s) = None then history s
      else hist_push (history s) (new_entry s))"
  by (simp add: scale_set_def Let_def adjust_image_history new_entry_def)

lemma scale_set_next_addr:
  "next_addr (heap (scale_set P k r s)) =
     (if original_images s (current_adjustment_image s) = None then next_addr (heap s)
      else next_addr (heap s) + 7)"
  by (simp add: scale_set_def Let_def adjust_image_next_addr)

lemma show_adjustments_history_None:
  "original_images s (current_adjustment_image s) = None \<Longrightarrow>
   history (show_adjustments P v s) = history s"
  by (simp add: show_adjustments_def Let_def scale_set_history)

lemma reset_scales_history_None:
  "original_images s (current_adjustment_image s) = None \<Longrightarrow>
   history (reset_scales P s) = history s"
  by (simp add: reset_scales_def Let_def scale_set_history)

lemma show_adjustments_next_addr_None:
  "original_images s (current_adjustment_image s) = None \<Longrightarrow>
   next_addr (heap (show_adjustments P v s)) = next_addr (heap s)"
  by (simp add: show_adjustments_def Let_def scale_set_next_addr)

lemma reset_scales_next_addr_None:
  "original_images s (current_adjustment_image s) = None \<Longrightarrow>
   next_addr (heap (reset_scales P s)) = next_addr (heap s)"
  by (simp add: reset_scales_def Let_def scale_set_next_addr)

lemma show_adjustments_history_length:
  "original_images s (current_adjustment_image s) \<noteq> None \<Longrightarrow> length (history s) \<le> 20 \<Longrightarrow>
   length (history (show_adjustments P v s)) = min 20 (length (history s) + 3)"
  by (auto simp: show_adjustments_def Let_def scale_set_history length_hist_push)

lemma reset_scales_history_length:
  "original_images s (current_adjustment_image s) \<noteq> None \<Longrightarrow> length (history s) \<le> 20 \<Longrightarrow>
   length (history (reset_scales P s)) = min 20 (length (history s) + 3)"
  by (auto simp: reset_scales_def Let_def scale_set_history length_hist_push)

lemma scale_set_history_bound:
  "length (history s) \<le> 20 \<Longrightarrow> length (history (scale_set P k r s)) \<le> 20"
  by (simp add: scale_set_history hist_push_length)

lemma show_adjustments_history_bound:
  "length (history s) \<le> 20 \<Longrightarrow> length (history (show_adjustments P v s)) \<le> 20"
  by (simp add: show_adjustments_def Let_def scale_set_history_bound)

lemma reset_scales_history_bound:
  "length (history s) \<le> 20 \<Longrightarrow> length (history (reset_scales P s)) \<le> 20"
  by (simp add: reset_scales_def Let_def scale_set_history_bound)

lemma new_entry_eq: "new_entry s = entry_at (next_addr (heap s)) (alpha s) (use_color_overlay s)"
  by (simp add: new_entry_def entry_at_def)

lemma adjust_image_kv:
  "kv_dicts (heap (adjust_image P k r s)) =
     (if original_images s (current_adjustment_image s) = None then kv_dicts (heap s)
      else (kv_dicts (heap s))(next_addr (heap s) := kv_dicts (heap s) (kv_offsets s)))"
  by (simp add: adjust_image_def Let_def split: option.splits)

lemma scale_set_kv:
  "kv_dicts (heap (scale_set P k r s)) =
     (if original_images s (current_adjustment_image s) = None then kv_dicts (heap s)
      else (kv_dicts (heap s))(next_addr (heap s) := kv_dicts (heap s) (kv_offsets s)))"
  by (simp add: scale_set_def Let_def adjust_image_kv)

lemma show_adjustments_with_original:
  assumes "original_images s (current_adjustment_image s) \<noteq> None"
    and "length (history s) \<le> 17" and "kv_offsets s < next_addr (heap s)"
  shows "history (show_adjustments P v s) =
           history s @
             [entry_at (next_addr (heap s)) (alpha s) (use_color_overlay s),
              entry_at (next_addr (heap s) + 7) (alpha s) (use_color_overlay s),
              entry_at (next_addr (heap s) + 14) (alpha s) (use_color_overlay s)]"
    and "next_addr (heap (show_adjustments P v s)) = next_addr (heap s) + 21"
    and "kv_dicts (heap (show_adjustments P v s)) =
           (kv_dicts (heap s))
             (next_addr (heap s) := kv_dicts (heap s) (kv_offsets s),
              next_addr (heap s) + 7 := kv_dicts (heap s) (kv_offsets s),
              next_addr (heap s) + 14 := kv_dicts (heap s) (kv_offsets s))"
proof -
  from assms(1) obtain y where y: "original_images s (current_adjustment_image s) = Some y"
    by blast
  show "history (show_adjustments P v s) =
           history s @
             [entry_at (next_addr (heap s)) (alpha s) (use_color_overlay s),
              entry_at (next_addr (heap s) + 7) (alpha s) (use_color_overlay s),
              entry_at (next_addr (heap s) + 14) (alpha s) (use_color_overlay s)]"
    using assms(2) y
    by (simp add: show_adjustments_def Let_def scale_set_history scale_set_next_addr
        hist_push_short new_entry_eq add.commute)
  show "next_addr (heap (show_adjustments P v s)) = next_addr (heap s) + 21"
    using y by (simp add: show_adjustments_def Let_def scale_set_next_addr)
  show "kv_dicts (heap (show_adjustments P v s)) =
           (kv_dicts (heap s))
             (next_addr (heap s) := kv_dicts (heap s) (kv_offsets s),
              next_addr (heap s) + 7 := kv_dicts (heap s) (kv_offsets s),
              next_addr (heap s) + 14 := kv_dicts (heap s) (kv_offsets s))"
    using assms(3) y
    by (simp add: show_adjustments_def Let_def scale_set_next_addr scale_set_kv add.commute)
qed

lemma show_adjustments_kv_below:
  "a < next_addr (heap s) \<Longrightarrow> kv_dicts (heap (show_adjustments P v s)) a = kv_dicts (heap s) a"
  by (simp add: show_adjustments_def Let_def scale_set_next_addr scale_set_kv)

lemma show_adjustments_None:
  assumes "original_images s (current_adjustment_image s) = None"
  shows "kv_dicts (heap (show_adjustments P v s)) = kv_dicts (heap s)"
    and "pan_dicts (heap (show_adjustments P v s)) = pan_dicts (heap s)"
    and "next_addr (heap (show_adjustments P v s)) = next_addr (heap s)"
  using assms by (simp_all add: show_adjustments_def Let_def scale_set_None)

lemma select_history_length:
  "images s k \<noteq> None \<Longrightarrow> original_images s k \<noteq> None \<Longrightarrow> length (history s) \<le> 20 \<Longrightarrow>
   length (history (select_image_for_adjustment P k s)) = min 20 (length (history s) + 3)"
  by (auto simp: select_image_for_adjustment_def Let_def show_adjustments_history_length)

lemma reset_adjustments_history_length:
  "original_images s (current_adjustment_image s) \<noteq> None \<Longrightarrow> length (history s) \<le> 20 \<Longrightarrow>
   length (history (reset_adjustments P s)) = min 20 (length (history s) + 4)"
  by (auto simp: reset_adjustments_def Let_def reset_scales_history_length length_hist_push)

subsection \<open>Pushing an entry\<close>

lemma recorded_save_state: "allocated t \<Longrightarrow> recorded (save_state t) (new_entry t)"
  by (simp add: recorded_def new_entry_def allocated_def)

lemma pushed_save: 
  assumes "allocated t" "history t = history s"
  shows "pushed s (update_match_overlay P (save_state t))"
  using recorded_save_state[OF assms(1)] assms(2)
  by (simp add: pushed_def last_hist_push recorded_def)

lemma pushed_status: "pushed s s' \<Longrightarrow> pushed s (s'\<lparr>status_var := x\<rparr>)"
  by (simp add: pushed_def recorded_def)

lemma allocated_updates [simp]:
  "allocated (s\<lparr>images := x1\<rparr>) = allocated s"
  "allocated (s\<lparr>original_images := x2\<rparr>) = allocated s"
  "allocated (s\<lparr>alpha := x3\<rparr>) = allocated s"
  "allocated (s\<lparr>use_color_overlay := x4\<rparr>) = allocated s"
  "allocated (s\<lparr>filter_var := x5\<rparr>) = allocated s"
  "allocated (s\<lparr>adj_img_var := x6\<rparr>) = allocated s"
  "allocated (s\<lparr>history := x7\<rparr>) = allocated s"
  "allocated (s\<lparr>initial_state := x8\<rparr>) = allocated s"
  "allocated (s\<lparr>drag_start := x9\<rparr>) = allocated s"
  "allocated (s\<lparr>active_view := x10\<rparr>) = allocated s"
  "allocated (s\<lparr>tk_images := x11\<rparr>) = allocated s"
  "allocated (s\<lparr>ignore_rotation_callback := x12\<rparr>) = allocated s"
  "allocated (s\<lparr>current_adjustment_image := x13\<rparr>) = allocated s"
  "allocated (s\<lparr>canvas_borders := x14\<rparr>) = allocated s"
  "allocated (s\<lparr>thumb_borders := x15\<rparr>) = allocated s"
  "allocated (s\<lparr>rotation_scale := x16\<rparr>) = allocated s"
  "allocated (s\<lparr>rotation_label := x17\<rparr>) = allocated s"
  "allocated (s\<lparr>zoom_label := x18\<rparr>) = allocated s"
  "allocated (s\<lparr>brightness_scale := x19\<rparr>) = allocated s"
  "allocated (s\<lparr>brightness_val := x20\<rparr>) = allocated s"
  "allocated (s\<lparr>contrast_scale := x21\<rparr>) = allocated s"
  "allocated (s\<lparr>contrast_val := x22\<rparr>) = allocated s"
  "allocated (s\<lparr>sharpness_scale := x23\<rparr>) = allocated s"
  "allocated (s\<lparr>sharpness_val := x24\<rparr>) = allocated s"
  "allocated (s\<lparr>status_var := x25\<rparr>) = allocated s"
  by (simp_all add: allocated_def)

lemma allocated_frames [simp]:
  "allocated (kv_add k d s) = allocated s"
  "allocated (num_set a v r s) = allocated s"
  "allocated (pan_set a v p s) = allocated s"
  "allocated (rotations_set v r s) = allocated s"
  "allocated (zoom_levels_set v r s) = allocated s"
  "allocated (pan_offsets_set v p s) = allocated s"
  "allocated (adjustment_values_set j v r s) = allocated s"
  "allocated (show_rotation P r s) = allocated s"
  "allocated (update_match_overlay P s) = allocated s"
  by (simp_all add: allocated_def)

lemma allocated_show_adjustment [simp]: "allocated (show_adjustment j r s) = allocated s"
  by (cases j) simp_all

lemma allocated_move_scale [simp]: "allocated (move_scale j r s) = allocated s"
  by (cases j) simp_all

lemma allocated_save_state: "allocated s \<Longrightarrow> allocated (save_state s)"
  by (simp add: allocated_def)

lemma allocated_adjust_image: "allocated s \<Longrightarrow> allocated (adjust_image P k r s)"
  by (simp add: adjust_image_def Let_def allocated_save_state split: option.splits)

lemma allocated_scale_set: "allocated s \<Longrightarrow> allocated (scale_set P k r s)"
  by (simp add: scale_set_def Let_def allocated_adjust_image)

lemma allocated_show_adjustments: "allocated s \<Longrightarrow> allocated (show_adjustments P v s)"
  by (simp add: show_adjustments_def Let_def allocated_scale_set)

lemma allocated_reset_scales: "allocated s \<Longrightarrow> allocated (reset_scales P s)"
  by (simp add: reset_scales_def Let_def allocated_scale_set)

lemma pushed_history_cong: "history t = history s \<Longrightarrow> pushed t u = pushed s u"
  by (simp add: pushed_def)

lemma nudge_pushed: "allocated s \<Longrightarrow> pushed s (nudge_kv P dx dy s)"
  by (auto simp: nudge_kv_def Let_def intro!: pushed_save split: option.splits)

lemma drag_pushed:
  "allocated s \<Longrightarrow> drag_start s \<noteq> None \<Longrightarrow> images s (kv_slot v) \<noteq> None \<Longrightarrow>
   pushed s (drag_kv P e v s)"
  by (auto simp: drag_kv_def Let_def intro!: pushed_save split: option.splits)

lemma scroll_pushed: "allocated s \<Longrightarrow> pushed s (mouse_scroll P e AP s)"
  by (auto simp: mouse_scroll_def Let_def intro!: pushed_save)

lemma zoom_pushed:
  "allocated s \<Longrightarrow> pushes P (Control_MouseWheel v e) s \<Longrightarrow>
   pushed s (step P (Control_MouseWheel v e) s)"
  by (auto simp: zoom_def Let_def intro!: pushed_save)

lemma rotate_pushed:
  "allocated s \<Longrightarrow> \<not> ignore_rotation_callback s \<Longrightarrow> active_view s = Some AP \<Longrightarrow>
   pushed s (rotate_active P a s)"
  by (auto simp: rotate_active_def Let_def intro!: pushed_save)

lemma rotation_scale_pushed:
  "allocated s \<Longrightarrow> \<not> ignore_rotation_callback s \<Longrightarrow> active_view s = Some AP \<Longrightarrow>
   pushed s (rotation_scale_set P a s)"
  using rotate_pushed[of "s\<lparr>rotation_scale := limit (- 180) 180 a\<rparr>" P "limit (- 180) 180 a"]
  by (simp add: rotation_scale_set_def Let_def pushed_def)

lemma adjust_pushed:
  "allocated s \<Longrightarrow> original_images s (current_adjustment_image s) \<noteq> None \<Longrightarrow>
   pushed s (adjust_image P k r s)"
  by (auto simp: adjust_image_def Let_def intro!: pushed_save pushed_status)

lemma adjust_scale_pushed:
  "allocated s \<Longrightarrow> original_images s (current_adjustment_image s) \<noteq> None \<Longrightarrow>
   pushed s (scale_set P k r s)"
  using adjust_pushed[of "move_scale k (limit (1 / 10) 3 r) s" P k "limit (1 / 10) 3 r"]
  by (simp add: scale_set_def Let_def pushed_def)

lemma reset_adjustments_pushed:
  "allocated s \<Longrightarrow> original_images s (current_adjustment_image s) = None \<Longrightarrow>
   pushed s (reset_adjustments P s)"
  by (auto simp: reset_adjustments_def Let_def allocated_reset_scales reset_scales_history_None
      intro!: pushed_save pushed_status)

lemma apply_filter_pushed:
  "allocated s \<Longrightarrow> pushes P Apply_filter_button s \<Longrightarrow> pushed s (apply_selected_filter P s)"
  by (auto simp: apply_selected_filter_def Let_def intro!: pushed_save pushed_status)

lemma allocated_binds:
  "allocated (bind_adjustment_values d5 (bind_pan_offsets d4 (bind_zoom_levels d3
      (bind_rotations d2 (bind_kv_offsets d1 s)))))"
  by (simp add: allocated_def)

lemma reset_to_default_pushed:
  assumes "initial_state s = Some ini" and "original_images s (current_adjustment_image s) = None"
  shows "pushed s (reset_to_default P s)"
proof -
  let ?b = "bind_adjustment_values (i_adjustment_values ini)
     (bind_pan_offsets (i_pan_offsets ini) (bind_zoom_levels (i_zoom_levels ini)
        (bind_rotations (i_rotations ini) (bind_kv_offsets (i_kv_offsets ini)
           (s\<lparr>images := (\<lambda>k. case original_images s k of
                                        Some img \<Rightarrow> Some img
                                      | None \<Rightarrow> images s k)\<rparr>)))))"
  let ?t = "reset_scales P
     ((show_rotation P 0 (?b\<lparr>alpha := i_alpha ini,
          use_color_overlay := i_use_color_overlay ini\<rparr>))\<lparr>zoom_label := 100\<rparr>)"
  have a: "allocated ?t"
    by (intro allocated_reset_scales) (simp add: allocated_binds)
  have h: "history ?t = history s"
    using assms(2) by (simp add: reset_scales_history_None)
  have "pushed s (update_match_overlay P (save_state
      (?t\<lparr>thumb_borders := (\<lambda>t. False), canvas_borders := (\<lambda>n. False),
          active_view := None, status_var := Restored_to_default\<rparr>)))"
    using a h by (intro pushed_save) simp_all
  then show ?thesis
    using assms(1) by (simp add: reset_to_default_def Let_def)
qed

lemma step_pushed: "allocated s \<Longrightarrow> pushes P g s \<Longrightarrow> pushed s (step P g s)"
proof (cases g)
  case (Control_MouseWheel v e)
  assume "allocated s" "pushes P g s"
  then show ?thesis
    unfolding Control_MouseWheel by (rule zoom_pushed)
next
  case Restore_to_default_button
  assume "pushes P g s"
  then show ?thesis
    unfolding Restore_to_default_button by (auto intro: reset_to_default_pushed)
qed (simp_all add: nudge_pushed drag_pushed scroll_pushed rotation_scale_pushed
       adjust_scale_pushed reset_adjustments_pushed apply_filter_pushed)

subsection \<open>Mutators and the history\<close>

text \<open>
  Every gesture whose handler saves the state once has on return pushed one new entry on
  the history, and the entry records the full mutable state of the return state: the four
  offsets, both rotations, zooms and pans, the adjustment values, alpha and the
  colour-overlay flag.
\<close>

lemma mutators_push_entry:
  assumes "allocated s" and "pushes P g s"
  shows "history (step P g s) = hist_push (history s) (last (history (step P g s))) \<and>
         recorded (step P g s) (last (history (step P g s)))"
  using step_pushed[OF assms] by (simp add: pushed_def)

lemma allocated_startup: "allocated (startup P)"
  by (simp add: startup_def allocated_def init_state_def init_store_def save_initial_state_def)

text \<open>
  The blend scale and the colour-overlay check button are wired to the compositor alone:
  whatever the state, alpha or the flag changes and the history stays as it was.
\<close>

lemma blend_and_overlay_push_nothing:
  "history (step P (Blend_scale a) s) = history s"
  "alpha (step P (Blend_scale a) s) = limit 0 1 a"
  "history (step P Color_overlay_check s) = history s"
  "use_color_overlay (step P Color_overlay_check s) = (\<not> use_color_overlay s)"
  by (simp_all add: blend_scale_def color_overlay_check_def)

subsection \<open>The history of a session\<close>

lemma history_save:
  "history t = history s \<Longrightarrow>
   history (update_match_overlay P (save_state t)) =
     hist_push (history s) (last (history (update_match_overlay P (save_state t))))"
  by (simp add: last_hist_push)

lemma pushes_history:
  "pushes P g s \<Longrightarrow> history (step P g s) = hist_push (history s) (last (history (step P g s)))"
proof (cases g)
  case (Control_MouseWheel v e)
  assume "pushes P g s"
  then show ?thesis
    unfolding Control_MouseWheel by (auto simp: zoom_def Let_def last_hist_push)
qed (auto simp: drag_kv_def nudge_kv_def mouse_scroll_def rotation_scale_set_def
       rotate_active_def scale_set_history
       reset_adjustments_def apply_selected_filter_def reset_to_default_def Let_def
       reset_scales_history_None last_hist_push split: option.splits)

lemma load_files_fst:
  "fst (load_files found ks (s, n)) =
     s\<lparr>images := (\<lambda>k. if k \<in> set ks \<and> found k \<noteq> None then found k else images s k),
       original_images :=
         (\<lambda>k. if k \<in> set ks \<and> found k \<noteq> None then found k else original_images s k)\<rparr>"
proof (induction ks arbitrary: s n)
  case Nil
  show ?case by simp
next
  case (Cons k ks)
  have eq: "\<And>f g f' g'. f = f' \<Longrightarrow> g = g' \<Longrightarrow>
     s\<lparr>images := f, original_images := g\<rparr> = s\<lparr>images := f', original_images := g'\<rparr>"
    by simp
  show ?case
  proof (cases "found k")
    case None
    then show ?thesis
      by (simp add: Cons.IH) (rule eq; rule ext; auto)
  next
    case (Some img)
    then show ?thesis
      by (simp add: Cons.IH) (rule eq; rule ext; auto)
  qed
qed

lemma load_files_snd:
  "snd (load_files found ks (s, n)) = n + length (filter (\<lambda>k. found k \<noteq> None) ks)"
  by (induction ks arbitrary: s n) (auto split: option.splits)

lemma all_slots: "k \<in> set [DRR_AP, KV_AP, DRR_LAT, KV_LAT]"
  by (cases k) simp_all

lemma load_dataset_eq:
  "load_dataset P selection dir_exists found s =
     (if selection = ''Select Dataset'' then s
      else if \<not> dir_exists then s\<lparr>status_var := Dataset_not_found selection\<rparr>
      else if \<exists>k. found k \<noteq> None then
        update_match_overlay P
          ((save_initial_state (reset_to_initial_values P
              (s\<lparr>images := found, original_images := found\<rparr>)))
           \<lparr>status_var :=
              Loaded (length (filter (\<lambda>k. found k \<noteq> None) [DRR_AP, KV_AP, DRR_LAT, KV_LAT]))
                selection\<rparr>)
      else s\<lparr>images := (\<lambda>k. None), original_images := (\<lambda>k. None), status_var := No_valid_images\<rparr>)"
proof -
  let ?ks = "[DRR_AP, KV_AP, DRR_LAT, KV_LAT]"
  let ?s0 = "s\<lparr>images := (\<lambda>k. None), original_images := (\<lambda>k. None)\<rparr>"
  have f: "fst (load_files found ?ks (?s0, 0)) = s\<lparr>images := found, original_images := found\<rparr>"
  proof -
    have e: "(\<lambda>k. if k \<in> set ?ks \<and> found k \<noteq> None then found k else None) = found"
      using all_slots by (intro ext) auto
    have "fst (load_files found ?ks (?s0, 0)) =
        s\<lparr>images := (\<lambda>k. if k \<in> set ?ks \<and> found k \<noteq> None then found k else None),
          original_images := (\<lambda>k. if k \<in> set ?ks \<and> found k \<noteq> None then found k else None)\<rparr>"
      unfolding load_files_fst by (simp cong: if_cong)
    then show ?thesis
      by (simp only: e)
  qed
  have n: "snd (load_files found ?ks (?s0, 0)) = length (filter (\<lambda>k. found k \<noteq> None) ?ks)"
    unfolding load_files_snd by simp
  have pos: "(0 < length (filter (\<lambda>k. found k \<noteq> None) ?ks)) = (\<exists>k. found k \<noteq> None)"
    using all_slots by (simp only: length_greater_0_conv filter_empty_conv) blast
  have none: "\<not> (\<exists>k. found k \<noteq> None) \<Longrightarrow> found = (\<lambda>k. None)"
    by auto
  show ?thesis
    unfolding load_dataset_def Let_def case_prod_beta f n pos
    using none by auto
qed

lemma load_dataset_history [simp]:
  "history (load_dataset P selection dir_exists found s) = history s"
  by (simp add: load_dataset_eq reset_to_initial_values_def save_initial_state_def Let_def)

lemma undo_history_bound:
  "length (history s) \<le> 20 \<Longrightarrow> length (history (undo_last_action P s)) \<le> 20"
  by (simp add: undo_last_action_def Let_def show_adjustments_history_bound)

lemma select_history_bound:
  "length (history s) \<le> 20 \<Longrightarrow> length (history (select_image_for_adjustment P k s)) \<le> 20"
  by (simp add: select_image_for_adjustment_def Let_def show_adjustments_history_bound)

lemma reset_adjustments_history_bound:
  "length (history s) \<le> 20 \<Longrightarrow> length (history (reset_adjustments P s)) \<le> 20"
  by (simp add: reset_adjustments_def Let_def reset_scales_history_bound hist_push_length
      split: option.splits)

lemma reset_to_default_history_bound:
  "length (history s) \<le> 20 \<Longrightarrow> length (history (reset_to_default P s)) \<le> 20"
  by (simp add: reset_to_default_def Let_def reset_scales_history_bound hist_push_length
      split: option.splits)

lemma step_history_bound:
  assumes "length (history s) \<le> 20"
  shows "length (history (step P g s)) \<le> 20"
proof (cases g)
  case (Thumbnail_click k)
  then show ?thesis
    using assms by (simp add: select_history_bound)
next
  case (Adjust_menu k)
  then show ?thesis
    using assms by (simp add: select_history_bound)
next
  case Reset_adjustments_button
  then show ?thesis
    using assms by (simp add: reset_adjustments_history_bound)
next
  case Restore_to_default_button
  then show ?thesis
    using assms by (simp add: reset_to_default_history_bound)
next
  case Control_z
  then show ?thesis
    using assms by (simp add: undo_history_bound)
qed (use assms in \<open>auto simp: activate_drag_def drag_kv_def nudge_kv_def mouse_scroll_def
       zoom_def rotation_scale_set_def rotate_active_def blend_scale_def
       color_overlay_check_def scale_set_history_bound apply_selected_filter_def Let_def
       hist_push_length split: option.splits\<close>)

lemma run_history_bound:
  "length (history s) \<le> 20 \<Longrightarrow> length (history (run P gs s)) \<le> 20"
  by (induction gs arbitrary: s) (simp_all add: run_def step_history_bound)

lemma run_Cons: "run P (g # gs) s = run P gs (step P g s)"
  by (simp add: run_def)

lemma length_trace [simp]: "length (trace P gs s) = length gs"
  by (induction gs arbitrary: s) simp_all

lemma trace_nth: "k < length gs \<Longrightarrow> trace P gs s ! k = run P (take (Suc k) gs) s"
proof (induction gs arbitrary: s k)
  case Nil
  then show ?case by simp
next
  case (Cons g gs)
  then show ?case
    by (cases k) (simp_all add: run_def)
qed

lemma every_push_history:
  "every_push P gs s \<Longrightarrow>
   history (run P gs s) = foldl hist_push (history s) (map (\<lambda>t. last (history t)) (trace P gs s))"
proof (induction gs arbitrary: s)
  case Nil
  then show ?case by (simp add: run_def)
next
  case (Cons g gs)
  then have p: "pushes P g s" and e: "every_push P gs (step P g s)"
    by simp_all
  show ?case
    using Cons.IH[OF e] pushes_history[OF p] by (simp add: run_Cons)
qed

lemma oldest_surviving:
  assumes "length (history s) \<le> 20" and "every_push P gs s" and "20 < length gs"
  shows "length (history (run P gs s)) = 20 \<and>
         hd (history (run P gs s)) = last (history (run P (take (length gs - 19) gs) s))"
proof -
  define es where "es = map (\<lambda>t. last (history t)) (trace P gs s)"
  have len: "length es = length gs"
    by (simp add: es_def)
  have "history (run P gs s) = drop (length (history s @ es) - 20) (history s @ es)"
    using every_push_history[OF assms(2)] foldl_hist_push[OF assms(1)] by (simp add: es_def)
  also have "length (history s @ es) - 20 = length (history s) + (length gs - 20)"
    using assms(3) len by simp
  finally have h: "history (run P gs s) = drop (length gs - 20) es"
    by simp
  have k: "length gs - 20 < length gs"
    using assms(3) by simp
  have "hd (drop (length gs - 20) es) = es ! (length gs - 20)"
    using k len by (simp add: hd_drop_conv_nth)
  also have "\<dots> = last (history (trace P gs s ! (length gs - 20)))"
    using k by (simp add: es_def)
  also have "trace P gs s ! (length gs - 20) = run P (take (Suc (length gs - 20)) gs) s"
    using k by (rule trace_nth)
  also have "Suc (length gs - 20) = length gs - 19"
    using assms(3) by simp
  finally show ?thesis
    using h len assms(3) by simp
qed


lemma every_push_arrows: "every_push P (replicate n (Arrow_key dx dy)) s"
  by (induction n arbitrary: s) simp_all

lemma nudge_entry:
  "e_kv_offsets (last (history (nudge_kv P dx dy s))) = next_addr (heap s)"
  "next_addr (heap (nudge_kv P dx dy s)) = next_addr (heap s) + 7"
  by (simp_all add: nudge_kv_def Let_def last_hist_push new_entry_def split: option.splits)

lemma startup_next_addr: "next_addr (heap (startup P)) = 14"
  by (simp add: startup_def init_state_def init_store_def save_initial_state_def)

lemma startup_history_length: "length (history (startup P)) = 1"
  by (simp add: startup_def init_state_def save_initial_state_def hist_push_def)

lemma save_state_evicts:
  "length (history s) \<le> 20 \<Longrightarrow>
   history (save_state s) =
     (if length (history s) < 20 then history s @ [new_entry s]
      else tl (history s) @ [new_entry s])"
  by (cases "history s") (auto simp: hist_push_def)

lemma last_pushed:
  assumes "length h \<le> 20" and "20 \<le> length es"
  shows "foldl hist_push h es = drop (length es - 20) es"
proof -
  have "length (h @ es) - 20 = length h + (length es - 20)"
    using assms(2) by simp
  then show ?thesis
    using foldl_hist_push[OF assms(1), of es] by simp
qed

text \<open>
  C5, as amended. The history never holds more than 20 entries, whatever the gestures.
  \<^verbatim>\<open>_save_state\<close>, the only place where the program pushes, drops the oldest entry when
  the history is full. After entries \<open>es\<close> have been pushed in turn, more than 20 of
  them, the history is the last 20 of \<open>es\<close>: it holds exactly 20 entries and the oldest
  is the 20th from the last pushed. In a session of more than 20 gestures that each save
  the state once, that oldest entry is the one pushed by the 20th gesture from the last.
\<close>

theorem history_bound:
  assumes "length (history s) \<le> 20"
  shows "length (history (run P gs s)) \<le> 20 \<and>
         history (save_state s) =
           (if length (history s) < 20 then history s @ [new_entry s]
            else tl (history s) @ [new_entry s]) \<and>
         (20 < length es \<longrightarrow>
            length (foldl hist_push (history s) es) = 20 \<and>
            foldl hist_push (history s) es = drop (length es - 20) es \<and>
            hd (foldl hist_push (history s) es) = rev es ! 19) \<and>
         (every_push P ps s \<and> 20 < length ps \<longrightarrow>
            length (history (run P ps s)) = 20 \<and>
            hd (history (run P ps s)) = last (history (run P (take (length ps - 19) ps) s)))"
proof (intro conjI impI)
  show "length (history (run P gs s)) \<le> 20"
    using assms by (rule run_history_bound)
next
  show "history (save_state s) =
      (if length (history s) < 20 then history s @ [new_entry s]
       else tl (history s) @ [new_entry s])"
    using assms by (rule save_state_evicts)
next
  assume l: "20 < length es"
  then have d: "foldl hist_push (history s) es = drop (length es - 20) es"
    using last_pushed[OF assms, of es] by simp
  show "foldl hist_push (history s) es = drop (length es - 20) es"
    by (rule d)
  show "length (foldl hist_push (history s) es) = 20"
    using l by (simp add: d)
  have "hd (drop (length es - 20) es) = es ! (length es - 20)"
    using l by (simp add: hd_drop_conv_nth)
  also have "\<dots> = rev es ! 19"
    using l by (simp add: rev_nth)
  finally show "hd (foldl hist_push (history s) es) = rev es ! 19"
    by (simp add: d)
next
  assume a: "every_push P ps s \<and> 20 < length ps"
  show "length (history (run P ps s)) = 20"
    using oldest_surviving[OF assms, of P ps] a by simp
  show "hd (history (run P ps s)) = last (history (run P (take (length ps - 19) ps) s))"
    using oldest_surviving[OF assms, of P ps] a by simp
qed

text \<open>
  After 21 nudges the oldest surviving entry is neither the one that the first of them
  (the 21st from the last) pushed, nor the baseline entry pushed before it.
\<close>

theorem oldest_entry_not_21st_from_last:
  "hd (history (run free_pillow (replicate 21 (Arrow_key 0 1)) (startup free_pillow))) \<noteq>
     last (history (run free_pillow (replicate 1 (Arrow_key 0 1)) (startup free_pillow))) \<and>
   hd (history (run free_pillow (replicate 21 (Arrow_key 0 1)) (startup free_pillow))) \<noteq>
     last (history (startup free_pillow))"
proof -
  let ?s = "startup free_pillow :: expr app"
  let ?a = "Arrow_key 0 1 :: expr gesture"
  have "hd (history (run free_pillow (replicate 21 ?a) ?s)) =
        last (history (run free_pillow (take (length (replicate 21 ?a) - 19) (replicate 21 ?a)) ?s))"
    using oldest_surviving[of ?s free_pillow "replicate 21 ?a"]
    by (simp add: startup_history_length every_push_arrows)
  also have "take (length (replicate 21 ?a) - 19) (replicate 21 ?a) = [?a, ?a]"
    by (simp add: eval_nat_numeral)
  finally have h: "hd (history (run free_pillow (replicate 21 ?a) ?s)) =
        last (history (run free_pillow [?a, ?a] ?s))" .
  have 2: "e_kv_offsets (last (history (run free_pillow [?a, ?a] ?s))) = 21"
    by (simp add: run_def nudge_entry startup_next_addr)
  have 1: "e_kv_offsets (last (history (run free_pillow (replicate 1 ?a) ?s))) = 14"
    by (simp add: run_def nudge_entry startup_next_addr)
  have 0: "e_kv_offsets (last (history ?s)) = 7"
    by (simp add: startup_def init_state_def init_store_def save_initial_state_def
        save_state_eq hist_push_def new_entry_def default_snapshot_def)
  show ?thesis
    using h 0 1 2 by auto
qed

subsection \<open>The coupled vertical offset\<close>

lemma all_coupled_startup: "all_coupled (startup P)"
  by (simp add: all_coupled_def startup_def init_state_def init_store_def save_initial_state_def
      default_snapshot_def)

lemma x_key_not_y [simp]:
  "x_key v \<noteq> AP_Y" "x_key v \<noteq> LAT_Y" "AP_Y \<noteq> x_key v" "LAT_Y \<noteq> x_key v"
  by (cases v; simp)+

lemma all_coupled_updates [simp]:
  "all_coupled (s\<lparr>images := x1\<rparr>) = all_coupled s"
  "all_coupled (s\<lparr>original_images := x2\<rparr>) = all_coupled s"
  "all_coupled (s\<lparr>kv_offsets := x3\<rparr>) = all_coupled s"
  "all_coupled (s\<lparr>rotations := x4\<rparr>) = all_coupled s"
  "all_coupled (s\<lparr>zoom_levels := x5\<rparr>) = all_coupled s"
  "all_coupled (s\<lparr>pan_offsets := x6\<rparr>) = all_coupled s"
  "all_coupled (s\<lparr>alpha := x7\<rparr>) = all_coupled s"
  "all_coupled (s\<lparr>use_color_overlay := x8\<rparr>) = all_coupled s"
  "all_coupled (s\<lparr>filter_var := x9\<rparr>) = all_coupled s"
  "all_coupled (s\<lparr>adj_img_var := x10\<rparr>) = all_coupled s"
  "all_coupled (s\<lparr>history := x11\<rparr>) = all_coupled s"
  "all_coupled (s\<lparr>drag_start := x12\<rparr>) = all_coupled s"
  "all_coupled (s\<lparr>active_view := x13\<rparr>) = all_coupled s"
  "all_coupled (s\<lparr>tk_images := x14\<rparr>) = all_coupled s"
  "all_coupled (s\<lparr>ignore_rotation_callback := x15\<rparr>) = all_coupled s"
  "all_coupled (s\<lparr>adjustment_values := x16\<rparr>) = all_coupled s"
  "all_coupled (s\<lparr>current_adjustment_image := x17\<rparr>) = all_coupled s"
  "all_coupled (s\<lparr>canvas_borders := x18\<rparr>) = all_coupled s"
  "all_coupled (s\<lparr>thumb_borders := x19\<rparr>) = all_coupled s"
  "all_coupled (s\<lparr>rotation_scale := x20\<rparr>) = all_coupled s"
  "all_coupled (s\<lparr>rotation_label := x21\<rparr>) = all_coupled s"
  "all_coupled (s\<lparr>zoom_label := x22\<rparr>) = all_coupled s"
  "all_coupled (s\<lparr>brightness_scale := x23\<rparr>) = all_coupled s"
  "all_coupled (s\<lparr>brightness_val := x24\<rparr>) = all_coupled s"
  "all_coupled (s\<lparr>contrast_scale := x25\<rparr>) = all_coupled s"
  "all_coupled (s\<lparr>contrast_val := x26\<rparr>) = all_coupled s"
  "all_coupled (s\<lparr>sharpness_scale := x27\<rparr>) = all_coupled s"
  "all_coupled (s\<lparr>sharpness_val := x28\<rparr>) = all_coupled s"
  "all_coupled (s\<lparr>status_var := x29\<rparr>) = all_coupled s"
  by (simp_all add: all_coupled_def)

lemma all_coupled_frames [simp]:
  "all_coupled (num_set a v r s) = all_coupled s"
  "all_coupled (pan_set a v p s) = all_coupled s"
  "all_coupled (rotations_set v r s) = all_coupled s"
  "all_coupled (zoom_levels_set v r s) = all_coupled s"
  "all_coupled (pan_offsets_set v p s) = all_coupled s"
  "all_coupled (adjustment_values_set j v r s) = all_coupled s"
  "all_coupled (show_rotation P r s) = all_coupled s"
  "all_coupled (update_match_overlay P s) = all_coupled s"
  "all_coupled (bind_rotations d2 s) = all_coupled s"
  "all_coupled (bind_zoom_levels d3 s) = all_coupled s"
  "all_coupled (bind_pan_offsets d4 s) = all_coupled s"
  "all_coupled (bind_adjustment_values d5 s) = all_coupled s"
  by (simp_all add: all_coupled_def)

lemma all_coupled_show_adjustment [simp]: "all_coupled (show_adjustment j r s) = all_coupled s"
  by (cases j) simp_all

lemma all_coupled_move_scale [simp]: "all_coupled (move_scale j r s) = all_coupled s"
  by (cases j) simp_all

lemma all_coupled_save_state: "all_coupled s \<Longrightarrow> all_coupled (save_state s)"
  by (simp add: all_coupled_def)

lemma all_coupled_bind_kv_offsets:
  "all_coupled s \<Longrightarrow> d AP_Y = d LAT_Y \<Longrightarrow> all_coupled (bind_kv_offsets d s)"
  by (simp add: all_coupled_def)

lemma all_coupled_adjust_image: "all_coupled s \<Longrightarrow> all_coupled (adjust_image P k r s)"
  by (simp add: adjust_image_def Let_def all_coupled_save_state split: option.splits)

lemma all_coupled_scale_set: "all_coupled s \<Longrightarrow> all_coupled (scale_set P k r s)"
  by (simp add: scale_set_def Let_def all_coupled_adjust_image)

lemma all_coupled_show_adjustments: "all_coupled s \<Longrightarrow> all_coupled (show_adjustments P v s)"
  by (simp add: show_adjustments_def Let_def all_coupled_scale_set)

lemma all_coupled_reset_scales: "all_coupled s \<Longrightarrow> all_coupled (reset_scales P s)"
  by (simp add: reset_scales_def Let_def all_coupled_scale_set)

lemma all_coupled_select:
  "all_coupled s \<Longrightarrow> all_coupled (select_image_for_adjustment P k s)"
  by (simp add: select_image_for_adjustment_def Let_def all_coupled_show_adjustments)

lemma all_coupled_reset_adjustments: "all_coupled s \<Longrightarrow> all_coupled (reset_adjustments P s)"
  by (simp add: reset_adjustments_def Let_def all_coupled_save_state all_coupled_reset_scales
      split: option.splits)

lemma all_coupled_reset_to_default:
  assumes "all_coupled s"
  shows "all_coupled (reset_to_default P s)"
proof (cases "initial_state s")
  case None
  then show ?thesis
    using assms by (simp add: reset_to_default_def)
next
  case (Some ini)
  then have "i_kv_offsets ini AP_Y = i_kv_offsets ini LAT_Y"
    using assms by (simp add: all_coupled_def)
  then show ?thesis
    using assms Some
    by (simp add: reset_to_default_def Let_def all_coupled_save_state all_coupled_reset_scales
        all_coupled_bind_kv_offsets)
qed

lemma all_coupled_undo: "all_coupled s \<Longrightarrow> all_coupled (undo_last_action P s)"
  by (simp add: undo_last_action_def Let_def all_coupled_show_adjustments)

lemma step_all_coupled: "all_coupled s \<Longrightarrow> all_coupled (step P g s)"
proof (cases g)
  case (Dataset_menu selection dir_exists found)
  assume "all_coupled s"
  then show ?thesis
    by (simp add: Dataset_menu load_dataset_eq reset_to_initial_values_def
        save_initial_state_def default_snapshot_def Let_def all_coupled_def)
next
  case (Thumbnail_click k)
  assume "all_coupled s"
  then show ?thesis
    by (simp add: Thumbnail_click all_coupled_select)
next
  case (Adjust_menu k)
  assume "all_coupled s"
  then show ?thesis
    by (simp add: Adjust_menu all_coupled_select)
next
  case (Adjust_scale k r)
  assume "all_coupled s"
  then show ?thesis
    by (simp add: Adjust_scale all_coupled_scale_set)
next
  case Reset_adjustments_button
  assume "all_coupled s"
  then show ?thesis
    by (simp add: Reset_adjustments_button all_coupled_reset_adjustments)
next
  case Restore_to_default_button
  assume "all_coupled s"
  then show ?thesis
    by (simp add: Restore_to_default_button all_coupled_reset_to_default)
next
  case Control_z
  assume "all_coupled s"
  then show ?thesis
    by (simp add: Control_z all_coupled_undo)
qed (auto simp: all_coupled_def activate_drag_def drag_kv_def nudge_kv_def mouse_scroll_def
       zoom_def rotation_scale_set_def rotate_active_def blend_scale_def
       color_overlay_check_def apply_selected_filter_def Let_def
       split: option.splits)

lemma all_coupled_kv_coupled: "all_coupled s \<Longrightarrow> kv_coupled s"
  by (simp add: all_coupled_def kv_coupled_def)

lemma trace_all_coupled: "all_coupled s \<Longrightarrow> list_all kv_coupled (trace P gs s)"
  by (induction gs arbitrary: s) (simp_all add: step_all_coupled all_coupled_kv_coupled)


lemma kv_after_save [simp]:
  "kv_dicts (saved_store t) (kv_offsets t) = kv_dicts (heap t) (kv_offsets t)"
  by simp

text \<open>
  C3. From start-up, after every gesture of every session (drags and nudges on either
  view among them), the y offset of AP equals the y offset of LAT. A drag adds its
  horizontal delta to the x offset of the dragged view only and its vertical delta to
  both y offsets; a nudge does the same, with the active view for the x offset.
\<close>

theorem kv_offsets_stay_coupled:
  "list_all kv_coupled (trace P gs (startup P)) \<and>
   (drag_start s = Some (x0, y0) \<and> images s (kv_slot v) \<noteq> None \<longrightarrow>
      kv_dicts (heap (drag_kv P e v s)) (kv_offsets (drag_kv P e v s)) =
        (kv_dicts (heap s) (kv_offsets s))
          (x_key v := kv_dicts (heap s) (kv_offsets s) (x_key v) + (ev_x e - x0),
           AP_Y := kv_dicts (heap s) (kv_offsets s) AP_Y + (ev_y e - y0),
           LAT_Y := kv_dicts (heap s) (kv_offsets s) LAT_Y + (ev_y e - y0))) \<and>
   kv_dicts (heap (nudge_kv P dx dy s)) (kv_offsets (nudge_kv P dx dy s)) =
     (case active_view s of
        None \<Rightarrow>
          (kv_dicts (heap s) (kv_offsets s))
            (AP_Y := kv_dicts (heap s) (kv_offsets s) AP_Y + dy,
             LAT_Y := kv_dicts (heap s) (kv_offsets s) LAT_Y + dy)
      | Some a \<Rightarrow>
          (kv_dicts (heap s) (kv_offsets s))
            (x_key a := kv_dicts (heap s) (kv_offsets s) (x_key a) + dx,
             AP_Y := kv_dicts (heap s) (kv_offsets s) AP_Y + dy,
             LAT_Y := kv_dicts (heap s) (kv_offsets s) LAT_Y + dy))"
proof (intro conjI impI)
  show "list_all kv_coupled (trace P gs (startup P))"
    using all_coupled_startup by (rule trace_all_coupled)
next
  assume "drag_start s = Some (x0, y0) \<and> images s (kv_slot v) \<noteq> None"
  then show "kv_dicts (heap (drag_kv P e v s)) (kv_offsets (drag_kv P e v s)) =
        (kv_dicts (heap s) (kv_offsets s))
          (x_key v := kv_dicts (heap s) (kv_offsets s) (x_key v) + (ev_x e - x0),
           AP_Y := kv_dicts (heap s) (kv_offsets s) AP_Y + (ev_y e - y0),
           LAT_Y := kv_dicts (heap s) (kv_offsets s) LAT_Y + (ev_y e - y0))"
    by (auto simp: drag_kv_def Let_def fun_eq_iff)
next
  show "kv_dicts (heap (nudge_kv P dx dy s)) (kv_offsets (nudge_kv P dx dy s)) =
     (case active_view s of
        None \<Rightarrow>
          (kv_dicts (heap s) (kv_offsets s))
            (AP_Y := kv_dicts (heap s) (kv_offsets s) AP_Y + dy,
             LAT_Y := kv_dicts (heap s) (kv_offsets s) LAT_Y + dy)
      | Some a \<Rightarrow>
          (kv_dicts (heap s) (kv_offsets s))
            (x_key a := kv_dicts (heap s) (kv_offsets s) (x_key a) + dx,
             AP_Y := kv_dicts (heap s) (kv_offsets s) AP_Y + dy,
             LAT_Y := kv_dicts (heap s) (kv_offsets s) LAT_Y + dy))"
    by (auto simp: nudge_kv_def Let_def fun_eq_iff split: option.splits)
qed

subsection \<open>Undo\<close>

text \<open>
  With at most one entry on the history, undo only reports that there is nothing to
  undo: every attribute but the status message is unchanged. With more entries, undo
  binds the transform and adjustment attributes, alpha and the colour-overlay flag to the
  entry below the top. When the target slot has no original raster the history is the
  old one without its top entry.
\<close>

lemma undo_floor:
  "length (history s) \<le> 1 \<Longrightarrow> undo_last_action P s = s\<lparr>status_var := Nothing_to_undo\<rparr>"
  by (simp add: undo_last_action_def)

lemma undo_restores:
  assumes "1 < length (history s)"
  shows "kv_offsets (undo_last_action P s) = e_kv_offsets (last (butlast (history s)))"
    and "rotations (undo_last_action P s) = e_rotations (last (butlast (history s)))"
    and "zoom_levels (undo_last_action P s) = e_zoom_levels (last (butlast (history s)))"
    and "pan_offsets (undo_last_action P s) = e_pan_offsets (last (butlast (history s)))"
    and "adjustment_values (undo_last_action P s) =
           e_adjustment_values (last (butlast (history s)))"
    and "alpha (undo_last_action P s) = e_alpha (last (butlast (history s)))"
    and "use_color_overlay (undo_last_action P s) =
           e_use_color_overlay (last (butlast (history s)))"
    and "status_var (undo_last_action P s) = Undo_successful"
  using assms by (simp_all add: undo_last_action_def Let_def)

lemma undo_pops_without_original:
  assumes "1 < length (history s)"
    and "original_images s (current_adjustment_image s) = None"
  shows "history (undo_last_action P s) = butlast (history s)"
  using assms by (simp add: undo_last_action_def Let_def show_adjustments_history_None)

text \<open>
  When the target slot has an original raster, the three adjustment scales that undo sets
  run \<^verbatim>\<open>_adjust_image\<close>, which saves the state each time: the history ends with two
  entries more than it had, not one less.
\<close>

lemma undo_pushes_with_original:
  assumes "1 < length (history s)" and "length (history s) \<le> 20"
    and "original_images s (current_adjustment_image s) \<noteq> None"
  shows "length (history (undo_last_action P s)) = min 20 (length (history s) + 2)"
proof -
  have "length (history (undo_last_action P s)) = min 20 (length (butlast (history s)) + 3)"
    using assms by (simp add: undo_last_action_def Let_def show_adjustments_history_length)
  then show ?thesis
    using assms(1) by simp
qed

lemma undo_keeps [simp]:
  "original_images (undo_last_action P s) = original_images s"
  "current_adjustment_image (undo_last_action P s) = current_adjustment_image s"
  "active_view (undo_last_action P s) = active_view s"
  "drag_start (undo_last_action P s) = drag_start s"
  by (simp_all add: undo_last_action_def Let_def)

lemma undo_heap_without_original:
  assumes "original_images s (current_adjustment_image s) = None"
  shows "kv_dicts (heap (undo_last_action P s)) = kv_dicts (heap s)"
    and "pan_dicts (heap (undo_last_action P s)) = pan_dicts (heap s)"
    and "next_addr (heap (undo_last_action P s)) = next_addr (heap s)"
  using assms by (simp_all add: undo_last_action_def Let_def show_adjustments_None)

lemma undo_kv_below:
  "a < next_addr (heap s) \<Longrightarrow> kv_dicts (heap (undo_last_action P s)) a = kv_dicts (heap s) a"
  by (simp add: undo_last_action_def Let_def show_adjustments_kv_below)

lemma undo_with_original:
  assumes "1 < length (history s)" and "length (history s) \<le> 18"
    and "original_images s (current_adjustment_image s) \<noteq> None"
    and "e_kv_offsets (last (butlast (history s))) < next_addr (heap s)"
  shows "history (undo_last_action P s) =
           butlast (history s) @
             [entry_at (next_addr (heap s)) (e_alpha (last (butlast (history s))))
                (e_use_color_overlay (last (butlast (history s)))),
              entry_at (next_addr (heap s) + 7) (e_alpha (last (butlast (history s))))
                (e_use_color_overlay (last (butlast (history s)))),
              entry_at (next_addr (heap s) + 14) (e_alpha (last (butlast (history s))))
                (e_use_color_overlay (last (butlast (history s))))]"
    and "next_addr (heap (undo_last_action P s)) = next_addr (heap s) + 21"
    and "kv_dicts (heap (undo_last_action P s)) =
           (kv_dicts (heap s))
             (next_addr (heap s) := kv_dicts (heap s) (e_kv_offsets (last (butlast (history s)))),
              next_addr (heap s) + 7 :=
                kv_dicts (heap s) (e_kv_offsets (last (butlast (history s)))),
              next_addr (heap s) + 14 :=
                kv_dicts (heap s) (e_kv_offsets (last (butlast (history s)))))"
  using assms
  by (simp_all add: undo_last_action_def Let_def show_adjustments_with_original)

subsection \<open>Zoom toward the cursor\<close>

text \<open>
  C1. On a view with both rasters, from a zoom \<open>z0\<close> in [0.2, 5.0], a zoom step moves the
  zoom by 0.1 up or down, clamped to \<open>z1\<close> in [0.2, 5.0]. If \<open>z1 = z0\<close>, which happens
  exactly at the bound in the direction of the step, the state is unchanged and nothing
  is pushed. Otherwise the zoom of the view is \<open>z1\<close>, the pan is
  \<open>p + (cx, cy) * (1 - z1 / z0)\<close>, and one entry is pushed.
\<close>

theorem zoom_at_cursor:
  assumes "images s (drr_slot v) \<noteq> None" and "images s (kv_slot v) \<noteq> None"
    and "allocated s"
    and "z0 = num_dicts (heap s) (zoom_levels s) v"
    and "2 / 10 \<le> z0" and "z0 \<le> 5"
    and "z1 = max (2 / 10) (min 5 (z0 + (if ev_delta e > 0 then 1 / 10 else - (1 / 10))))"
  shows "2 / 10 \<le> z1 \<and> z1 \<le> 5 \<and>
    (z1 = z0 \<longleftrightarrow> (z0 = 5 \<and> ev_delta e > 0) \<or> (z0 = 2 / 10 \<and> \<not> ev_delta e > 0)) \<and>
    (z1 = z0 \<longrightarrow> zoom P e v s = Inr s) \<and>
    (z1 \<noteq> z0 \<longrightarrow>
       (\<exists>s'. zoom P e v s = Inr s' \<and>
          num_dicts (heap s') (zoom_levels s') v = z1 \<and>
          pan_dicts (heap s') (pan_offsets s') v =
            (fst (pan_dicts (heap s) (pan_offsets s) v) + canvasx (ev_x e) * (1 - z1 / z0),
             snd (pan_dicts (heap s) (pan_offsets s) v) + canvasy (ev_y e) * (1 - z1 / z0)) \<and>
          history s' = hist_push (history s) (last (history s'))))"
proof -
  have r: "2 / 10 \<le> z1 \<and> z1 \<le> 5"
    using assms(7) by auto
  have b: "z1 = z0 \<longleftrightarrow> (z0 = 5 \<and> ev_delta e > 0) \<or> (z0 = 2 / 10 \<and> \<not> ev_delta e > 0)"
    using assms(5,6,7) by (auto simp: max_def min_def split: if_splits)
  have same: "z1 = z0 \<longrightarrow> zoom P e v s = Inr s"
    using assms(1,2,4,7) by (simp add: zoom_def Let_def)
  have nz: "z0 \<noteq> 0"
    using assms(5) by auto
  have changed: "z1 \<noteq> z0 \<longrightarrow>
       (\<exists>s'. zoom P e v s = Inr s' \<and>
          num_dicts (heap s') (zoom_levels s') v = z1 \<and>
          pan_dicts (heap s') (pan_offsets s') v =
            (fst (pan_dicts (heap s) (pan_offsets s) v) + canvasx (ev_x e) * (1 - z1 / z0),
             snd (pan_dicts (heap s) (pan_offsets s) v) + canvasy (ev_y e) * (1 - z1 / z0)) \<and>
          history s' = hist_push (history s) (last (history s')))"
    using assms(1,2,3) nz assms(4)[symmetric] assms(7)[symmetric]
    by (auto simp: zoom_def Let_def allocated_def last_hist_push)
  show ?thesis
    using r b same changed by blast
qed

subsection \<open>Filters\<close>

lemma map_of_funcs_names:
  "map_of (funcs P) name = Some f \<Longrightarrow> name \<noteq> ''Select Filter''"
  by (auto simp: funcs_def split: if_splits)

text \<open>
  C10. For a recognised filter name and a target slot with an original raster, the
  working raster of the slot becomes the filter applied to the original raster, whatever
  the working rasters were; the original rasters stay; applying the filter a second time
  gives the same working rasters; the working rasters of the other slots are unchanged.
\<close>

theorem filter_from_original:
  assumes "map_of (funcs P) (filter_var s) = Some f"
    and "original_images s (current_adjustment_image s) = Some src"
  shows "images (apply_selected_filter P s) =
           (images s)(current_adjustment_image s := Some (f src)) \<and>
         original_images (apply_selected_filter P s) = original_images s \<and>
         images (apply_selected_filter P (apply_selected_filter P s)) =
           images (apply_selected_filter P s) \<and>
         images (apply_selected_filter P (s\<lparr>images := w\<rparr>)) (current_adjustment_image s) =
           Some (f src) \<and>
         (\<forall>k. k \<noteq> current_adjustment_image s \<longrightarrow>
            images (apply_selected_filter P s) k = images s k)"
  using assms map_of_funcs_names[OF assms(1)]
  by (simp add: apply_selected_filter_def Let_def)

subsection \<open>Evaluation at start-up\<close>

lemmas eval_defs = startup_def init_state_def init_store_def save_initial_state_def
  default_snapshot_def run_def Let_def new_entry_def last_hist_push

lemma nudged_fields:
  "length (history nudged) = 2"
  "kv_offsets nudged = 0"
  "kv_dicts (heap nudged) 0 AP_Y = 1"
  "kv_dicts (heap nudged) 7 AP_Y = 0"
  "kv_dicts (heap nudged) 14 AP_Y = 1"
  "e_kv_offsets (last (history nudged)) = 14"
  "e_kv_offsets (last (butlast (history nudged))) = 7"
  by (simp_all add: nudged_def nudge_kv_def eval_defs hist_push_short)

lemma nudged_more:
  "original_images nudged (current_adjustment_image nudged) = None"
  "active_view nudged = None"
  "next_addr (heap nudged) = 21"
  "butlast (history nudged) = history (startup free_pillow)"
  "e_kv_offsets (hd (history (startup free_pillow))) = 7"
  "e_kv_offsets (last (history (startup free_pillow))) = 7"
  by (simp_all add: nudged_def nudge_kv_def eval_defs hist_push_short)

text \<open>
  C6 fails on the code. Nudge down, undo, nudge down again: the baseline entry is still
  the first of the history, and the offsets it stores have changed from 0 to 1. Undo
  binds \<^verbatim>\<open>self.kv_offsets\<close> to the dictionary of the entry itself, so the next nudge
  writes into the stored entry.
\<close>

theorem undo_aliases_stored_entry:
  "hd (history (run free_pillow [Arrow_key 0 1, Control_z, Arrow_key 0 1] (startup free_pillow))) =
     hd (history (run free_pillow [Arrow_key 0 1, Control_z] (startup free_pillow))) \<and>
   kv_dicts (heap (run free_pillow [Arrow_key 0 1, Control_z] (startup free_pillow)))
     (e_kv_offsets (hd (history (run free_pillow [Arrow_key 0 1, Control_z] (startup free_pillow)))))
     AP_Y = 0 \<and>
   kv_dicts (heap (run free_pillow [Arrow_key 0 1, Control_z, Arrow_key 0 1] (startup free_pillow)))
     (e_kv_offsets
        (hd (history (run free_pillow [Arrow_key 0 1, Control_z, Arrow_key 0 1] (startup free_pillow)))))
     AP_Y = 1"
proof -
  let ?u = "undo_last_action free_pillow nudged"
  have l: "1 < length (history nudged)"
    by (simp add: nudged_fields)
  have hu: "history ?u = history (startup free_pillow)"
    using undo_pops_without_original[OF l nudged_more(1), of free_pillow]
    by (simp add: nudged_more)
  have ku: "kv_offsets ?u = 7" "kv_dicts (heap ?u) 7 AP_Y = 0" "active_view ?u = None"
    "length (history ?u) = 1" "e_kv_offsets (hd (history ?u)) = 7" "next_addr (heap ?u) = 21"
    by (simp_all add: undo_restores[OF l] undo_heap_without_original nudged_more nudged_fields hu
        startup_history_length)
  have r2: "run free_pillow [Arrow_key 0 1, Control_z] (startup free_pillow) = ?u"
    by (simp add: run_def nudged_def)
  have r3: "run free_pillow [Arrow_key 0 1, Control_z, Arrow_key 0 1] (startup free_pillow) =
      nudge_kv free_pillow 0 1 ?u"
    by (simp add: run_def nudged_def)
  have ne: "history ?u \<noteq> []"
    using ku(4) by auto
  show ?thesis
    unfolding r2 r3 using ku ne by (simp add: nudge_kv_def Let_def hist_push_short)
qed

text \<open>
  C8 fails on the code. With LAT the active view, a wheel turn over the AP canvas changes
  the stored AP rotation from 0 to 1: \<^verbatim>\<open>_mouse_scroll\<close> tests the canvas of the event, not
  the active view.
\<close>

theorem wheel_rotates_ap_while_lat_active:
  "active_view (run free_pillow [Button_1 LAT \<lparr>ev_x = 0, ev_y = 0, ev_delta = 0\<rparr>]
      (startup free_pillow)) = Some LAT \<and>
   num_dicts (heap (run free_pillow [Button_1 LAT \<lparr>ev_x = 0, ev_y = 0, ev_delta = 0\<rparr>]
      (startup free_pillow)))
     (rotations (run free_pillow [Button_1 LAT \<lparr>ev_x = 0, ev_y = 0, ev_delta = 0\<rparr>]
      (startup free_pillow))) AP = 0 \<and>
   active_view (run free_pillow [Button_1 LAT \<lparr>ev_x = 0, ev_y = 0, ev_delta = 0\<rparr>,
      MouseWheel AP \<lparr>ev_x = 0, ev_y = 0, ev_delta = 1\<rparr>] (startup free_pillow)) = Some LAT \<and>
   num_dicts (heap (run free_pillow [Button_1 LAT \<lparr>ev_x = 0, ev_y = 0, ev_delta = 0\<rparr>,
      MouseWheel AP \<lparr>ev_x = 0, ev_y = 0, ev_delta = 1\<rparr>] (startup free_pillow)))
     (rotations (run free_pillow [Button_1 LAT \<lparr>ev_x = 0, ev_y = 0, ev_delta = 0\<rparr>,
      MouseWheel AP \<lparr>ev_x = 0, ev_y = 0, ev_delta = 1\<rparr>] (startup free_pillow))) AP = 1"
  by (simp add: eval_defs activate_drag_def mouse_scroll_def py_mod_def)


text \<open>
  C4 fails on the code. Moving the blend scale from 0.5 to 0.8 changes alpha and leaves the
  history as it was, and so does the colour-overlay check button with the flag: no entry
  is pushed, and the top entry still has alpha 0.5 and the flag off. Entries store both
  values and undo restores them: after the blend scale and one nudge, undo takes alpha
  back to 0.5, past the value it had before the nudge.
\<close>

theorem alpha_and_overlay_not_pushed:
  "alpha (startup free_pillow) = 1 / 2 \<and>
   alpha (run free_pillow [Blend_scale (4 / 5)] (startup free_pillow)) = 4 / 5 \<and>
   history (run free_pillow [Blend_scale (4 / 5)] (startup free_pillow)) =
     history (startup free_pillow) \<and>
   e_alpha (last (history (run free_pillow [Blend_scale (4 / 5)] (startup free_pillow)))) = 1 / 2 \<and>
   \<not> use_color_overlay (startup free_pillow) \<and>
   use_color_overlay (run free_pillow [Color_overlay_check] (startup free_pillow)) \<and>
   history (run free_pillow [Color_overlay_check] (startup free_pillow)) =
     history (startup free_pillow) \<and>
   \<not> e_use_color_overlay
       (last (history (run free_pillow [Color_overlay_check] (startup free_pillow)))) \<and>
   alpha (run free_pillow [Blend_scale (4 / 5), Arrow_key 0 1] (startup free_pillow)) = 4 / 5 \<and>
   alpha (run free_pillow [Blend_scale (4 / 5), Arrow_key 0 1, Control_z] (startup free_pillow)) =
     1 / 2"
proof -
  let ?s = "startup free_pillow :: expr app"
  have a: "alpha ?s = 1 / 2" "\<not> use_color_overlay ?s"
    "e_alpha (last (history ?s)) = 1 / 2" "\<not> e_use_color_overlay (last (history ?s))"
    "length (history ?s) = 1"
    by (simp_all add: eval_defs hist_push_short)
  let ?n = "run free_pillow [Blend_scale (4 / 5), Arrow_key 0 1] ?s"
  have h: "history ?n = history ?s @ [last (history ?n)]"
    by (simp add: eval_defs blend_scale_def nudge_kv_def hist_push_short)
  have n: "alpha ?n = 4 / 5"
    by (simp add: eval_defs blend_scale_def nudge_kv_def limit_def)
  have "run free_pillow [Blend_scale (4 / 5), Arrow_key 0 1, Control_z] ?s =
        undo_last_action free_pillow ?n"
    by (simp add: run_def)
  moreover have "1 < length (history ?n)"
    by (subst h) (simp add: a)
  moreover have "last (butlast (history ?n)) = last (history ?s)"
    by (subst h) simp
  ultimately have u: "alpha (run free_pillow [Blend_scale (4 / 5), Arrow_key 0 1, Control_z] ?s) =
        1 / 2"
    by (simp add: undo_restores a)
  show ?thesis
    using a n u by (simp add: run_def blend_scale_def color_overlay_check_def limit_def)
qed

subsection \<open>The composed raster\<close>

lemma overlay_view_tk_other:
  "v' \<noteq> v \<Longrightarrow> tk_images (overlay_view P v' s) (Match v) = tk_images s (Match v)"
  by (cases "images s (drr_slot v')"; cases "images s (kv_slot v')")
     (simp_all add: overlay_view_def Let_def)

lemma thumb_tk_match: "tk_images (thumb P k s) (Match v) = tk_images s (Match v)"
  by (cases "images s k") (simp_all add: thumb_def)

lemma overlay_view_tk_self:
  assumes "images s (drr_slot v) = Some drr" and "images s (kv_slot v) = Some kv"
  shows "tk_images (overlay_view P v s) (Match v) =
     Some
       (let z = num_dicts (heap s) (zoom_levels s) v;
            p = pan_dicts (heap s) (pan_offsets s) v;
            size = (py_int (of_int DISPLAY_W * z), py_int (of_int DISPLAY_H * z));
            drr_scaled = Image_resize P drr size;
            kv_scaled = (if v = AP \<and> num_dicts (heap s) (rotations s) AP \<noteq> 0
                         then Image_rotate P (Image_resize P kv size)
                                (num_dicts (heap s) (rotations s) AP)
                         else Image_resize P kv size);
            black = Image_new P ''RGB'' (DISPLAY_W, DISPLAY_H) (0, 0, 0);
            drr_view = Image_paste P black drr_scaled (- py_int (fst p), - py_int (snd p));
            kv_view = Image_paste P black kv_scaled
                        (kv_dicts (heap s) (kv_offsets s) (x_key v) - py_int (fst p),
                         kv_dicts (heap s) (kv_offsets s) (y_key v) - py_int (snd p))
        in if use_color_overlay s
           then Image_merge P ''RGB''
                  [Image_convert P drr_view ''L'', Image_convert P kv_view ''L'',
                   Image_convert P kv_view ''L'']
           else Image_blend P drr_view kv_view (alpha s))"
  using assms
  by (simp add: overlay_view_def Let_def drr_box_def kv_box_def create_color_overlay_def)

lemma update_match_overlay_tk_match:
  assumes "images s (drr_slot v) = Some drr" and "images s (kv_slot v) = Some kv"
  shows "tk_images (update_match_overlay P s) (Match v) =
     Some
       (let z = num_dicts (heap s) (zoom_levels s) v;
            p = pan_dicts (heap s) (pan_offsets s) v;
            size = (py_int (of_int DISPLAY_W * z), py_int (of_int DISPLAY_H * z));
            drr_scaled = Image_resize P drr size;
            kv_scaled = (if v = AP \<and> num_dicts (heap s) (rotations s) AP \<noteq> 0
                         then Image_rotate P (Image_resize P kv size)
                                (num_dicts (heap s) (rotations s) AP)
                         else Image_resize P kv size);
            black = Image_new P ''RGB'' (DISPLAY_W, DISPLAY_H) (0, 0, 0);
            drr_view = Image_paste P black drr_scaled (- py_int (fst p), - py_int (snd p));
            kv_view = Image_paste P black kv_scaled
                        (kv_dicts (heap s) (kv_offsets s) (x_key v) - py_int (fst p),
                         kv_dicts (heap s) (kv_offsets s) (y_key v) - py_int (snd p))
        in if use_color_overlay s
           then Image_merge P ''RGB''
                  [Image_convert P drr_view ''L'', Image_convert P kv_view ''L'',
                   Image_convert P kv_view ''L'']
           else Image_blend P drr_view kv_view (alpha s))"
proof (cases v)
  case AP
  have "tk_images (update_match_overlay P s) (Match AP) =
        tk_images (overlay_view P AP s) (Match AP)"
    by (simp add: update_match_overlay_def thumb_tk_match overlay_view_tk_other)
  then show ?thesis
    using overlay_view_tk_self[of s AP drr kv P] assms by (simp only: AP)
next
  case LAT
  have "tk_images (update_match_overlay P s) (Match LAT) =
        tk_images (overlay_view P LAT (overlay_view P AP s)) (Match LAT)"
    by (simp add: update_match_overlay_def thumb_tk_match)
  then show ?thesis
    using overlay_view_tk_self[of "overlay_view P AP s" LAT drr kv P] assms
    by (simp add: LAT cong: if_cong)
qed

lemma pixel_pillow_simps [simp]:
  "Image_new (pixel_pillow R) = Image_new_px"
  "Image_resize (pixel_pillow R) = (\<lambda>im sz. (Image_resize R im sz)\<lparr>im_size := sz\<rparr>)"
  "Image_rotate (pixel_pillow R) = (\<lambda>im a. (Image_rotate R im a)\<lparr>im_size := im_size im\<rparr>)"
  "Image_paste (pixel_pillow R) = Image_paste_px"
  "Image_blend (pixel_pillow R) = Image_blend_px"
  "Image_convert (pixel_pillow R) = Image_convert_px"
  "Image_merge (pixel_pillow R) = Image_merge_px"
  by (simp_all add: pixel_pillow_def)

lemma pasted_pixel:
  "im_getpixel (Image_paste_px (Image_new_px ''RGB'' sz (0, 0, 0)) im box) xy = canvas_pixel im box xy"
  by (simp add: Image_paste_px_def Image_new_px_def canvas_pixel_def covers_def)

lemma pasted_size:
  "im_size (Image_paste_px (Image_new_px m sz c) im box) = sz"
  "im_mode (Image_paste_px (Image_new_px m sz c) im box) = m"
  by (simp_all add: Image_paste_px_def Image_new_px_def)

text \<open>
  C2, as amended. For a view with both working rasters, over rasters with pixel content.
  The two rasters are scaled to the zoomed size \<open>(int (W * zoom), int (H * zoom))\<close>, the KV
  raster of AP also rotated when its rotation is not 0. The displayed raster has the
  display size, and each of its pixels is merged from the pixels at the same place of two
  black canvases: one with the scaled DRR pasted at \<open>(- int pan.x, - int pan.y)\<close>, one with
  the scaled KV pasted at \<open>(kv_offset.x - int pan.x, kv_offset.y - int pan.y)\<close>, where
  \<open>int\<close> truncates toward zero. With the colour overlay off the pixel is
  \<open>(1 - alpha) * DRR + alpha * KV\<close> on every band; with the colour overlay on, its red
  band is the luminance of the DRR canvas and its green and blue bands are the luminance
  of the KV canvas.
\<close>

theorem composite_merge:
  assumes "images s (drr_slot v) = Some drr" and "images s (kv_slot v) = Some kv"
    and "z = num_dicts (heap s) (zoom_levels s) v"
    and "p = pan_dicts (heap s) (pan_offsets s) v"
    and "drr_scaled = Image_resize (pixel_pillow R) drr
           (py_int (of_int DISPLAY_W * z), py_int (of_int DISPLAY_H * z))"
    and "kv_scaled =
           (if v = AP \<and> num_dicts (heap s) (rotations s) AP \<noteq> 0
            then Image_rotate (pixel_pillow R)
                   (Image_resize (pixel_pillow R) kv
                      (py_int (of_int DISPLAY_W * z), py_int (of_int DISPLAY_H * z)))
                   (num_dicts (heap s) (rotations s) AP)
            else Image_resize (pixel_pillow R) kv
                   (py_int (of_int DISPLAY_W * z), py_int (of_int DISPLAY_H * z)))"
    and "drr_at = (- py_int (fst p), - py_int (snd p))"
    and "kv_at = (kv_dicts (heap s) (kv_offsets s) (x_key v) - py_int (fst p),
                  kv_dicts (heap s) (kv_offsets s) (y_key v) - py_int (snd p))"
  shows "\<exists>shown. tk_images (update_match_overlay (pixel_pillow R) s) (Match v) = Some shown \<and>
           im_size shown = (DISPLAY_W, DISPLAY_H) \<and>
           im_size drr_scaled = (py_int (of_int DISPLAY_W * z), py_int (of_int DISPLAY_H * z)) \<and>
           im_size kv_scaled = (py_int (of_int DISPLAY_W * z), py_int (of_int DISPLAY_H * z)) \<and>
           (\<forall>xy. im_getpixel shown xy =
              (if use_color_overlay s
               then [luminance (canvas_pixel drr_scaled drr_at xy),
                     luminance (canvas_pixel kv_scaled kv_at xy),
                     luminance (canvas_pixel kv_scaled kv_at xy)]
               else map2 (\<lambda>d k. (1 - alpha s) * d + alpha s * k)
                      (canvas_pixel drr_scaled drr_at xy) (canvas_pixel kv_scaled kv_at xy)))"
  using update_match_overlay_tk_match[OF assms(1,2), of "pixel_pillow R"]
  unfolding assms(3-8)
  by (simp add: Let_def pasted_pixel pasted_size Image_blend_px_def Image_convert_px_def
      Image_merge_px_def mult.commute)

subsection \<open>Loading a dataset\<close>

text \<open>
  A load that finds at least one raster binds the offsets, rotations, zooms, pans and
  adjustment values to new dictionaries with the default contents, sets alpha to 0.5 and
  the colour overlay off, clears the active view, and makes the working and the original
  rasters the rasters found. The history is left as it was.
\<close>

lemma load_resets_transform:
  assumes "selection \<noteq> ''Select Dataset''" and "dir_exists" and "found k \<noteq> None"
  shows "kv_dicts (heap (load_dataset P selection dir_exists found s))
           (kv_offsets (load_dataset P selection dir_exists found s)) = (\<lambda>k. 0) \<and>
         num_dicts (heap (load_dataset P selection dir_exists found s))
           (rotations (load_dataset P selection dir_exists found s)) = (\<lambda>v. 0) \<and>
         num_dicts (heap (load_dataset P selection dir_exists found s))
           (zoom_levels (load_dataset P selection dir_exists found s)) = (\<lambda>v. 1) \<and>
         pan_dicts (heap (load_dataset P selection dir_exists found s))
           (pan_offsets (load_dataset P selection dir_exists found s)) = (\<lambda>v. (0, 0)) \<and>
         num_dicts (heap (load_dataset P selection dir_exists found s))
           (adjustment_values (load_dataset P selection dir_exists found s) Brightness) = (\<lambda>v. 1) \<and>
         num_dicts (heap (load_dataset P selection dir_exists found s))
           (adjustment_values (load_dataset P selection dir_exists found s) Contrast) = (\<lambda>v. 1) \<and>
         num_dicts (heap (load_dataset P selection dir_exists found s))
           (adjustment_values (load_dataset P selection dir_exists found s) Sharpness) = (\<lambda>v. 1) \<and>
         alpha (load_dataset P selection dir_exists found s) = 1 / 2 \<and>
         \<not> use_color_overlay (load_dataset P selection dir_exists found s) \<and>
         active_view (load_dataset P selection dir_exists found s) = None \<and>
         images (load_dataset P selection dir_exists found s) = found \<and>
         original_images (load_dataset P selection dir_exists found s) = found \<and>
         history (load_dataset P selection dir_exists found s) = history s"
proof -
  have "\<exists>k. found k \<noteq> None"
    using assms(3) by blast
  then show ?thesis
    using assms(1,2)
    by (simp add: load_dataset_eq reset_to_initial_values_def save_initial_state_def Let_def)
qed


subsection \<open>The sample session\<close>

lemma loaded_fields:
  "images loaded = sample_dataset"
  "original_images loaded = sample_dataset"
  "kv_offsets loaded = 14" "rotations loaded = 15" "zoom_levels loaded = 16"
  "pan_offsets loaded = 17" "adjustment_values loaded = adj_refs 18 19 20"
  "next_addr (heap loaded) = 21"
  "alpha loaded = 1 / 2" "use_color_overlay loaded = False"
  "active_view loaded = None" "drag_start loaded = None"
  "current_adjustment_image loaded = DRR_AP"
  "filter_var loaded = ''Select Filter''"
  "length (history loaded) = 1"
  "kv_dicts (heap loaded) 14 = (\<lambda>k. 0)"
  "num_dicts (heap loaded) 15 = (\<lambda>v. 0)"
  "num_dicts (heap loaded) 16 = (\<lambda>v. 1)"
  "pan_dicts (heap loaded) 17 = (\<lambda>v. (0, 0))"
  "num_dicts (heap loaded) 18 = (\<lambda>v. 1)"
  "num_dicts (heap loaded) 19 = (\<lambda>v. 1)"
  "num_dicts (heap loaded) 20 = (\<lambda>v. 1)"
  by (simp_all add: loaded_def load_dataset_eq sample_dataset_def reset_to_initial_values_def
      eval_defs hist_push_short eval_nat_numeral)

lemma allocated_loaded: "allocated loaded"
  by (simp add: allocated_def loaded_fields)

subsection \<open>Undo with a dataset loaded\<close>

lemma nudged_twice_fields:
  "length (history nudged_twice) = 3"
  "original_images nudged_twice = sample_dataset"
  "current_adjustment_image nudged_twice = DRR_AP"
  "kv_offsets nudged_twice = 14"
  "next_addr (heap nudged_twice) = 35"
  "kv_dicts (heap nudged_twice) 14 AP_Y = 2"
  "kv_dicts (heap nudged_twice) 21 AP_Y = 1"
  "kv_dicts (heap nudged_twice) 28 AP_Y = 2"
  "e_kv_offsets (last (butlast (history nudged_twice))) = 21"
  "e_kv_offsets (last (history nudged_twice)) = 28"
  by (simp_all add: nudged_twice_def run_def nudge_kv_def Let_def loaded_fields hist_push_short
      new_entry_def last_hist_push butlast_append)

lemma undone_fields:
  "length (history undone) = 5"
  "kv_offsets undone = 21"
  "kv_dicts (heap undone) 21 AP_Y = 1"
  "next_addr (heap undone) = 56"
  "original_images undone = sample_dataset"
  "current_adjustment_image undone = DRR_AP"
  "e_kv_offsets (last (butlast (history undone))) = 42"
  "kv_dicts (heap undone) 42 AP_Y = 1"
proof -
  have o: "original_images nudged_twice (current_adjustment_image nudged_twice) \<noteq> None"
    by (simp add: nudged_twice_fields sample_dataset_def)
  note u = undo_with_original[of nudged_twice free_pillow, OF _ _ o]
  show "length (history undone) = 5"
    by (simp add: undone_def u(1) nudged_twice_fields)
  show "kv_offsets undone = 21"
    by (simp add: undone_def undo_restores nudged_twice_fields)
  show "kv_dicts (heap undone) 21 AP_Y = 1"
    by (simp add: undone_def undo_kv_below nudged_twice_fields)
  show "next_addr (heap undone) = 56"
    by (simp add: undone_def u(2) nudged_twice_fields)
  show "original_images undone = sample_dataset"
    by (simp add: undone_def nudged_twice_fields)
  show "current_adjustment_image undone = DRR_AP"
    by (simp add: undone_def nudged_twice_fields)
  show "e_kv_offsets (last (butlast (history undone))) = 42"
    by (simp add: undone_def u(1) nudged_twice_fields butlast_append entry_at_def)
  show "kv_dicts (heap undone) 42 AP_Y = 1"
    by (simp add: undone_def u(3) nudged_twice_fields)
qed

text \<open>
  C9 fails on the code. After a load and two nudges down the history has three entries
  and the vertical offset is 2. Undo restores the offset 1 of the entry below the top,
  but the three adjustment scales it sets run \<^verbatim>\<open>_adjust_image\<close> on the target slot, which
  has an original raster, and each run saves the state: the history now has five entries,
  not two, and its top is a new copy of the restored state. A second undo pops that copy
  and restores the one below it: the offset stays 1 and never returns to the 0 of the
  entry that the first nudge left below, and the history has seven entries.
\<close>

theorem undo_leaves_history_longer:
  "kv_dicts (heap loaded) (kv_offsets loaded) AP_Y = 0 \<and>
   length (history nudged_twice) = 3 \<and>
   kv_dicts (heap nudged_twice) (kv_offsets nudged_twice) AP_Y = 2 \<and>
   length (history (run free_pillow [Control_z] nudged_twice)) = 5 \<and>
   kv_dicts (heap (run free_pillow [Control_z] nudged_twice))
     (kv_offsets (run free_pillow [Control_z] nudged_twice)) AP_Y = 1 \<and>
   length (history (run free_pillow [Control_z, Control_z] nudged_twice)) = 7 \<and>
   kv_dicts (heap (run free_pillow [Control_z, Control_z] nudged_twice))
     (kv_offsets (run free_pillow [Control_z, Control_z] nudged_twice)) AP_Y = 1"
proof -
  have o: "original_images undone (current_adjustment_image undone) \<noteq> None"
    by (simp add: undone_fields sample_dataset_def)
  have 1: "run free_pillow [Control_z] nudged_twice = undone"
    by (simp add: run_def undone_def)
  have 2: "run free_pillow [Control_z, Control_z] nudged_twice = undo_last_action free_pillow undone"
    by (simp add: run_def undone_def)
  have l: "length (history (undo_last_action free_pillow undone)) = 7"
    using undo_pushes_with_original[of undone free_pillow, OF _ _ o]
    by (simp add: undone_fields)
  have k: "kv_dicts (heap (undo_last_action free_pillow undone))
      (kv_offsets (undo_last_action free_pillow undone)) AP_Y = 1"
    by (simp add: undo_restores undo_kv_below undone_fields)
  show ?thesis
    unfolding 1 2 using l k by (simp add: undone_fields nudged_twice_fields loaded_fields)
qed

subsection \<open>Undo after a load\<close>

lemma reloaded_fields:
  "history reloaded = history nudged_twice"
  "kv_dicts (heap reloaded) (kv_offsets reloaded) AP_Y = 0"
  "next_addr (heap reloaded) = 42"
  "kv_dicts (heap reloaded) 21 AP_Y = 1"
  "kv_dicts (heap reloaded) 28 AP_Y = 2"
  by (simp_all add: reloaded_def load_dataset_eq sample_dataset_def reset_to_initial_values_def
      save_initial_state_def Let_def nudged_twice_fields)

text \<open>
  C7 fails on the code. A load after two nudges resets the offsets to 0 and leaves the
  history as it was: three entries, none of them a new baseline, the top one with the
  vertical offset 2 of the session before the load. Undo after the load then restores the
  offset 1 of the first nudge, made before the dataset was loaded.
\<close>

theorem undo_after_load_restores_old_offsets:
  "kv_dicts (heap nudged_twice) (kv_offsets nudged_twice) AP_Y = 2 \<and>
   kv_dicts (heap reloaded) (kv_offsets reloaded) AP_Y = 0 \<and>
   history reloaded = history nudged_twice \<and>
   length (history reloaded) = 3 \<and>
   kv_dicts (heap reloaded) (e_kv_offsets (last (history reloaded))) AP_Y = 2 \<and>
   kv_dicts (heap (step free_pillow Control_z reloaded))
     (kv_offsets (step free_pillow Control_z reloaded)) AP_Y = 1"
  by (simp add: reloaded_fields nudged_twice_fields undo_restores undo_kv_below)

subsection \<open>Reachable states are allocated\<close>

lemma entry_allocated_mono: "entry_allocated n e \<Longrightarrow> n \<le> m \<Longrightarrow> entry_allocated m e"
  by (auto simp: entry_allocated_def)

lemma list_all_entry_mono:
  "list_all (entry_allocated n) h \<Longrightarrow> n \<le> m \<Longrightarrow> list_all (entry_allocated m) h"
  by (induction h) (auto intro: entry_allocated_mono)

lemma set_hist_push: "set (hist_push h e) \<subseteq> insert e (set h)"
  by (cases h) (auto simp: hist_push_def Let_def dest: list.set_sel(2))

lemma list_all_hist_push:
  "list_all P h \<Longrightarrow> P e \<Longrightarrow> list_all P (hist_push h e)"
  using set_hist_push[of h e] by (auto simp: list_all_iff)

lemma list_all_butlast: "list_all P h \<Longrightarrow> list_all P (butlast h)"
  by (auto simp: list_all_iff dest: in_set_butlastD)

lemma well_allocated_save:
  assumes "well_allocated t"
  shows "well_allocated (save_state t)"
proof -
  have a: "allocated t" and h: "list_all (entry_allocated (next_addr (heap t))) (history t)"
    using assms by (simp_all add: well_allocated_def)
  have e: "entry_allocated (next_addr (heap t) + 7) (new_entry t)"
    by (simp add: entry_allocated_def new_entry_def)
  have "list_all (entry_allocated (next_addr (heap t) + 7)) (hist_push (history t) (new_entry t))"
    using list_all_entry_mono[OF h, of "next_addr (heap t) + 7"] e
    by (intro list_all_hist_push) simp_all
  then show ?thesis
    using a by (simp add: well_allocated_def allocated_def)
qed

lemma well_allocated_updates [simp]:
  "well_allocated (s\<lparr>images := x1\<rparr>) = well_allocated s"
  "well_allocated (s\<lparr>original_images := x2\<rparr>) = well_allocated s"
  "well_allocated (s\<lparr>alpha := x3\<rparr>) = well_allocated s"
  "well_allocated (s\<lparr>use_color_overlay := x4\<rparr>) = well_allocated s"
  "well_allocated (s\<lparr>filter_var := x5\<rparr>) = well_allocated s"
  "well_allocated (s\<lparr>adj_img_var := x6\<rparr>) = well_allocated s"
  "well_allocated (s\<lparr>initial_state := x7\<rparr>) = well_allocated s"
  "well_allocated (s\<lparr>drag_start := x8\<rparr>) = well_allocated s"
  "well_allocated (s\<lparr>active_view := x9\<rparr>) = well_allocated s"
  "well_allocated (s\<lparr>tk_images := x10\<rparr>) = well_allocated s"
  "well_allocated (s\<lparr>ignore_rotation_callback := x11\<rparr>) = well_allocated s"
  "well_allocated (s\<lparr>current_adjustment_image := x12\<rparr>) = well_allocated s"
  "well_allocated (s\<lparr>canvas_borders := x13\<rparr>) = well_allocated s"
  "well_allocated (s\<lparr>thumb_borders := x14\<rparr>) = well_allocated s"
  "well_allocated (s\<lparr>rotation_scale := x15\<rparr>) = well_allocated s"
  "well_allocated (s\<lparr>rotation_label := x16\<rparr>) = well_allocated s"
  "well_allocated (s\<lparr>zoom_label := x17\<rparr>) = well_allocated s"
  "well_allocated (s\<lparr>brightness_scale := x18\<rparr>) = well_allocated s"
  "well_allocated (s\<lparr>brightness_val := x19\<rparr>) = well_allocated s"
  "well_allocated (s\<lparr>contrast_scale := x20\<rparr>) = well_allocated s"
  "well_allocated (s\<lparr>contrast_val := x21\<rparr>) = well_allocated s"
  "well_allocated (s\<lparr>sharpness_scale := x22\<rparr>) = well_allocated s"
  "well_allocated (s\<lparr>sharpness_val := x23\<rparr>) = well_allocated s"
  "well_allocated (s\<lparr>status_var := x24\<rparr>) = well_allocated s"
  by (simp_all add: well_allocated_def allocated_def)

lemma well_allocated_move_scale [simp]: "well_allocated (move_scale j r s) = well_allocated s"
  by (cases j) simp_all

lemma well_allocated_frames [simp]:
  "well_allocated (kv_add k d s) = well_allocated s"
  "well_allocated (num_set a v r s) = well_allocated s"
  "well_allocated (pan_set a v p s) = well_allocated s"
  "well_allocated (rotations_set v r s) = well_allocated s"
  "well_allocated (zoom_levels_set v r s) = well_allocated s"
  "well_allocated (pan_offsets_set v p s) = well_allocated s"
  "well_allocated (adjustment_values_set j v r s) = well_allocated s"
  "well_allocated (show_rotation P r s) = well_allocated s"
  "well_allocated (show_adjustment j r s) = well_allocated s"
  "well_allocated (update_match_overlay P s) = well_allocated s"
  by (simp_all add: well_allocated_def allocated_def)

lemma well_allocated_cong:
  "heap a = heap b \<Longrightarrow> history a = history b \<Longrightarrow> kv_offsets a = kv_offsets b \<Longrightarrow>
   rotations a = rotations b \<Longrightarrow> zoom_levels a = zoom_levels b \<Longrightarrow>
   pan_offsets a = pan_offsets b \<Longrightarrow> adjustment_values a = adjustment_values b \<Longrightarrow>
   well_allocated a = well_allocated b"
  by (simp add: well_allocated_def allocated_def)

lemma well_allocated_binds:
  assumes "well_allocated s"
  shows "well_allocated
     (bind_adjustment_values d5 (bind_pan_offsets d4 (bind_zoom_levels d3
        (bind_rotations d2 (bind_kv_offsets d1 s)))))"
proof -
  have h: "list_all (entry_allocated (next_addr (heap s))) (history s)"
    using assms by (simp add: well_allocated_def)
  show ?thesis
    using list_all_entry_mono[OF h, of "Suc (Suc (Suc (Suc (next_addr (heap s))))) + 3"]
    by (simp add: well_allocated_def allocated_def)
qed

lemma well_allocated_adjust_image:
  "well_allocated s \<Longrightarrow> well_allocated (adjust_image P k r s)"
  by (simp add: adjust_image_def Let_def well_allocated_save split: option.splits)

lemma well_allocated_scale_set: "well_allocated s \<Longrightarrow> well_allocated (scale_set P k r s)"
  by (simp add: scale_set_def Let_def well_allocated_adjust_image)

lemma well_allocated_show_adjustments:
  "well_allocated s \<Longrightarrow> well_allocated (show_adjustments P v s)"
  by (simp add: show_adjustments_def Let_def well_allocated_scale_set)

lemma well_allocated_reset_scales: "well_allocated s \<Longrightarrow> well_allocated (reset_scales P s)"
  by (simp add: reset_scales_def Let_def well_allocated_scale_set)

lemma well_allocated_undo:
  assumes "well_allocated s"
  shows "well_allocated (undo_last_action P s)"
proof (cases "length (history s) \<le> 1")
  case True
  then show ?thesis
    using assms by (simp add: undo_last_action_def)
next
  case False
  then have ne: "butlast (history s) \<noteq> []"
    by (cases "history s") auto
  have h: "list_all (entry_allocated (next_addr (heap s))) (butlast (history s))"
    using assms by (simp add: well_allocated_def list_all_butlast)
  then have e: "entry_allocated (next_addr (heap s)) (last (butlast (history s)))"
    using ne by (simp add: list_all_iff)
  let ?t = "s\<lparr>history := butlast (history s),
               kv_offsets := e_kv_offsets (last (butlast (history s))),
               rotations := e_rotations (last (butlast (history s))),
               zoom_levels := e_zoom_levels (last (butlast (history s))),
               pan_offsets := e_pan_offsets (last (butlast (history s))),
               adjustment_values := e_adjustment_values (last (butlast (history s))),
               alpha := e_alpha (last (butlast (history s))),
               use_color_overlay := e_use_color_overlay (last (butlast (history s)))\<rparr>"
  have w: "well_allocated ?t"
    using h e by (simp add: well_allocated_def allocated_def entry_allocated_def)
  show ?thesis
    using False w
    by (simp add: undo_last_action_def Let_def well_allocated_show_adjustments)
qed

lemma step_well_allocated: "well_allocated s \<Longrightarrow> well_allocated (step P g s)"
proof (cases g)
  case (Dataset_menu selection dir_exists found)
  assume w: "well_allocated s"
  have c: "well_allocated (s\<lparr>images := found, original_images := found\<rparr>)"
    using w by simp
  show ?thesis
    using w well_allocated_binds[OF c]
    by (simp add: Dataset_menu load_dataset_eq reset_to_initial_values_def
          save_initial_state_def Let_def)
next
  case Restore_to_default_button
  assume w: "well_allocated s"
  show ?thesis
  proof (cases "initial_state s")
    case None
    then show ?thesis
      using w by (simp add: Restore_to_default_button reset_to_default_def)
  next
    case (Some ini)
    let ?s0 = "s\<lparr>images := (\<lambda>k. case original_images s k of
                                        Some img \<Rightarrow> Some img
                                      | None \<Rightarrow> images s k)\<rparr>"
    have c: "well_allocated ?s0"
      using w by simp
    show ?thesis
      using well_allocated_binds[OF c]
      by (simp add: Restore_to_default_button reset_to_default_def Some Let_def
          well_allocated_save well_allocated_reset_scales)
  qed
next
  case Control_z
  assume "well_allocated s"
  then show ?thesis
    by (simp add: Control_z well_allocated_undo)
next
  case (Thumbnail_click k)
  assume "well_allocated s"
  then show ?thesis
    by (simp add: Thumbnail_click select_image_for_adjustment_def Let_def
        well_allocated_show_adjustments)
next
  case (Adjust_menu k)
  assume "well_allocated s"
  then show ?thesis
    by (simp add: Adjust_menu select_image_for_adjustment_def Let_def
        well_allocated_show_adjustments)
next
  case (Adjust_scale k r)
  assume "well_allocated s"
  then show ?thesis
    by (simp add: Adjust_scale well_allocated_scale_set)
next
  case Reset_adjustments_button
  assume "well_allocated s"
  then show ?thesis
    by (simp add: Reset_adjustments_button reset_adjustments_def Let_def well_allocated_save
        well_allocated_reset_scales split: option.splits)
qed (auto simp: activate_drag_def drag_kv_def nudge_kv_def mouse_scroll_def zoom_def
       rotation_scale_set_def rotate_active_def blend_scale_def color_overlay_check_def
       apply_selected_filter_def Let_def well_allocated_save
       split: option.splits)

lemma well_allocated_startup: "well_allocated (startup P)"
  by (simp add: well_allocated_def allocated_def entry_allocated_def eval_defs hist_push_short)

lemma run_well_allocated: "well_allocated s \<Longrightarrow> well_allocated (run P gs s)"
  by (induction gs arbitrary: s) (simp_all add: run_def step_well_allocated)

lemma reachable_allocated: "allocated (run P gs (startup P))"
  using run_well_allocated[where s = "startup P" and P = P and gs = gs, OF well_allocated_startup]
  by (simp add: well_allocated_def)

section \<open>Instances on the sample session\<close>

subsection \<open>The coupled vertical offset, zoom and filters\<close>

lemma pressed_fields:
  "drag_start pressed = Some (10, 10)"
  "active_view pressed = Some AP"
  "images pressed = sample_dataset"
  "kv_offsets pressed = 14"
  "kv_dicts (heap pressed) 14 = (\<lambda>k. 0)"
  by (simp_all add: pressed_def activate_drag_def Let_def loaded_fields)

text \<open>A session with an undo, and a drag by (3, -2) after a press on the AP canvas.\<close>

theorem kv_offsets_stay_coupled_witness:
  "list_all kv_coupled
     (trace free_pillow [Arrow_key 0 1, Control_z, Arrow_key 2 3] (startup free_pillow)) \<and>
   drag_start pressed = Some (10, 10) \<and> images pressed (kv_slot AP) \<noteq> None \<and>
   kv_dicts (heap (drag_kv free_pillow \<lparr>ev_x = 13, ev_y = 8, ev_delta = 0\<rparr> AP pressed))
     (kv_offsets (drag_kv free_pillow \<lparr>ev_x = 13, ev_y = 8, ev_delta = 0\<rparr> AP pressed)) =
     (\<lambda>k. 0)(AP_X := 3, AP_Y := - 2, LAT_Y := - 2)"
  using kv_offsets_stay_coupled[of free_pillow "[Arrow_key 0 1, Control_z, Arrow_key 2 3]"
      pressed 10 10 AP "\<lparr>ev_x = 13, ev_y = 8, ev_delta = 0\<rparr>" 0 0]
  by (simp add: pressed_fields sample_dataset_def)

text \<open>One zoom step up from 1.0 with the cursor at (5, 0): the pan becomes (-0.5, 0).\<close>

theorem zoom_at_cursor_witness:
  "images loaded (drr_slot AP) \<noteq> None \<and> images loaded (kv_slot AP) \<noteq> None \<and>
   allocated loaded \<and> num_dicts (heap loaded) (zoom_levels loaded) AP = 1 \<and>
   (\<exists>s'. zoom free_pillow \<lparr>ev_x = 5, ev_y = 0, ev_delta = 1\<rparr> AP loaded = Inr s' \<and>
      num_dicts (heap s') (zoom_levels s') AP = 11 / 10 \<and>
      pan_dicts (heap s') (pan_offsets s') AP = (- (1 / 2), 0) \<and>
      history s' = hist_push (history loaded) (last (history s')))"
  using zoom_at_cursor[of loaded AP 1 "11 / 10" "\<lparr>ev_x = 5, ev_y = 0, ev_delta = 1\<rparr>" free_pillow]
  by (simp add: loaded_fields allocated_loaded sample_dataset_def canvasx_def canvasy_def)

lemma filter_chosen_fields:
  "filter_var filter_chosen = ''Low-Dose Boost''"
  "current_adjustment_image filter_chosen = DRR_AP"
  "original_images filter_chosen = sample_dataset"
  "images filter_chosen = sample_dataset"
  by (simp_all add: filter_chosen_def loaded_fields)

lemma low_dose_boost: "map_of (funcs P) ''Low-Dose Boost'' = Some (f_collins_bone P)"
  by (simp add: funcs_def)

text \<open>The filter \<^verbatim>\<open>Low-Dose Boost\<close> on the slot DRR-AP.\<close>

theorem filter_from_original_witness:
  "map_of (funcs free_pillow) (filter_var filter_chosen) = Some (f_collins_bone free_pillow) \<and>
   original_images filter_chosen (current_adjustment_image filter_chosen) =
     Some (Src ''1_drr_ap.png'') \<and>
   images (apply_selected_filter free_pillow filter_chosen) DRR_AP =
     Some (Convert (Enh_Contrast (Filter (Autocontrast (Convert (Src ''1_drr_ap.png'') ''L'') 2)
             (UnsharpMask 2 170 3)) (125 / 100)) ''RGB'') \<and>
   images (apply_selected_filter free_pillow (apply_selected_filter free_pillow filter_chosen)) =
     images (apply_selected_filter free_pillow filter_chosen) \<and>
   images (apply_selected_filter free_pillow filter_chosen) KV_AP = Some (Src ''2_kv_ap.png'') \<and>
   original_images (apply_selected_filter free_pillow filter_chosen) = sample_dataset"
  using filter_from_original[of free_pillow filter_chosen "f_collins_bone free_pillow"
      "Src ''1_drr_ap.png''" sample_dataset]
  by (simp add: filter_chosen_fields low_dose_boost sample_dataset_def f_collins_bone_def
      free_pillow_def)


subsection \<open>The composed raster\<close>

lemma pixel_nudged_fields:
  "images pixel_nudged = pixel_dataset"
  "num_dicts (heap pixel_nudged) (zoom_levels pixel_nudged) AP = 1"
  "num_dicts (heap pixel_nudged) (rotations pixel_nudged) AP = 0"
  "pan_dicts (heap pixel_nudged) (pan_offsets pixel_nudged) AP = (0, 0)"
  "kv_dicts (heap pixel_nudged) (kv_offsets pixel_nudged) AP_X = 0"
  "kv_dicts (heap pixel_nudged) (kv_offsets pixel_nudged) AP_Y = 1"
  "alpha pixel_nudged = 1 / 2" "use_color_overlay pixel_nudged = False"
  by (simp_all add: pixel_nudged_def load_dataset_eq pixel_dataset_def
      reset_to_initial_values_def nudge_kv_def eval_defs eval_nat_numeral)

text \<open>
  After the load of the ramps and one nudge down, the pixel at (10, 20) of the AP view: an
  even blend of the DRR pixel at (10, 20) and the KV pixel at (10, 19).
\<close>

theorem composite_merge_witness:
  "images pixel_nudged (drr_slot AP) = Some ramp_drr \<and>
   images pixel_nudged (kv_slot AP) = Some ramp_kv \<and>
   (\<exists>shown. tk_images (update_match_overlay (pixel_pillow still_pillow) pixel_nudged) (Match AP) =
        Some shown \<and>
      im_size shown = (600, 400) \<and>
      im_getpixel shown (10, 20) = [5, 10, 29 / 2])"
proof -
  have a: "images pixel_nudged (drr_slot AP) = Some ramp_drr"
    and b: "images pixel_nudged (kv_slot AP) = Some ramp_kv"
    by (simp_all add: pixel_nudged_fields pixel_dataset_def)
  from composite_merge[OF a b refl refl refl refl refl refl, of still_pillow]
  obtain shown where
    s: "tk_images (update_match_overlay (pixel_pillow still_pillow) pixel_nudged) (Match AP) =
          Some shown"
    and z: "im_size shown = (DISPLAY_W, DISPLAY_H)"
    and p: "im_getpixel shown (10, 20) =
          map2 (\<lambda>d k. (1 - 1 / 2) * d + 1 / 2 * k)
            (canvas_pixel ((ramp_drr)\<lparr>im_size := (600, 400)\<rparr>) (0, 0) (10, 20))
            (canvas_pixel ((ramp_kv)\<lparr>im_size := (600, 400)\<rparr>) (0, 1) (10, 20))"
    by (auto simp: pixel_nudged_fields still_pillow_def py_int_def DISPLAY_W_def DISPLAY_H_def)
  have "im_getpixel shown (10, 20) = [5, 10, 29 / 2]"
    by (simp add: p canvas_pixel_def ramp_drr_def ramp_kv_def)
  then show ?thesis
    using a b s z by (simp add: DISPLAY_W_def DISPLAY_H_def)
qed


lemma ceiling_minus_half: "\<lceil>- (1 / 2 :: real)\<rceil> = 0"
  by (rule ceiling_unique) simp_all

lemma zoomed_fields:
  "images zoomed = sample_dataset"
  "pan_dicts (heap zoomed) (pan_offsets zoomed) AP = (- (1 / 2), 0)"
  "num_dicts (heap zoomed) (zoom_levels zoomed) AP = 11 / 10"
  "num_dicts (heap zoomed) (rotations zoomed) AP = 0"
  "kv_dicts (heap zoomed) (kv_offsets zoomed) = (\<lambda>k. 0)"
  "alpha zoomed = 1 / 2" "use_color_overlay zoomed = False"
  by (simp_all add: zoomed_def zoom_def Let_def loaded_fields sample_dataset_def
      canvasx_def canvasy_def)

lemma zoomed_displayed:
  "tk_images zoomed (Match AP) =
     Some (Blend
       (Paste (New ''RGB'' (600, 400) (0, 0, 0)) (Resize (Src ''1_drr_ap.png'') (660, 440)) (0, 0))
       (Paste (New ''RGB'' (600, 400) (0, 0, 0)) (Resize (Src ''2_kv_ap.png'') (660, 440)) (0, 0))
       (1 / 2))"
proof -
  let ?t = "save_state ((zoom_levels_set AP (11 / 10)
              (pan_offsets_set AP (- (1 / 2), 0) loaded))\<lparr>zoom_label := 110\<rparr>)"
  have z: "zoomed = update_match_overlay free_pillow ?t"
    by (simp add: zoomed_def zoom_def Let_def loaded_fields sample_dataset_def
        canvasx_def canvasy_def py_int_def)
  have "tk_images (update_match_overlay free_pillow ?t) (Match AP) =
     Some (Blend
       (Paste (New ''RGB'' (600, 400) (0, 0, 0)) (Resize (Src ''1_drr_ap.png'') (660, 440)) (0, 0))
       (Paste (New ''RGB'' (600, 400) (0, 0, 0)) (Resize (Src ''2_kv_ap.png'') (660, 440)) (0, 0))
       (1 / 2))"
    using update_match_overlay_tk_match[of ?t AP "Src ''1_drr_ap.png''" "Src ''2_kv_ap.png''"
        free_pillow]
    by (simp add: loaded_fields sample_dataset_def free_pillow_def DISPLAY_W_def DISPLAY_H_def
        py_int_def Let_def ceiling_minus_half)
  then show ?thesis
    by (simp only: z)
qed

text \<open>
  After the zoom step the pan of AP is (-0.5, 0), and the DRR is pasted at (0, 0), which
  is not (0.5, 0).
\<close>

theorem paste_offset_is_truncated:
  "pan_dicts (heap zoomed) (pan_offsets zoomed) AP = (- (1 / 2), 0) \<and>
   tk_images zoomed (Match AP) =
     Some (Blend
       (Paste (New ''RGB'' (600, 400) (0, 0, 0)) (Resize (Src ''1_drr_ap.png'') (660, 440)) (0, 0))
       (Paste (New ''RGB'' (600, 400) (0, 0, 0)) (Resize (Src ''2_kv_ap.png'') (660, 440)) (0, 0))
       (1 / 2)) \<and>
   (real_of_int 0, real_of_int 0) \<noteq>
     (- fst (pan_dicts (heap zoomed) (pan_offsets zoomed) AP),
      - snd (pan_dicts (heap zoomed) (pan_offsets zoomed) AP))"
  by (simp add: zoomed_fields zoomed_displayed)

subsection \<open>The history bound\<close>

text \<open>
  From start-up: a session with an undo; a save; 21 entries pushed in turn, of which the
  second is the oldest left; and 21 nudges.
\<close>

theorem history_bound_witness:
  "length (history (startup free_pillow)) \<le> 20 \<and>
   20 < length (map (\<lambda>n. entry_at n 0 False) [0..<21]) \<and>
   every_push free_pillow (replicate 21 (Arrow_key 0 1)) (startup free_pillow) \<and>
   length (history (run free_pillow [Control_z, Arrow_key 1 0] (startup free_pillow))) \<le> 20 \<and>
   history (save_state (startup free_pillow)) =
     history (startup free_pillow) @ [new_entry (startup free_pillow)] \<and>
   foldl hist_push (history (startup free_pillow)) (map (\<lambda>n. entry_at n 0 False) [0..<21]) =
     map (\<lambda>n. entry_at n 0 False) [1..<21] \<and>
   hd (foldl hist_push (history (startup free_pillow)) (map (\<lambda>n. entry_at n 0 False) [0..<21])) =
     entry_at 1 0 False \<and>
   length (history (run free_pillow (replicate 21 (Arrow_key 0 1)) (startup free_pillow))) = 20 \<and>
   hd (history (run free_pillow (replicate 21 (Arrow_key 0 1)) (startup free_pillow))) =
     last (history (run free_pillow (replicate 2 (Arrow_key 0 1)) (startup free_pillow)))"
proof -
  let ?s = "startup free_pillow :: expr app"
  let ?es = "map (\<lambda>n. entry_at n 0 False) [0..<21]"
  have l: "length (history ?s) \<le> 20"
    by (simp add: startup_history_length)
  note hb = history_bound[of ?s free_pillow "[Control_z, Arrow_key 1 0]" ?es
      "replicate 21 (Arrow_key 0 1)", OF l]
  have 1: "length (history (run free_pillow [Control_z, Arrow_key 1 0] ?s)) \<le> 20"
    using hb by blast
  have 2: "history (save_state ?s) = history ?s @ [new_entry ?s]"
    using hb by (simp add: startup_history_length)
  have le: "20 < length ?es"
    by simp
  have 3: "foldl hist_push (history ?s) ?es = drop (length ?es - 20) ?es"
    and 4: "hd (foldl hist_push (history ?s) ?es) = rev ?es ! 19"
    using hb le by blast+
  have ep: "every_push free_pillow (replicate 21 (Arrow_key 0 1)) ?s \<and>
      20 < length (replicate 21 (Arrow_key 0 1 :: expr gesture))"
    by (simp add: every_push_arrows)
  have 5: "length (history (run free_pillow (replicate 21 (Arrow_key 0 1)) ?s)) = 20"
    using hb ep by blast
  have "hd (history (run free_pillow (replicate 21 (Arrow_key 0 1)) ?s)) =
      last (history (run free_pillow
        (take (length (replicate 21 (Arrow_key 0 1 :: expr gesture)) - 19)
           (replicate 21 (Arrow_key 0 1))) ?s))"
    using hb ep by blast
  then have 6: "hd (history (run free_pillow (replicate 21 (Arrow_key 0 1)) ?s)) =
      last (history (run free_pillow (replicate 2 (Arrow_key 0 1)) ?s))"
    by simp
  have 7: "drop (length ?es - 20) ?es = map (\<lambda>n. entry_at n 0 False) [1..<21]"
    by (simp add: drop_map)
  have 8: "rev ?es ! 19 = entry_at 1 0 False"
    by (simp add: rev_nth)
  show ?thesis
    using l 1 2 3 4 5 6 7 8 by (simp add: every_push_arrows)
qed


subsection \<open>Rotation scope\<close>

text \<open>
  The rotation scale changes nothing unless AP is the active view, a wheel turn over the
  LAT canvas changes nothing, and the composed LAT raster does not depend on what the
  library's rotation computes.
\<close>

lemma rotation_scale_needs_ap: "active_view s \<noteq> Some AP \<Longrightarrow> rotate_active P a s = s"
  by (simp add: rotate_active_def)

lemma rotation_scale_set_needs_ap:
  "active_view s \<noteq> Some AP \<Longrightarrow>
   rotation_scale_set P a s = s\<lparr>rotation_scale := limit (- 180) 180 a\<rparr>"
  by (simp add: rotation_scale_set_def rotate_active_def Let_def)

lemma wheel_off_ap: "mouse_scroll P e LAT s = s"
  by (simp add: mouse_scroll_def)

lemma overlay_view_lat_never_rotates:
  "tk_images (overlay_view (P\<lparr>Image_rotate := r\<rparr>) LAT s) = tk_images (overlay_view P LAT s)"
  by (cases "images s DRR_LAT"; cases "images s KV_LAT")
     (simp_all add: overlay_view_def Let_def create_color_overlay_def)

lemma lat_never_rotated:
  "tk_images (update_match_overlay (P\<lparr>Image_rotate := r\<rparr>) s) (Match LAT) =
   tk_images (update_match_overlay P s) (Match LAT)"
proof -
  have "tk_images (overlay_view (P\<lparr>Image_rotate := r\<rparr>) LAT
          (overlay_view (P\<lparr>Image_rotate := r\<rparr>) AP s)) (Match LAT) =
        tk_images (overlay_view P LAT (overlay_view P AP s)) (Match LAT)"
    by (cases "images s DRR_LAT"; cases "images s KV_LAT")
       (simp_all add: overlay_view_def[of _ LAT] Let_def create_color_overlay_def
          overlay_view_tk_other)
  then show ?thesis
    by (simp add: update_match_overlay_def thumb_tk_match)
qed

end
